theory Spec2Isabelle
  imports Complex_Main "HOL-Library.Multiset"
begin

section \<open>JavaScript values used by the two screens\<close>

text \<open>
  The dashboard screen (the list view) and the detail screen are React components
  written in TypeScript. Their logic is embedded function by function; the names are
  those of the source. What the source takes from the platform is modelled as follows.

  \<^item> Strings are \<open>string\<close>: sequences of the code units below 256, read as
    Latin-1. \<open>toLowerCase\<close> and \<open>trim\<close> are written out for these.
  \<^item> Numbers are binary64 values, and their arithmetic rounds as IEEE 754 has it
    (\<open>number\<close>, \<open>binary64\<close>).
  \<^item> What depends on the locale, on the clock or on the shortest-digits printing of a
    number is a field of the record \<open>platform\<close>, a parameter of every function that
    uses it.
  \<^item> A rejected promise or a thrown exception is the left injection of a sum.
\<close>

datatype error = Error string

record platform =
  localeCompare :: "string \<Rightarrow> string \<Rightarrow> int"
    \<comment> \<open>\<open>a.localeCompare(b)\<close>: negative, zero or positive\<close>
  numberToString :: "rat \<Rightarrow> string"
    \<comment> \<open>\<open>Number::toString\<close> of a finite value, which \<open>toFixed\<close> calls from \<open>10^21\<close> on\<close>
  now :: int
    \<comment> \<open>\<open>new Date().getTime()\<close>, in milliseconds\<close>
  parseDate :: "string \<Rightarrow> int option"
    \<comment> \<open>\<open>new Date(s).getTime()\<close>; \<open>None\<close> is the invalid date\<close>
  toLocaleDateString :: "int \<Rightarrow> string"

subsection \<open>Strings\<close>

text \<open>The capital letters: \<open>A\<close> to \<open>Z\<close>, and the accented ones from 192 to 222 (215 is
  the multiplication sign). The small letter of each is 32 further.\<close>

definition isUpper :: "char \<Rightarrow> bool" where
  "isUpper c =
     ((65 \<le> (of_char c :: nat) \<and> (of_char c :: nat) \<le> 90)
      \<or> (192 \<le> (of_char c :: nat) \<and> (of_char c :: nat) \<le> 222 \<and> (of_char c :: nat) \<noteq> 215))"

definition lowerChar :: "char \<Rightarrow> char" where
  "lowerChar c = (if isUpper c then char_of ((of_char c :: nat) + 32) else c)"

definition toLowerCase :: "string \<Rightarrow> string" where
  "toLowerCase s = map lowerChar s"

text \<open>What \<open>trim\<close> strips, white space and line terminators: the characters 9 to 13,
  the space and the no-break space.\<close>

definition isSpace :: "char \<Rightarrow> bool" where
  "isSpace c =
     ((of_char c :: nat) = 32 \<or> (of_char c :: nat) = 160
      \<or> (9 \<le> (of_char c :: nat) \<and> (of_char c :: nat) \<le> 13))"

definition trim :: "string \<Rightarrow> string" where
  "trim s = rev (dropWhile isSpace (rev (dropWhile isSpace s)))"

text \<open>\<open>startsWith s q\<close>: \<open>q\<close> is a prefix of \<open>s\<close>.\<close>

fun startsWith :: "string \<Rightarrow> string \<Rightarrow> bool" where
  "startsWith s [] = True"
| "startsWith [] (q # qs) = False"
| "startsWith (c # cs) (q # qs) = (c = q \<and> startsWith cs qs)"

text \<open>\<open>s.includes(q)\<close> (the name is a keyword of Isabelle): \<open>q\<close> occurs in \<open>s\<close> as a contiguous substring.\<close>

fun includesStr :: "string \<Rightarrow> string \<Rightarrow> bool" where
  "includesStr [] q = (q = [])"
| "includesStr (c # cs) q = (startsWith (c # cs) q \<or> includesStr cs q)"

text \<open>\<open>parts.join(", ")\<close>.\<close>

fun join :: "string \<Rightarrow> string list \<Rightarrow> string" where
  "join sep [] = []"
| "join sep [x] = x"
| "join sep (x # y # ys) = x @ sep @ join sep (y # ys)"

subsection \<open>Numbers and their arithmetic\<close>

text \<open>
  A JavaScript number is a binary64 value: a finite value, held as the rational it
  denotes, one of the two infinities, or \<open>NaN\<close>. The zero of either sign is
  \<open>Finite 0\<close>: the code never divides by a variable, and prints, adds and tests both
  zeros alike.
\<close>

datatype number = Finite rat | PosInfinity | NegInfinity | NaN

text \<open>\<open>log2floor n\<close> is the position of the leading bit of \<open>n \<ge> 1\<close>.\<close>

function log2floor :: "int \<Rightarrow> int" where
  "log2floor n = (if n < 2 then 0 else 1 + log2floor (n div 2))"
  by pat_completeness auto
termination by (relation "measure nat") auto

declare log2floor.simps [simp del]

definition pow2 :: "int \<Rightarrow> rat" where
  "pow2 k = (if 0 \<le> k then 2 ^ nat k else 1 / 2 ^ nat (- k))"

text \<open>The binary exponent of \<open>x > 0\<close>: the \<open>e\<close> with \<open>2^e \<le> x < 2^(e + 1)\<close>. The quotient
  of a numerator with leading bit \<open>i\<close> and a denominator with leading bit \<open>j\<close> lies
  between \<open>2^(i - j - 1)\<close> and \<open>2^(i - j + 1)\<close>.\<close>

definition binaryExponent :: "rat \<Rightarrow> int" where
  "binaryExponent x =
     (let (a, b) = quotient_of x;
          e = log2floor a - log2floor b
      in if pow2 e \<le> x then e else e - 1)"

definition roundHalfEven :: "rat \<Rightarrow> int" where
  "roundHalfEven m =
     (let f = \<lfloor>m\<rfloor>; d = m - of_int f
      in if d < 1 / 2 then f else if 1 / 2 < d then f + 1 else if even f then f else f + 1)"

text \<open>
  The binary64 value of a real result (IEEE 754, round to nearest, ties to even): 53
  significant bits at the exponent of the value, no exponent below \<open>-1022\<close> (the
  subnormal numbers), and an infinity from \<open>2^1024\<close> on.
\<close>

definition binary64 :: "rat \<Rightarrow> number" where
  "binary64 x =
     (if x = 0 then Finite 0
      else
        let a = \<bar>x\<bar>;
            e = max (binaryExponent a) (- 1022);
            q = pow2 (e - 52);
            n = roundHalfEven (a / q)
        in if 1024 \<le> e \<or> (e = 1023 \<and> n = 2 ^ 53)
           then (if x < 0 then NegInfinity else PosInfinity)
           else Finite (sgn x * of_int n * q))"

text \<open>\<open>a + b\<close>, \<open>a * b\<close> and \<open>a / b\<close> on numbers.\<close>

fun numAdd :: "number \<Rightarrow> number \<Rightarrow> number" where
  "numAdd (Finite x) (Finite y) = binary64 (x + y)"
| "numAdd NaN b = NaN"
| "numAdd a NaN = NaN"
| "numAdd PosInfinity NegInfinity = NaN"
| "numAdd NegInfinity PosInfinity = NaN"
| "numAdd PosInfinity b = PosInfinity"
| "numAdd a PosInfinity = PosInfinity"
| "numAdd NegInfinity b = NegInfinity"
| "numAdd a NegInfinity = NegInfinity"

fun numMul :: "number \<Rightarrow> number \<Rightarrow> number" where
  "numMul (Finite x) (Finite y) = binary64 (x * y)"
| "numMul NaN b = NaN"
| "numMul a NaN = NaN"
| "numMul PosInfinity (Finite y) =
     (if y = 0 then NaN else if 0 < y then PosInfinity else NegInfinity)"
| "numMul NegInfinity (Finite y) =
     (if y = 0 then NaN else if 0 < y then NegInfinity else PosInfinity)"
| "numMul (Finite x) PosInfinity =
     (if x = 0 then NaN else if 0 < x then PosInfinity else NegInfinity)"
| "numMul (Finite x) NegInfinity =
     (if x = 0 then NaN else if 0 < x then NegInfinity else PosInfinity)"
| "numMul PosInfinity PosInfinity = PosInfinity"
| "numMul NegInfinity NegInfinity = PosInfinity"
| "numMul PosInfinity NegInfinity = NegInfinity"
| "numMul NegInfinity PosInfinity = NegInfinity"

fun numDiv :: "number \<Rightarrow> number \<Rightarrow> number" where
  "numDiv (Finite x) (Finite y) =
     (if y = 0 then (if x = 0 then NaN else if 0 < x then PosInfinity else NegInfinity)
      else binary64 (x / y))"
| "numDiv NaN b = NaN"
| "numDiv a NaN = NaN"
| "numDiv (Finite x) PosInfinity = Finite 0"
| "numDiv (Finite x) NegInfinity = Finite 0"
| "numDiv PosInfinity (Finite y) = (if y < 0 then NegInfinity else PosInfinity)"
| "numDiv NegInfinity (Finite y) = (if y < 0 then PosInfinity else NegInfinity)"
| "numDiv PosInfinity b = NaN"
| "numDiv NegInfinity b = NaN"

subsection \<open>Printing\<close>

definition digitChar :: "nat \<Rightarrow> char" where
  "digitChar d = ''0123456789'' ! (d mod 10)"

text \<open>The decimal digits of a natural number, \<open>''0''\<close> for zero.\<close>

fun natToString :: "nat \<Rightarrow> string" where
  "natToString n = (if n < 10 then [digitChar n] else natToString (n div 10) @ [digitChar n])"

declare natToString.simps [simp del]

definition intToString :: "int \<Rightarrow> string" where
  "intToString i = (if i < 0 then ''-'' @ natToString (nat (- i)) else natToString (nat i))"

text \<open>
  \<open>x.toFixed(f)\<close> after ECMA-262, 21.1.3.3: a value that is not finite is printed by
  \<open>Number::toString\<close>; otherwise the sign comes first; from \<open>10^21\<close> on the digits are
  those of \<open>Number::toString\<close>; below, \<open>n\<close> is the integer nearest to \<open>x * 10^f\<close>, the
  larger one of two, its digits are padded with zeros to \<open>f + 1\<close> places and the point
  goes before the last \<open>f\<close> of them.
\<close>

definition toFixed :: "platform \<Rightarrow> nat \<Rightarrow> number \<Rightarrow> string" where
  "toFixed P f x =
     (case x of
        NaN \<Rightarrow> ''NaN''
      | PosInfinity \<Rightarrow> ''Infinity''
      | NegInfinity \<Rightarrow> ''-Infinity''
      | Finite r \<Rightarrow>
          (let s = (if r < 0 then ''-'' else '''');
               a = (if r < 0 then - r else r)
           in if 10 ^ 21 \<le> a then s @ numberToString P a
              else
                let n = nat \<lfloor>a * 10 ^ f + 1 / 2\<rfloor>;
                    m = natToString n;
                    m' = (if length m \<le> f then replicate (f + 1 - length m) (CHR ''0'') @ m else m)
                in if f = 0 then s @ m'
                   else s @ take (length m' - f) m' @ ''.'' @ drop (length m' - f) m'))"

section \<open>The remote data client\<close>

text \<open>
  The module \<open>@/api/api\<close> is outside the sources at hand. Its types are taken from the
  way the two screens use them, and its functions are the fields of the record \<open>api\<close>:
  one answer for each request, \<open>Inl\<close> for a rejected promise. The dates of a request
  are kept symbolically (\<open>Today\<close>, \<open>WeekAgo\<close>, ...), since the source computes them
  from the clock.
\<close>

record Address =
  street :: "string option"
  city :: "string option"
  state :: "string option"
  country :: "string option"

record PvSystemMetadata =
  pvSystemId :: string
  sysName :: string
  sysAddress :: Address
  sysPictureURL :: "string option"
  sysPeakPower :: "number option"
  lastImport :: string

record Channel =
  channelName :: string
  channelValue :: "number option"

record FlowStatus =
  isOnline :: bool

record FlowData =
  logDateTime :: "string option"
  channels :: "Channel list option"

record FlowDataResponse =
  flowStatus :: "FlowStatus option"
  flowData :: "FlowData option"

record AggregatedRow =
  rowLogDateTime :: string
  rowChannels :: "Channel list option"

record AggregatedDataResponse =
  aggrPvSystemId :: string
  aggrDeviceId :: "string option"
  aggrData :: "AggregatedRow list"

datatype DateRef = Today | WeekAgo | MonthAgo | YearAgo

datatype AggrQuery =
    FromDuration DateRef nat "string option"
  | PeriodTotal string

record WeatherData =
  weatherLogDateTime :: "string option"
  weatherChannels :: "Channel list option"

record CurrentWeatherResponse =
  weatherData :: "WeatherData option"

record SystemMessage =
  stateSeverity :: string
  stateCode :: int
  messageText :: string

record DeviceMetadata =
  deviceId :: string
  deviceName :: string

record HistoricalPoint =
  pointLogDateTime :: string
  pointLogDuration :: nat
  pointChannels :: "Channel list"

record HistoricalDataResponse =
  histPvSystemId :: string
  histDeviceId :: "string option"
  histData :: "HistoricalPoint list"

record api =
  getPvSystems :: "nat \<Rightarrow> nat \<Rightarrow> error + PvSystemMetadata list option"
  getPvSystemDetails :: "string \<Rightarrow> error + PvSystemMetadata"
  getPvSystemFlowData :: "string \<Rightarrow> error + FlowDataResponse option"
  getPvSystemAggregatedData :: "string \<Rightarrow> AggrQuery \<Rightarrow> error + AggregatedDataResponse"
  getPvSystemHistoricalData :: "string \<Rightarrow> error + HistoricalDataResponse option"
  getCurrentWeather :: "string \<Rightarrow> error + CurrentWeatherResponse"
  getPvSystemMessages :: "string \<Rightarrow> error + SystemMessage list option"
  getPvSystemDevices :: "string \<Rightarrow> error + DeviceMetadata list option"

section \<open>The dashboard screen\<close>

subsection \<open>Records of the list\<close>

text \<open>
  \<open>BasicPvSystem\<close> and \<open>EnhancedPvSystem\<close> of the source; the second has the fields of
  the first. The fields \<open>id\<close> and \<open>power\<close> are primed, their names being constants
  of HOL.
\<close>

datatype Status = Online | Offline | Warning

fun statusText :: "Status \<Rightarrow> string" where
  "statusText Online = ''online''"
| "statusText Offline = ''offline''"
| "statusText Warning = ''warning''"

record BasicPvSystem =
  id' :: string
  name :: string
  address :: string
  pictureURL :: "string option"

record EnhancedPvSystem = BasicPvSystem +
  status :: Status
  power' :: string
  daily :: string
  lastUpdated :: string
  peakPower :: "number option"
  isActive :: bool

subsection \<open>Helper functions\<close>

text \<open>\<open>[street, city, state, country].filter(Boolean).join(", ")\<close>: a missing or empty
  part is left out.\<close>

definition truthyStrings :: "string option list \<Rightarrow> string list" where
  "truthyStrings parts = concat (map (\<lambda>p. case p of None \<Rightarrow> [] | Some x \<Rightarrow> (if x = [] then [] else [x])) parts)"

definition formatAddress :: "Address \<Rightarrow> string" where
  "formatAddress a = join '', '' (truthyStrings [street a, city a, state a, country a])"

definition determineStatus :: "FlowDataResponse option \<Rightarrow> Status" where
  "determineStatus fd =
     (case fd of
        None \<Rightarrow> Offline
      | Some f \<Rightarrow>
          (case flowStatus f of
             None \<Rightarrow> Offline
           | Some st \<Rightarrow> if \<not> isOnline st then Offline else Online))"

definition extractPower :: "platform \<Rightarrow> FlowDataResponse option \<Rightarrow> string" where
  "extractPower P fd =
     (case fd of
        None \<Rightarrow> ''0 kW''
      | Some f \<Rightarrow>
          (case flowData f of
             None \<Rightarrow> ''0 kW''
           | Some d \<Rightarrow>
               (case channels d of
                  None \<Rightarrow> ''0 kW''
                | Some cs \<Rightarrow>
                    (case find (\<lambda>c. channelName c = ''PowerPV'') cs of
                       None \<Rightarrow> ''0 kW''
                     | Some c \<Rightarrow>
                         (case channelValue c of
                            None \<Rightarrow> ''0 kW''
                          | Some v \<Rightarrow> toFixed P 1 (numDiv v (Finite 1000)) @ '' kW'')))))"

definition formatLastUpdated :: "platform \<Rightarrow> string \<Rightarrow> string" where
  "formatLastUpdated P dateTimeString =
     (case parseDate P dateTimeString of
        None \<Rightarrow> ''Invalid Date''
      | Some t \<Rightarrow>
          (let diffMs = now P - t;
               diffMins = diffMs div 60000
           in if diffMins < 1 then ''just now''
              else if diffMins < 60 then intToString diffMins @ '' min ago''
              else if diffMins < 1440 then intToString (diffMins div 60) @ '' hr ago''
              else toLocaleDateString P t))"

definition extractDailyEnergy :: "platform \<Rightarrow> AggregatedDataResponse option \<Rightarrow> string" where
  "extractDailyEnergy P aggr =
     (case aggr of
        None \<Rightarrow> ''0 kWh''
      | Some a \<Rightarrow>
          (case aggrData a of
             [] \<Rightarrow> ''0 kWh''
           | row # _ \<Rightarrow>
               (case rowChannels row of
                  None \<Rightarrow> ''0 kWh''
                | Some cs \<Rightarrow>
                    (case find (\<lambda>c. channelName c = ''EnergyProductionTotal''
                                     \<or> channelName c = ''EnergyProduction''
                                     \<or> channelName c = ''EnergyDay'') cs of
                       None \<Rightarrow> ''0 kWh''
                     | Some c \<Rightarrow>
                         (case channelValue c of
                            None \<Rightarrow> ''0 kWh''
                          | Some v \<Rightarrow> toFixed P 1 (numDiv v (Finite 1000)) @ '' kWh'')))))"

text \<open>\<open>flowData?.data?.logDateTime || system.lastImport\<close>: the empty string is falsy.\<close>

definition lastSeen :: "PvSystemMetadata \<Rightarrow> FlowDataResponse option \<Rightarrow> string" where
  "lastSeen system fd =
     (case fd of
        None \<Rightarrow> lastImport system
      | Some f \<Rightarrow>
          (case flowData f of
             None \<Rightarrow> lastImport system
           | Some d \<Rightarrow>
               (case logDateTime d of
                  None \<Rightarrow> lastImport system
                | Some t \<Rightarrow> if t = [] then lastImport system else t)))"

definition formatPvSystemData ::
  "platform \<Rightarrow> PvSystemMetadata \<Rightarrow> FlowDataResponse option \<Rightarrow> AggregatedDataResponse option
     \<Rightarrow> EnhancedPvSystem" where
  "formatPvSystemData P system fd aggrToday =
     \<lparr> id' = pvSystemId system,
       name = sysName system,
       address = formatAddress (sysAddress system),
       pictureURL = sysPictureURL system,
       status = determineStatus fd,
       power' = extractPower P fd,
       daily = extractDailyEnergy P aggrToday,
       lastUpdated = formatLastUpdated P (lastSeen system fd),
       peakPower = sysPeakPower system,
       isActive = (determineStatus fd = Online) \<rparr>"

definition formatBasicSystemData :: "PvSystemMetadata \<Rightarrow> BasicPvSystem" where
  "formatBasicSystemData system =
     \<lparr> id' = pvSystemId system,
       name = sysName system,
       address = formatAddress (sysAddress system),
       pictureURL = sysPictureURL system \<rparr>"

subsection \<open>State of the screen\<close>

text \<open>The \<open>useState\<close> cells of \<open>DashboardScreen\<close>, with their initial values.\<close>

record DashboardState =
  refreshing :: bool
  pvSystems :: "EnhancedPvSystem list"
  filteredSystems :: "EnhancedPvSystem list"
  searchQuery :: string
  loading :: bool
  error :: "string option"
  totalSystems :: nat
  currentPage :: nat
  hasMorePages :: bool
  isLoadingMore :: bool
  allSystemsBasicInfo :: "BasicPvSystem list"
  isSearching :: bool
  isLoadingAllSystems :: bool

definition initialState :: DashboardState where
  "initialState =
     \<lparr> refreshing = False, pvSystems = [], filteredSystems = [], searchQuery = [],
       loading = True, error = None, totalSystems = 0, currentPage = 0,
       hasMorePages = True, isLoadingMore = False, allSystemsBasicInfo = [],
       isSearching = False, isLoadingAllSystems = True \<rparr>"

definition SYSTEMS_PER_PAGE :: nat where
  "SYSTEMS_PER_PAGE = 10"

subsection \<open>The directory of all systems\<close>

definition loadAllSystemsBasicInfo :: "api \<Rightarrow> DashboardState \<Rightarrow> DashboardState" where
  "loadAllSystemsBasicInfo A s =
     (case getPvSystems A 0 1000 of
        Inl e \<Rightarrow> s\<lparr>isLoadingAllSystems := False\<rparr>
      | Inr None \<Rightarrow> s\<lparr>isLoadingAllSystems := False\<rparr>
      | Inr (Some allSystemsData) \<Rightarrow>
          if allSystemsData = [] then s\<lparr>isLoadingAllSystems := False\<rparr>
          else
            let basicSystemsInfo = map formatBasicSystemData allSystemsData
            in s\<lparr>allSystemsBasicInfo := basicSystemsInfo,
                 totalSystems := length basicSystemsInfo,
                 isLoadingAllSystems := False\<rparr>)"

subsection \<open>Search\<close>

text \<open>The predicate of both \<open>filter\<close> calls: the lower-cased name, id or address
  includes the lower-cased query.\<close>

definition matchesQuery :: "string \<Rightarrow> 'a BasicPvSystem_scheme \<Rightarrow> bool" where
  "matchesQuery lowercaseQuery system =
     (includesStr (toLowerCase (name system)) lowercaseQuery
      \<or> includesStr (toLowerCase (id' system)) lowercaseQuery
      \<or> includesStr (toLowerCase (address system)) lowercaseQuery)"

text \<open>The record that stands for a match whose data could not be fetched.\<close>

definition partialSystem :: "BasicPvSystem \<Rightarrow> EnhancedPvSystem" where
  "partialSystem basicSystem =
     \<lparr> id' = id' basicSystem,
       name = name basicSystem,
       address = address basicSystem,
       pictureURL = pictureURL basicSystem,
       status = Offline,
       power' = ''0 kW'',
       daily = ''0 kWh'',
       lastUpdated = ''unknown'',
       peakPower = None,
       isActive = False \<rparr>"

text \<open>
  The callback that \<open>applySearchFilter\<close> maps over the matches: a record already in
  \<open>pvSystems\<close> is taken as it is; otherwise flow, details and today's aggregate are
  awaited in this order, and the first rejection ends in the \<open>catch\<close>.
\<close>

definition loadSearchResult ::
  "platform \<Rightarrow> api \<Rightarrow> EnhancedPvSystem list \<Rightarrow> BasicPvSystem \<Rightarrow> EnhancedPvSystem" where
  "loadSearchResult P A pvs basicSystem =
     (case find (\<lambda>sys. id' sys = id' basicSystem) pvs of
        Some existingSystem \<Rightarrow> existingSystem
      | None \<Rightarrow>
          (case getPvSystemFlowData A (id' basicSystem) of
             Inl err \<Rightarrow> partialSystem basicSystem
           | Inr fd \<Rightarrow>
               (case getPvSystemDetails A (id' basicSystem) of
                  Inl err \<Rightarrow> partialSystem basicSystem
                | Inr fullSystemData \<Rightarrow>
                    (case getPvSystemAggregatedData A (id' basicSystem) (FromDuration Today 1 None) of
                       Inl err \<Rightarrow> partialSystem basicSystem
                     | Inr aggrToday \<Rightarrow> formatPvSystemData P fullSystemData fd (Some aggrToday)))))"

text \<open>
  \<open>applySearchFilter\<close> is a closure of one render: it reads \<open>pvSystems\<close> and
  \<open>allSystemsBasicInfo\<close> of that render (the state \<open>c\<close>) and writes to the current
  state \<open>s\<close>. Its awaits are run to completion here.
\<close>

definition applySearchFilter ::
  "platform \<Rightarrow> api \<Rightarrow> DashboardState \<Rightarrow> string \<Rightarrow> DashboardState \<Rightarrow> DashboardState" where
  "applySearchFilter P A c query s =
     (if trim query = [] then s\<lparr>isSearching := False, filteredSystems := pvSystems c\<rparr>
      else
        let lowercaseQuery = toLowerCase query;
            matchedBasicSystems = filter (matchesQuery lowercaseQuery) (allSystemsBasicInfo c)
        in if length matchedBasicSystems = 0 then s\<lparr>filteredSystems := [], isSearching := False\<rparr>
           else
             let systemsToLoad = take 20 matchedBasicSystems;
                 enhancedMatchedSystems = map (loadSearchResult P A (pvSystems c)) systemsToLoad
             in s\<lparr>filteredSystems := enhancedMatchedSystems, isSearching := False\<rparr>)"

text \<open>The effect that runs when \<open>searchQuery\<close> or \<open>allSystemsBasicInfo\<close> has changed.\<close>

definition searchEffect :: "platform \<Rightarrow> api \<Rightarrow> DashboardState \<Rightarrow> DashboardState" where
  "searchEffect P A s =
     (if length (allSystemsBasicInfo s) > 0 then applySearchFilter P A s (searchQuery s) s
      else if length (pvSystems s) > 0 then
        let lowercaseQuery = toLowerCase (searchQuery s);
            filtered = filter (matchesQuery lowercaseQuery) (pvSystems s)
        in s\<lparr>filteredSystems := filtered\<rparr>
      else s)"

text \<open>The text input: \<open>onChangeText={setSearchQuery}\<close>, then the effect.\<close>

definition setSearchQuery :: "platform \<Rightarrow> api \<Rightarrow> string \<Rightarrow> DashboardState \<Rightarrow> DashboardState" where
  "setSearchQuery P A q s = searchEffect P A (s\<lparr>searchQuery := q\<rparr>)"

subsection \<open>Loading a page\<close>

text \<open>The callback mapped over the systems of a page. \<open>flowData\<close> and \<open>aggrToday\<close>
  are declared before the \<open>try\<close>, so the \<open>catch\<close> formats what was fetched before the
  rejection.\<close>

definition enhanceSystem :: "platform \<Rightarrow> api \<Rightarrow> PvSystemMetadata \<Rightarrow> EnhancedPvSystem" where
  "enhanceSystem P A system =
     (case getPvSystemFlowData A (pvSystemId system) of
        Inl err \<Rightarrow> formatPvSystemData P system None None
      | Inr fd \<Rightarrow>
          (case getPvSystemAggregatedData A (pvSystemId system) (FromDuration Today 1 None) of
             Inl err \<Rightarrow> formatPvSystemData P system fd None
           | Inr aggrToday \<Rightarrow> formatPvSystemData P system fd (Some aggrToday)))"

text \<open>The comparison function given to \<open>sort\<close>.\<close>

definition compareSystems :: "platform \<Rightarrow> EnhancedPvSystem \<Rightarrow> EnhancedPvSystem \<Rightarrow> int" where
  "compareSystems P a b =
     (if isActive a \<and> \<not> isActive b then - 1
      else if \<not> isActive a \<and> isActive b then 1
      else localeCompare P (name a) (name b))"

text \<open>
  \<open>Array.prototype.sort\<close> is stable. It is modelled by insertion from the right, which
  puts an element before the first one it does not follow; for a comparison function that
  is a total preorder every stable sort gives this list.
\<close>

fun insertBy :: "('a \<Rightarrow> 'a \<Rightarrow> int) \<Rightarrow> 'a \<Rightarrow> 'a list \<Rightarrow> 'a list" where
  "insertBy cmp x [] = [x]"
| "insertBy cmp x (y # ys) = (if cmp x y \<le> 0 then x # y # ys else y # insertBy cmp x ys)"

definition sortBy :: "('a \<Rightarrow> 'a \<Rightarrow> int) \<Rightarrow> 'a list \<Rightarrow> 'a list" where
  "sortBy cmp xs = foldr (insertBy cmp) xs []"

text \<open>
  \<open>loadPvSystemsPage\<close> in two parts: what runs before the first \<open>await\<close>, and what
  runs once \<open>getPvSystems\<close> has answered. The second part is a closure of the render
  that called it (the state \<open>c\<close>, read for \<open>searchQuery\<close> and inside
  \<open>applySearchFilter\<close>); the functional updates of \<open>pvSystems\<close> and
  \<open>filteredSystems\<close> read the current state \<open>s\<close>.
\<close>

definition loadPvSystemsPage_start :: "nat \<Rightarrow> bool \<Rightarrow> DashboardState \<Rightarrow> DashboardState" where
  "loadPvSystemsPage_start page showLoading s =
     (if showLoading then (if page = 0 then s\<lparr>loading := True\<rparr> else s\<lparr>isLoadingMore := True\<rparr>)
      else s)"

definition loadPvSystemsPage_resume ::
  "platform \<Rightarrow> api \<Rightarrow> nat \<Rightarrow> DashboardState \<Rightarrow> DashboardState \<Rightarrow> DashboardState" where
  "loadPvSystemsPage_resume P A page c s =
     (let offset = page * SYSTEMS_PER_PAGE
      in case getPvSystems A offset SYSTEMS_PER_PAGE of
           Inl err \<Rightarrow>
             s\<lparr>error := Some ''Failed to load PV systems. Please try again.'',
               loading := False, isLoadingMore := False\<rparr>
         | Inr r \<Rightarrow>
             (let systemsData = (case r of None \<Rightarrow> [] | Some xs \<Rightarrow> xs)
              in if length systemsData = 0 then
                   (if page = 0 then s\<lparr>error := Some ''No PV systems found''\<rparr> else s)
                     \<lparr>hasMorePages := False, loading := False, isLoadingMore := False\<rparr>
                 else
                   let s1 = s\<lparr>hasMorePages := (length systemsData = SYSTEMS_PER_PAGE)\<rparr>;
                       enhancedSystems = map (enhanceSystem P A) systemsData;
                       sortedSystems = sortBy (compareSystems P) enhancedSystems;
                       s2 = s1\<lparr>pvSystems := (if page = 0 then sortedSystems
                                               else pvSystems s1 @ sortedSystems)\<rparr>;
                       s3 = (if trim (searchQuery c) \<noteq> [] then applySearchFilter P A c (searchQuery c) s2
                             else s2\<lparr>filteredSystems := (if page = 0 then sortedSystems
                                                          else filteredSystems s2 @ sortedSystems)\<rparr>)
                   in s3\<lparr>currentPage := page, loading := False, isLoadingMore := False\<rparr>))"

definition loadPvSystemsPage ::
  "platform \<Rightarrow> api \<Rightarrow> nat \<Rightarrow> bool \<Rightarrow> DashboardState \<Rightarrow> DashboardState" where
  "loadPvSystemsPage P A page showLoading s =
     loadPvSystemsPage_resume P A page s (loadPvSystemsPage_start page showLoading s)"

text \<open>
  \<open>handleLoadMore\<close>: the page whose load it starts, if any, and the state when it
  returns, that is with the load in flight.
\<close>

definition handleLoadMore :: "DashboardState \<Rightarrow> nat option \<times> DashboardState" where
  "handleLoadMore s =
     (if \<not> isLoadingMore s \<and> hasMorePages s \<and> trim (searchQuery s) = []
      then (Some (currentPage s + 1), loadPvSystemsPage_start (currentPage s + 1) False s)
      else (None, s))"

section \<open>The detail screen\<close>

subsection \<open>State of the screen\<close>

text \<open>
  The session module \<open>@/utils/auth\<close> is outside the sources at hand as well; its two
  functions are the fields of \<open>auth\<close>.
\<close>

record User =
  userId :: string
  role :: string

record auth =
  getCurrentUser :: "error + User option"
  hasSystemAccess :: "string \<Rightarrow> string \<Rightarrow> bool"

datatype ChartPeriod = Day | Week | Month | Year

text \<open>
  The \<open>useState\<close> cells of \<open>PvSystemDetailScreen\<close> that the data logic reads or
  writes, and the route parameter \<open>pvSystemId\<close>. Cells whose name is taken by the
  dashboard screen or by a response field end in \<open>D\<close>.
\<close>

record DetailState =
  paramId :: "string option"
  refreshingD :: bool
  hasAccess :: "bool option"
  isAdmin :: bool
  checkingAccess :: bool
  pvSystemDetails :: "PvSystemMetadata option"
  flowDataD :: "FlowDataResponse option"
  aggregatedDataToday :: "AggregatedDataResponse option"
  aggregatedDataTotal :: "AggregatedDataResponse option"
  weatherDataD :: "CurrentWeatherResponse option"
  messages :: "SystemMessage list"
  devices :: "DeviceMetadata list"
  loadingD :: bool
  errorD :: "string option"
  energyHistData :: "HistoricalDataResponse option"
  selectedChartPeriod :: ChartPeriod
  chartLoading :: bool
  weeklyEnergyProduction :: "number option"
  monthlyEnergyProduction :: "number option"
  yearlyEnergyProduction :: "number option"
  dailyCo2Savings :: "number option"
  weeklyCo2Savings :: "number option"
  monthlyCo2Savings :: "number option"
  yearlyCo2Savings :: "number option"

definition initialDetailState :: "string option \<Rightarrow> DetailState" where
  "initialDetailState pid =
     \<lparr> paramId = pid, refreshingD = False, hasAccess = None, isAdmin = False,
       checkingAccess = True, pvSystemDetails = None, flowDataD = None,
       aggregatedDataToday = None, aggregatedDataTotal = None, weatherDataD = None,
       messages = [], devices = [], loadingD = True, errorD = None,
       energyHistData = None, selectedChartPeriod = Day, chartLoading = False,
       weeklyEnergyProduction = None, monthlyEnergyProduction = None,
       yearlyEnergyProduction = None, dailyCo2Savings = None, weeklyCo2Savings = None,
       monthlyCo2Savings = None, yearlyCo2Savings = None \<rparr>"

text \<open>The requests that reach the remote data client, in the order of their issue.\<close>

datatype Request =
    ReqDetails string
  | ReqFlow string
  | ReqAggregated string AggrQuery
  | ReqWeather string
  | ReqMessages string
  | ReqDevices string
  | ReqHistorical string

subsection \<open>Channel values and period totals\<close>

text \<open>\<open>channels?.find((c) => c.channelName === channelName)?.value ?? null\<close>\<close>

definition findChannelValue :: "Channel list option \<Rightarrow> string \<Rightarrow> number option" where
  "findChannelValue chs channelName' =
     (case chs of
        None \<Rightarrow> None
      | Some cs \<Rightarrow>
          (case find (\<lambda>c. channelName c = channelName') cs of
             None \<Rightarrow> None
           | Some c \<Rightarrow> channelValue c))"

text \<open>\<open>value || 0\<close>: \<open>null\<close>, zero and \<open>NaN\<close> are falsy.\<close>

definition orZero :: "number option \<Rightarrow> number" where
  "orZero v =
     (case v of
        None \<Rightarrow> Finite 0
      | Some x \<Rightarrow> if x = Finite 0 \<or> x = NaN then Finite 0 else x)"

text \<open>The \<open>reduce\<close> that \<open>fetchAllData\<close> writes out for each of the six period totals:
  \<open>data.reduce((total, item) => total + (findChannelValue(item.channels, name) || 0), 0)\<close>.\<close>

definition reduceChannel :: "string \<Rightarrow> AggregatedRow list \<Rightarrow> number" where
  "reduceChannel channelName' rows =
     foldl (\<lambda>total item. numAdd total (orZero (findChannelValue (rowChannels item) channelName')))
       (Finite 0) rows"

text \<open>\<open>findChannelValue(value.data?.[0]?.channels, name)\<close>\<close>

definition firstRowValue :: "AggregatedDataResponse \<Rightarrow> string \<Rightarrow> number option" where
  "firstRowValue r channelName' =
     (case aggrData r of
        [] \<Rightarrow> findChannelValue None channelName'
      | row # _ \<Rightarrow> findChannelValue (rowChannels row) channelName')"

subsection \<open>Access check\<close>

definition validId :: "string option \<Rightarrow> bool" where
  "validId pid = (case pid of None \<Rightarrow> False | Some i \<Rightarrow> i \<noteq> [])"

definition checkAccess :: "auth \<Rightarrow> DetailState \<Rightarrow> DetailState" where
  "checkAccess U s =
     (let s1 = s\<lparr>checkingAccess := True\<rparr>
      in if \<not> validId (paramId s) then s1\<lparr>checkingAccess := False\<rparr>
         else
           (case getCurrentUser U of
              Inl err \<Rightarrow> s1\<lparr>hasAccess := Some False, checkingAccess := False\<rparr>
            | Inr None \<Rightarrow> s1\<lparr>hasAccess := Some False, checkingAccess := False\<rparr>
            | Inr (Some user) \<Rightarrow>
                (let access = hasSystemAccess U (userId user) (the (paramId s));
                     s2 = s1\<lparr>isAdmin := (role user = ''admin''), hasAccess := Some access\<rparr>;
                     s3 = (if \<not> access then s2\<lparr>loadingD := False\<rparr> else s2)
                 in s3\<lparr>checkingAccess := False\<rparr>)))"

subsection \<open>The batch of fetches\<close>

text \<open>The fourteen promises given to \<open>Promise.allSettled\<close>.\<close>

definition batchRequests :: "string \<Rightarrow> Request list" where
  "batchRequests pid =
     [ ReqDetails pid,
       ReqFlow pid,
       ReqAggregated pid (FromDuration Today 1 None),
       ReqAggregated pid (FromDuration WeekAgo 7 (Some ''EnergyProductionTotal'')),
       ReqAggregated pid (FromDuration MonthAgo 30 (Some ''EnergyProductionTotal'')),
       ReqAggregated pid (FromDuration YearAgo 365 (Some ''EnergyProductionTotal'')),
       ReqAggregated pid (FromDuration Today 1 (Some ''SavingsCO2'')),
       ReqAggregated pid (FromDuration WeekAgo 7 (Some ''SavingsCO2'')),
       ReqAggregated pid (FromDuration MonthAgo 30 (Some ''SavingsCO2'')),
       ReqAggregated pid (FromDuration YearAgo 365 (Some ''SavingsCO2'')),
       ReqAggregated pid (PeriodTotal ''SavingsCO2''),
       ReqWeather pid,
       ReqMessages pid,
       ReqDevices pid ]"

text \<open>
  The pattern of the code after \<open>allSettled\<close>:
  \<open>if (x.status === "fulfilled") setX(x.value); else console.error(..., x.reason)\<close>.
\<close>

definition onFulfilled ::
  "error + 'a \<Rightarrow> ('a \<Rightarrow> DetailState \<Rightarrow> DetailState) \<Rightarrow> DetailState \<Rightarrow> DetailState" where
  "onFulfilled x setX s = (case x of Inr v \<Rightarrow> setX v s | Inl reason \<Rightarrow> s)"

text \<open>What that code does with the results other than the details, in its order. The
  messages are set in every case: to the array that came, and to the empty list when
  something else came or the promise was rejected.\<close>

definition settleOthers :: "api \<Rightarrow> string \<Rightarrow> DetailState \<Rightarrow> DetailState" where
  "settleOthers A pid s =
     (let aggr = getPvSystemAggregatedData A pid;
          s1 = onFulfilled (getPvSystemFlowData A pid) (\<lambda>v t. t\<lparr>flowDataD := v\<rparr>) s;
          s2 = onFulfilled (aggr (FromDuration Today 1 None))
                 (\<lambda>v t. t\<lparr>aggregatedDataToday := Some v\<rparr>) s1;
          s3 = onFulfilled (aggr (FromDuration WeekAgo 7 (Some ''EnergyProductionTotal'')))
                 (\<lambda>v t. t\<lparr>weeklyEnergyProduction :=
                            Some (reduceChannel ''EnergyProductionTotal'' (aggrData v))\<rparr>) s2;
          s4 = onFulfilled (aggr (FromDuration MonthAgo 30 (Some ''EnergyProductionTotal'')))
                 (\<lambda>v t. t\<lparr>monthlyEnergyProduction :=
                            Some (reduceChannel ''EnergyProductionTotal'' (aggrData v))\<rparr>) s3;
          s5 = onFulfilled (aggr (FromDuration YearAgo 365 (Some ''EnergyProductionTotal'')))
                 (\<lambda>v t. t\<lparr>yearlyEnergyProduction :=
                            Some (reduceChannel ''EnergyProductionTotal'' (aggrData v))\<rparr>) s4;
          s6 = onFulfilled (aggr (PeriodTotal ''SavingsCO2''))
                 (\<lambda>v t. t\<lparr>aggregatedDataTotal := Some v\<rparr>) s5;
          s7 = onFulfilled (getCurrentWeather A pid) (\<lambda>v t. t\<lparr>weatherDataD := Some v\<rparr>) s6;
          s8 = s7\<lparr>messages := (case getPvSystemMessages A pid of
                                   Inr (Some ms) \<Rightarrow> ms
                                 | Inr None \<Rightarrow> []
                                 | Inl reason \<Rightarrow> [])\<rparr>;
          s9 = onFulfilled (getPvSystemDevices A pid)
                 (\<lambda>v t. t\<lparr>devices := (case v of None \<Rightarrow> [] | Some ds \<Rightarrow> ds)\<rparr>) s8;
          s10 = onFulfilled (aggr (FromDuration Today 1 (Some ''SavingsCO2'')))
                  (\<lambda>v t. t\<lparr>dailyCo2Savings := firstRowValue v ''SavingsCO2''\<rparr>) s9;
          s11 = onFulfilled (aggr (FromDuration WeekAgo 7 (Some ''SavingsCO2'')))
                  (\<lambda>v t. t\<lparr>weeklyCo2Savings := Some (reduceChannel ''SavingsCO2'' (aggrData v))\<rparr>) s10;
          s12 = onFulfilled (aggr (FromDuration MonthAgo 30 (Some ''SavingsCO2'')))
                  (\<lambda>v t. t\<lparr>monthlyCo2Savings := Some (reduceChannel ''SavingsCO2'' (aggrData v))\<rparr>) s11
      in onFulfilled (aggr (FromDuration YearAgo 365 (Some ''SavingsCO2'')))
           (\<lambda>v t. t\<lparr>yearlyCo2Savings := Some (reduceChannel ''SavingsCO2'' (aggrData v))\<rparr>) s12)"

definition errorMessage :: "error \<Rightarrow> string" where
  "errorMessage e = (case e of Error m \<Rightarrow> m)"

text \<open>
  \<open>fetchAllData\<close>: the requests it issues and the state when it has finished. A missing
  id throws before any request; rejected details throw after the batch has settled, before
  any other cell is set; the \<open>finally\<close> clears \<open>loading\<close> and \<open>refreshing\<close>.
\<close>

definition fetchAllData :: "api \<Rightarrow> DetailState \<Rightarrow> Request list \<times> DetailState" where
  "fetchAllData A s =
     (if hasAccess s = Some False then ([], s)
      else
        let s1 = s\<lparr>loadingD := True, errorD := None\<rparr>
        in if \<not> validId (paramId s) then
             ([], s1\<lparr>errorD := Some (''Failed to load system data: '' @ ''Invalid or missing PV System ID''),
                     loadingD := False, refreshingD := False\<rparr>)
           else
             let pid = the (paramId s)
             in (batchRequests pid,
                 (case getPvSystemDetails A pid of
                    Inl reason \<Rightarrow> s1\<lparr>errorD := Some (''Failed to load system data: '' @ errorMessage reason)\<rparr>
                  | Inr details \<Rightarrow> settleOthers A pid (s1\<lparr>pvSystemDetails := Some details\<rparr>))
                 \<lparr>loadingD := False, refreshingD := False\<rparr>))"

subsection \<open>The chart data\<close>

text \<open>The reshaping of aggregate rows into points; \<open>item.channels.map\<close> throws where a
  row has no channels.\<close>

definition adaptRow :: "AggregatedRow \<Rightarrow> HistoricalPoint option" where
  "adaptRow item =
     (case rowChannels item of
        None \<Rightarrow> None
      | Some cs \<Rightarrow>
          Some \<lparr> pointLogDateTime =
                   (if includesStr (rowLogDateTime item) ''T'' then rowLogDateTime item
                    else rowLogDateTime item @ ''T00:00:00Z''),
                 pointLogDuration = 86400,
                 pointChannels = cs \<rparr>)"

definition adaptRows :: "AggregatedRow list \<Rightarrow> HistoricalPoint list option" where
  "adaptRows rows =
     (if list_all (\<lambda>item. adaptRow item \<noteq> None) rows then Some (map (\<lambda>item. the (adaptRow item)) rows)
      else None)"

definition fetchHistoricalData ::
  "api \<Rightarrow> ChartPeriod \<Rightarrow> DetailState \<Rightarrow> Request list \<times> DetailState" where
  "fetchHistoricalData A period s =
     (if \<not> validId (paramId s) \<or> hasAccess s = Some False then ([], s)
      else
        let pid = the (paramId s);
            s1 = s\<lparr>chartLoading := True, energyHistData := None\<rparr>
        in if period = Day then
             ([ReqHistorical pid],
              (case getPvSystemHistoricalData A pid of
                 Inl err \<Rightarrow> s1\<lparr>energyHistData := None\<rparr>
               | Inr None \<Rightarrow> s1\<lparr>energyHistData := None\<rparr>
               | Inr (Some energyData) \<Rightarrow>
                   if length (histData energyData) > 0 then s1\<lparr>energyHistData := Some energyData\<rparr>
                   else s1\<lparr>energyHistData := None\<rparr>)
              \<lparr>chartLoading := False\<rparr>)
           else
             let q = (if period = Week then FromDuration WeekAgo 7 (Some ''EnergyProductionTotal'')
                      else if period = Month then FromDuration MonthAgo 30 (Some ''EnergyProductionTotal'')
                      else FromDuration YearAgo 365 (Some ''EnergyProductionTotal''))
             in ([ReqAggregated pid q],
                 (case getPvSystemAggregatedData A pid q of
                    Inl err \<Rightarrow> s1\<lparr>energyHistData := None\<rparr>
                  | Inr energyData \<Rightarrow>
                      if length (aggrData energyData) > 0 then
                        (case adaptRows (aggrData energyData) of
                           None \<Rightarrow> s1\<lparr>energyHistData := None\<rparr>
                         | Some points \<Rightarrow>
                             s1\<lparr>energyHistData :=
                                  Some \<lparr> histPvSystemId = aggrPvSystemId energyData,
                                         histDeviceId =
                                           (case aggrDeviceId energyData of
                                              None \<Rightarrow> None
                                            | Some d \<Rightarrow> if d = [] then None else Some d),
                                         histData = points \<rparr>\<rparr>)
                      else s1\<lparr>energyHistData := None\<rparr>)
                 \<lparr>chartLoading := False\<rparr>))"

subsection \<open>Effects, handlers and what is rendered\<close>

definition dataLoadEffect :: "api \<Rightarrow> DetailState \<Rightarrow> Request list \<times> DetailState" where
  "dataLoadEffect A s =
     (if checkingAccess s then ([], s)
      else if hasAccess s = Some False then ([], s\<lparr>loadingD := False\<rparr>)
      else if \<not> validId (paramId s) then
        ([], s\<lparr>errorD := Some ''Invalid or missing PV System ID.'', loadingD := False\<rparr>)
      else fetchAllData A s)"

definition historicalEffect :: "api \<Rightarrow> DetailState \<Rightarrow> Request list \<times> DetailState" where
  "historicalEffect A s =
     (if hasAccess s = Some True \<and> validId (paramId s) \<and> \<not> checkingAccess s
      then fetchHistoricalData A (selectedChartPeriod s) s
      else ([], s))"

definition onRefresh :: "api \<Rightarrow> DetailState \<Rightarrow> Request list \<times> DetailState" where
  "onRefresh A s =
     (let s1 = s\<lparr>refreshingD := True\<rparr>;
          (r1, s2) = fetchAllData A s1;
          (r2, s3) = fetchHistoricalData A (selectedChartPeriod s) s2
      in (r1 @ r2, s3))"

text \<open>The early returns of the component, in their order. The error screen and the
  no-data screen carry the Retry button, whose handler is \<open>onRefresh\<close>.\<close>

datatype Screen = AccessDenied | LoadingScreen | ErrorScreen string | NoDataScreen | DashboardView

definition render :: "DetailState \<Rightarrow> Screen" where
  "render s =
     (if hasAccess s = Some False \<and> \<not> checkingAccess s then AccessDenied
      else if (loadingD s \<and> \<not> refreshingD s) \<or> checkingAccess s then LoadingScreen
      else
        (case errorD s of
           Some e \<Rightarrow>
             if e \<noteq> [] then ErrorScreen e
             else if pvSystemDetails s = None then NoDataScreen else DashboardView
         | None \<Rightarrow> if pvSystemDetails s = None then NoDataScreen else DashboardView))"

text \<open>
  What can happen to the mounted screen. A control that is not on the rendered screen
  cannot be used: Retry and pull-to-refresh need the error, no-data or dashboard view,
  the period buttons the dashboard view.
\<close>

datatype Event =
    CheckAccess
  | DataLoadEffect
  | HistoricalEffect
  | Refresh
  | SelectChartPeriod ChartPeriod

definition step :: "auth \<Rightarrow> api \<Rightarrow> Event \<Rightarrow> DetailState \<Rightarrow> Request list \<times> DetailState" where
  "step U A ev s =
     (case ev of
        CheckAccess \<Rightarrow> ([], checkAccess U s)
      | DataLoadEffect \<Rightarrow> dataLoadEffect A s
      | HistoricalEffect \<Rightarrow> historicalEffect A s
      | Refresh \<Rightarrow>
          (case render s of
             AccessDenied \<Rightarrow> ([], s)
           | LoadingScreen \<Rightarrow> ([], s)
           | _ \<Rightarrow> onRefresh A s)
      | SelectChartPeriod p \<Rightarrow>
          (if render s = DashboardView then historicalEffect A (s\<lparr>selectedChartPeriod := p\<rparr>)
           else ([], s)))"

fun run :: "auth \<Rightarrow> api \<Rightarrow> Event list \<Rightarrow> DetailState \<Rightarrow> Request list \<times> DetailState" where
  "run U A [] s = ([], s)"
| "run U A (ev # evs) s =
     (let (r, s') = step U A ev s; (rs, s'') = run U A evs s' in (r @ rs, s''))"

subsection \<open>Derived values of the view\<close>

text \<open>\<open>flowData?.status?.isOnline ?? false\<close>\<close>

definition systemIsOnline :: "DetailState \<Rightarrow> bool" where
  "systemIsOnline s =
     (case flowDataD s of
        None \<Rightarrow> False
      | Some f \<Rightarrow> (case flowStatus f of None \<Rightarrow> False | Some st \<Rightarrow> isOnline st))"

definition latestErrorMessages :: "DetailState \<Rightarrow> SystemMessage list" where
  "latestErrorMessages s = filter (\<lambda>m. stateSeverity m = ''Error'') (messages s)"

definition systemStatus :: "DetailState \<Rightarrow> Status" where
  "systemStatus s =
     (if \<not> systemIsOnline s then Offline
      else if length (latestErrorMessages s) > 0 then Warning
      else Online)"

text \<open>\<open>(energyWh / 1000) * 0.4\<close>; the literal \<open>0.4\<close> is the binary64 value nearest to
  four tenths.\<close>

definition earningsDollars :: "number \<Rightarrow> number" where
  "earningsDollars energyWh = numMul (numDiv energyWh (Finite 1000)) (binary64 (4 / 10))"

definition calculateEarnings :: "platform \<Rightarrow> number option \<Rightarrow> string" where
  "calculateEarnings P energyWh =
     (case energyWh of
        None \<Rightarrow> ''N/A''
      | Some e \<Rightarrow> ''$'' @ toFixed P 2 (earningsDollars e))"

text \<open>The energy metric of a period card: \<open>(energy / 1000).toFixed(1)\<close> and the unit,
  or \<open>N/A\<close>.\<close>

definition energyMetric :: "platform \<Rightarrow> number option \<Rightarrow> string" where
  "energyMetric P energy =
     (case energy of
        None \<Rightarrow> ''N/A''
      | Some e \<Rightarrow> toFixed P 1 (numDiv e (Finite 1000)) @ '' kWh'')"

definition currentPowerOutput :: "DetailState \<Rightarrow> number option" where
  "currentPowerOutput s =
     findChannelValue (case flowDataD s of
                         None \<Rightarrow> None
                       | Some f \<Rightarrow> (case flowData f of None \<Rightarrow> None | Some d \<Rightarrow> channels d))
                      ''PowerPV''"

definition powerMetric :: "platform \<Rightarrow> number option \<Rightarrow> string" where
  "powerMetric P p =
     (case p of
        None \<Rightarrow> ''N/A''
      | Some w \<Rightarrow> toFixed P 1 (numDiv w (Finite 1000)) @ '' kW'')"

section \<open>Properties to be stated\<close>

text \<open>
  The order that \<open>compareSystems\<close> aims at, in terms of \<open>localeCompare\<close>: of two
  records of a list, an inactive one never stands before an active one, and two of equal
  activity stand in the order of \<open>localeCompare\<close> on their names.
\<close>

definition listOrdered :: "platform \<Rightarrow> EnhancedPvSystem list \<Rightarrow> bool" where
  "listOrdered P xs =
     sorted_wrt (\<lambda>a b. (isActive b \<longrightarrow> isActive a)
                      \<and> (isActive a = isActive b \<longrightarrow> localeCompare P (name a) (name b) \<le> 0)) xs"

text \<open>\<open>localeCompare\<close> orders all strings: any two are comparable, and the order is
  transitive.\<close>

definition collation :: "platform \<Rightarrow> bool" where
  "collation P =
     ((\<forall>a b. localeCompare P a b \<le> 0 \<or> localeCompare P b a \<le> 0)
      \<and> (\<forall>a b c. localeCompare P a b \<le> 0 \<and> localeCompare P b c \<le> 0
             \<longrightarrow> localeCompare P a c \<le> 0))"

text \<open>
  Case-insensitive alphabetical order, as the specification words the order of the
  names: the lower-cased strings are compared character by character, the shorter of two
  first when it begins the longer. \<open>compareCodes\<close> compares two lists of character
  codes and gives \<open>-1\<close>, \<open>0\<close> or \<open>1\<close>.
\<close>

fun compareCodes :: "nat list \<Rightarrow> nat list \<Rightarrow> int" where
  "compareCodes [] [] = 0"
| "compareCodes [] (y # ys) = - 1"
| "compareCodes (x # xs) [] = 1"
| "compareCodes (x # xs) (y # ys) =
     (if x < y then - 1 else if y < x then 1 else compareCodes xs ys)"

definition caseInsensitiveAlphabetical :: "string \<Rightarrow> string \<Rightarrow> bool" where
  "caseInsensitiveAlphabetical a b =
     (compareCodes (map of_char (toLowerCase a)) (map of_char (toLowerCase b)) \<le> 0)"

text \<open>The order of a displayed list as the specification words it: every active record
  before every inactive one, and records of equal activity in case-insensitive
  alphabetical order of their names.\<close>

definition activeFirstThenByName :: "EnhancedPvSystem list \<Rightarrow> bool" where
  "activeFirstThenByName xs =
     sorted_wrt (\<lambda>a b. (isActive b \<longrightarrow> isActive a)
                      \<and> (isActive a = isActive b
                           \<longrightarrow> caseInsensitiveAlphabetical (name a) (name b))) xs"

text \<open>What the platform has to give for that: of the names at hand, \<open>localeCompare\<close>
  puts one before another only when it comes first in case-insensitive alphabetical
  order.\<close>

definition ordersAlphabetically :: "platform \<Rightarrow> string list \<Rightarrow> bool" where
  "ordersAlphabetically P names =
     (\<forall>a \<in> set names. \<forall>b \<in> set names.
        localeCompare P a b \<le> 0 \<longrightarrow> caseInsensitiveAlphabetical a b)"

text \<open>A flow answer that reports the system online.\<close>

definition reportsOnline :: "error + FlowDataResponse option \<Rightarrow> bool" where
  "reportsOnline r =
     (case r of
        Inl e \<Rightarrow> False
      | Inr None \<Rightarrow> False
      | Inr (Some f) \<Rightarrow> (case flowStatus f of None \<Rightarrow> False | Some st \<Rightarrow> isOnline st))"

text \<open>One of the three fetches for a search match is rejected.\<close>

definition searchFetchFails :: "api \<Rightarrow> string \<Rightarrow> bool" where
  "searchFetchFails A i =
     (isl (getPvSystemFlowData A i) \<or> isl (getPvSystemDetails A i)
      \<or> isl (getPvSystemAggregatedData A i (FromDuration Today 1 None)))"

text \<open>The contribution of one aggregate row to a period total, as the specification
  words it: the value of the requested channel, zero where the channel or its value is
  missing. A value that is not a number, which no JSON answer holds, counts as a missing
  one.\<close>

definition rowContribution :: "string \<Rightarrow> AggregatedRow \<Rightarrow> number" where
  "rowContribution channelName' row =
     (case rowChannels row of
        None \<Rightarrow> Finite 0
      | Some cs \<Rightarrow>
          (case find (\<lambda>c. channelName c = channelName') cs of
             None \<Rightarrow> Finite 0
           | Some c \<Rightarrow>
               (case channelValue c of
                  None \<Rightarrow> Finite 0
                | Some v \<Rightarrow> if v = NaN then Finite 0 else v)))"

text \<open>The sum of numbers: added from zero in the order of the list, each addition
  rounded as binary64 arithmetic rounds it.\<close>

definition sumNumbers :: "number list \<Rightarrow> number" where
  "sumNumbers xs = foldl numAdd (Finite 0) xs"

text \<open>The content of a cell after its promise has settled: made from the value when
  the promise was fulfilled, the content it had before when the promise was rejected.\<close>

definition settled :: "error + 'a \<Rightarrow> ('a \<Rightarrow> 'b) \<Rightarrow> 'b \<Rightarrow> 'b" where
  "settled x F before = (case x of Inr v \<Rightarrow> F v | Inl reason \<Rightarrow> before)"

text \<open>The verdict of the access check for a user and a system id.\<close>

definition accessGranted :: "auth \<Rightarrow> string \<Rightarrow> bool" where
  "accessGranted U pid =
     (case getCurrentUser U of
        Inl e \<Rightarrow> False
      | Inr None \<Rightarrow> False
      | Inr (Some user) \<Rightarrow> hasSystemAccess U (userId user) pid)"

text \<open>
  Two predicates on the state of the detail screen, for the system id \<open>pid\<close>: no
  access has been granted and the check is pending, has denied, or the id is missing;
  and: the check has finished and has denied.
\<close>

definition pendingOrDenied :: "string \<Rightarrow> DetailState \<Rightarrow> bool" where
  "pendingOrDenied pid s =
     (paramId s = Some pid \<and> hasAccess s \<noteq> Some True
      \<and> (hasAccess s = Some False \<or> checkingAccess s \<or> \<not> validId (Some pid)))"

definition deniedShown :: "DetailState \<Rightarrow> bool" where
  "deniedShown s = (hasAccess s = Some False \<and> \<not> checkingAccess s)"

section \<open>Sample data\<close>

text \<open>
  Concrete platforms, clients and states on which the functions are evaluated. The sample
  collation compares the lower-cased strings character by character; the code-unit
  collation compares the strings as they are, capital letters before small ones, as an
  engine without locale data does. Of \<open>Number::toString\<close> the samples need the digits of
  \<open>10^21\<close> only.
\<close>

definition sampleCompare :: "string \<Rightarrow> string \<Rightarrow> int" where
  "sampleCompare a b = compareCodes (map of_char (toLowerCase a)) (map of_char (toLowerCase b))"

definition samplePlatform :: platform where
  "samplePlatform =
     \<lparr> localeCompare = sampleCompare,
       numberToString = (\<lambda>x. if x = 10 ^ 21 then ''1e+21'' else ''(not needed)''),
       now = 300000,
       parseDate = (\<lambda>s. Some 0), toLocaleDateString = (\<lambda>t. ''1/1/1970'') \<rparr>"

definition codeUnitPlatform :: platform where
  "codeUnitPlatform =
     samplePlatform \<lparr> localeCompare := (\<lambda>a b. compareCodes (map of_char a) (map of_char b)) \<rparr>"

definition sampleSystem :: "nat \<Rightarrow> PvSystemMetadata" where
  "sampleSystem n =
     \<lparr> pvSystemId = ''pv'' @ natToString n, sysName = ''Plant '' @ natToString n,
       sysAddress = \<lparr>street = None, city = Some ''Graz'', state = None, country = Some ''AT''\<rparr>,
       sysPictureURL = None, sysPeakPower = Some (Finite 5000), lastImport = ''2025-01-01'' \<rparr>"

definition sampleFlow :: "bool \<Rightarrow> number \<Rightarrow> FlowDataResponse" where
  "sampleFlow online watts =
     \<lparr> flowStatus = Some \<lparr>isOnline = online\<rparr>,
       flowData = Some \<lparr>logDateTime = Some ''2025-01-02'',
                         channels = Some [\<lparr>channelName = ''PowerPV'', channelValue = Some watts\<rparr>]\<rparr> \<rparr>"

definition sampleAggr :: "string \<Rightarrow> number option list \<Rightarrow> AggregatedDataResponse" where
  "sampleAggr ch vs =
     \<lparr> aggrPvSystemId = ''pv0'', aggrDeviceId = None,
       aggrData = map (\<lambda>v. \<lparr>rowLogDateTime = ''2025-01-01'',
                               rowChannels = Some [\<lparr>channelName = ch, channelValue = v\<rparr>]\<rparr>) vs \<rparr>"

definition sampleClient ::
  "PvSystemMetadata list \<Rightarrow> bool \<Rightarrow> (string \<Rightarrow> error + FlowDataResponse option)
     \<Rightarrow> (string \<Rightarrow> AggrQuery \<Rightarrow> error + AggregatedDataResponse) \<Rightarrow> api" where
  "sampleClient systems directoryDown flow aggr =
     \<lparr> getPvSystems = (\<lambda>offset limit. if directoryDown \<and> limit = 1000 then Inl (Error ''timeout'')
                                       else Inr (Some (take limit (drop offset systems)))),
       getPvSystemDetails = (\<lambda>i. case find (\<lambda>m. pvSystemId m = i) systems of
                                     None \<Rightarrow> Inl (Error ''not found'') | Some m \<Rightarrow> Inr m),
       getPvSystemFlowData = flow,
       getPvSystemAggregatedData = aggr,
       getPvSystemHistoricalData = (\<lambda>i. Inr None),
       getCurrentWeather = (\<lambda>i. Inl (Error ''no weather'')),
       getPvSystemMessages = (\<lambda>i. Inr (Some [])),
       getPvSystemDevices = (\<lambda>i. Inr (Some [])) \<rparr>"

text \<open>A fleet of 21 systems, all online but \<open>pv3\<close>; the directory request (limit 1000)
  is rejected, the page requests are answered.\<close>

definition fleetSystems :: "PvSystemMetadata list" where
  "fleetSystems = map sampleSystem [0..<21]"

definition fleetClient :: api where
  "fleetClient =
     sampleClient fleetSystems True
       (\<lambda>i. Inr (Some (sampleFlow (i \<noteq> ''pv3'') (Finite 1500))))
       (\<lambda>i q. Inr (sampleAggr ''EnergyProductionTotal'' [Some (Finite 6200)]))"

text \<open>The records of the page \<open>k\<close> of the fleet, as \<open>loadPvSystemsPage\<close> sorts them.\<close>

definition fleetBlock :: "nat \<Rightarrow> EnhancedPvSystem list" where
  "fleetBlock k =
     sortBy (compareSystems samplePlatform)
       (map (enhanceSystem samplePlatform fleetClient) (take 10 (drop (k * 10) fleetSystems)))"

text \<open>The mount of the screen loads page 0 and the directory; \<open>handleLoadMore\<close> then
  loads the pages 1 and 2.\<close>

definition fleetPage0 :: DashboardState where
  "fleetPage0 =
     loadAllSystemsBasicInfo fleetClient (loadPvSystemsPage samplePlatform fleetClient 0 True initialState)"

definition fleetPage1 :: DashboardState where
  "fleetPage1 = loadPvSystemsPage samplePlatform fleetClient 1 False fleetPage0"

definition fleetPage2 :: DashboardState where
  "fleetPage2 = loadPvSystemsPage samplePlatform fleetClient 2 False fleetPage1"

text \<open>The same fleet with the directory request answered.\<close>

definition fleetDirectoryClient :: api where
  "fleetDirectoryClient =
     sampleClient fleetSystems False
       (\<lambda>i. Inr (Some (sampleFlow (i \<noteq> ''pv3'') (Finite 1500))))
       (\<lambda>i q. Inr (sampleAggr ''EnergyProductionTotal'' [Some (Finite 6200)]))"

definition fleetDirectory0 :: DashboardState where
  "fleetDirectory0 =
     loadAllSystemsBasicInfo fleetDirectoryClient
       (loadPvSystemsPage samplePlatform fleetDirectoryClient 0 True initialState)"

text \<open>Two systems, both online, the directory request rejected; the screen after its
  mount.\<close>

definition pairClient :: api where
  "pairClient =
     sampleClient [sampleSystem 0, sampleSystem 1] True
       (\<lambda>i. Inr (Some (sampleFlow True (Finite 1500))))
       (\<lambda>i q. Inr (sampleAggr ''EnergyProductionTotal'' [Some (Finite 6200)]))"

definition pairPage0 :: DashboardState where
  "pairPage0 =
     loadAllSystemsBasicInfo pairClient (loadPvSystemsPage samplePlatform pairClient 0 True initialState)"

text \<open>Two systems named \<open>alpha\<close> and \<open>Beta\<close>, both online.\<close>

definition caseSystems :: "PvSystemMetadata list" where
  "caseSystems =
     [(sampleSystem 0)\<lparr>sysName := ''alpha''\<rparr>, (sampleSystem 1)\<lparr>sysName := ''Beta''\<rparr>]"

definition caseClient :: api where
  "caseClient =
     sampleClient caseSystems True
       (\<lambda>i. Inr (Some (sampleFlow True (Finite 1500))))
       (\<lambda>i q. Inr (sampleAggr ''EnergyProductionTotal'' [Some (Finite 6200)]))"

text \<open>The mount of the screen for them, on the platform that compares code units.\<close>

definition casePage0 :: DashboardState where
  "casePage0 =
     loadAllSystemsBasicInfo caseClient
       (loadPvSystemsPage codeUnitPlatform caseClient 0 True initialState)"

text \<open>Two systems: the flow request of \<open>pv0\<close> is rejected, and so is every aggregate
  request.\<close>

definition partlyDownClient :: api where
  "partlyDownClient =
     sampleClient [sampleSystem 0, sampleSystem 1] False
       (\<lambda>i. if i = ''pv0'' then Inl (Error ''timeout'') else Inr (Some (sampleFlow True (Finite 1500))))
       (\<lambda>i q. Inl (Error ''timeout''))"

text \<open>The screen when the directory has been answered and page 0 has not yet.\<close>

definition directoryOnly :: DashboardState where
  "directoryOnly = loadAllSystemsBasicInfo partlyDownClient initialState"

text \<open>Two systems, both online; the details request is rejected.\<close>

definition detailsDownClient :: api where
  "detailsDownClient =
     (sampleClient [sampleSystem 0, sampleSystem 1] False
        (\<lambda>i. Inr (Some (sampleFlow True (Finite 1500))))
        (\<lambda>i q. Inr (sampleAggr ''EnergyProductionTotal'' [Some (Finite 6200)])))
     \<lparr> getPvSystemDetails := (\<lambda>i. Inl (Error ''503'')) \<rparr>"

definition directoryFirst :: DashboardState where
  "directoryFirst = loadAllSystemsBasicInfo detailsDownClient initialState"

text \<open>The detail screen of \<open>pv0\<close>: a week of daily rows, one of them without a value,
  and one error message; the other aggregate requests and the weather request are
  rejected.\<close>

definition weekRows :: "number option list" where
  "weekRows =
     [Some (Finite 1000), Some (Finite 1200), Some (Finite 900), None,
      Some (Finite 1100), Some (Finite 950), Some (Finite 1050)]"

definition weekClient :: api where
  "weekClient =
     (sampleClient [sampleSystem 0] False
        (\<lambda>i. Inr (Some (sampleFlow True (Finite 1500))))
        (\<lambda>i q. if q = FromDuration WeekAgo 7 (Some ''EnergyProductionTotal'')
                then Inr (sampleAggr ''EnergyProductionTotal'' weekRows)
                else Inl (Error ''unavailable'')))
     \<lparr> getPvSystemMessages :=
         (\<lambda>i. Inr (Some [\<lparr>stateSeverity = ''Error'', stateCode = 567,
                            messageText = ''Inverter communication timeout''\<rparr>])) \<rparr>"

definition flowDownClient :: api where
  "flowDownClient = weekClient \<lparr> getPvSystemFlowData := (\<lambda>i. Inl (Error ''timeout'')) \<rparr>"

definition ownerAuth :: auth where
  "ownerAuth =
     \<lparr> getCurrentUser = Inr (Some \<lparr>userId = ''u1'', role = ''user''\<rparr>),
       hasSystemAccess = (\<lambda>u i. u = ''u1'') \<rparr>"

definition visitorAuth :: auth where
  "visitorAuth =
     \<lparr> getCurrentUser = Inr (Some \<lparr>userId = ''u2'', role = ''user''\<rparr>),
       hasSystemAccess = (\<lambda>u i. u = ''u1'') \<rparr>"

text \<open>The mount of the detail screen: both effects run, the access check resolves, and
  both effects run again.\<close>

definition mountEvents :: "Event list" where
  "mountEvents = [DataLoadEffect, HistoricalEffect, CheckAccess, DataLoadEffect, HistoricalEffect]"

definition accessChecked :: DetailState where
  "accessChecked =
     snd (run ownerAuth weekClient [DataLoadEffect, HistoricalEffect, CheckAccess]
            (initialDetailState (Some ''pv0'')))"

definition loadedDetail :: DetailState where
  "loadedDetail = snd (run ownerAuth weekClient mountEvents (initialDetailState (Some ''pv0'')))"

section \<open>Basic facts\<close>

lemma includesStr_Nil [simp]: "includesStr s [] = True"
  by (cases s) simp_all

lemma matchesQuery_Nil [simp]: "matchesQuery [] x = True"
  by (simp add: matchesQuery_def)

subsection \<open>The sort\<close>

lemma mset_insertBy: "mset (insertBy cmp x ys) = add_mset x (mset ys)"
  by (induction ys) simp_all

lemma mset_sortBy: "mset (sortBy cmp xs) = mset xs"
  by (induction xs) (simp_all add: sortBy_def mset_insertBy)

lemma set_insertBy: "set (insertBy cmp x ys) = insert x (set ys)"
  by (induction ys) auto

lemma sorted_insertBy:
  assumes tot: "\<And>a b. cmp a b \<le> 0 \<or> cmp b a \<le> 0"
    and tr: "\<And>a b c. cmp a b \<le> 0 \<Longrightarrow> cmp b c \<le> 0 \<Longrightarrow> cmp a c \<le> 0"
  shows "sorted_wrt (\<lambda>a b. cmp a b \<le> 0) ys
           \<Longrightarrow> sorted_wrt (\<lambda>a b. cmp a b \<le> 0) (insertBy cmp x ys)"
proof (induction ys)
  case Nil
  then show ?case by simp
next
  case (Cons y ys)
  show ?case
  proof (cases "cmp x y \<le> 0")
    case True
    with Cons.prems tr show ?thesis by auto
  next
    case False
    with tot have "cmp y x \<le> 0" by blast
    with False Cons show ?thesis by (auto simp: set_insertBy)
  qed
qed

lemma sorted_sortBy:
  assumes tot: "\<And>a b. cmp a b \<le> 0 \<or> cmp b a \<le> 0"
    and tr: "\<And>a b c. cmp a b \<le> 0 \<Longrightarrow> cmp b c \<le> 0 \<Longrightarrow> cmp a c \<le> 0"
  shows "sorted_wrt (\<lambda>a b. cmp a b \<le> 0) (sortBy cmp xs)"
proof (induction xs)
  case Nil
  then show ?case by (simp add: sortBy_def)
next
  case (Cons x xs)
  have "sortBy cmp (x # xs) = insertBy cmp x (sortBy cmp xs)" by (simp add: sortBy_def)
  with Cons sorted_insertBy[OF tot tr] show ?case by simp
qed

lemma compareSystems_le:
  "compareSystems P a b \<le> 0 \<longleftrightarrow>
     (isActive a \<and> \<not> isActive b)
     \<or> (isActive a = isActive b \<and> localeCompare P (name a) (name b) \<le> 0)"
  by (auto simp: compareSystems_def)

lemma compareSystems_total:
  "collation P \<Longrightarrow> compareSystems P a b \<le> 0 \<or> compareSystems P b a \<le> 0"
  unfolding compareSystems_le collation_def by blast

lemma compareSystems_trans:
  "collation P \<Longrightarrow> compareSystems P a b \<le> 0 \<Longrightarrow> compareSystems P b c \<le> 0
     \<Longrightarrow> compareSystems P a c \<le> 0"
  unfolding compareSystems_le collation_def by blast

lemma listOrdered_sortBy:
  assumes "collation P"
  shows "listOrdered P (sortBy (compareSystems P) xs)"
proof -
  have "sorted_wrt (\<lambda>a b. compareSystems P a b \<le> 0) (sortBy (compareSystems P) xs)"
    by (rule sorted_sortBy) (use assms compareSystems_total compareSystems_trans in blast)+
  then show ?thesis
    unfolding listOrdered_def
    by (rule sorted_wrt_mono_rel[rotated]) (auto simp: compareSystems_le)
qed

subsection \<open>The sample collation\<close>

lemma compareCodes_total: "compareCodes xs ys \<le> 0 \<or> compareCodes ys xs \<le> 0"
  by (induction xs ys rule: compareCodes.induct) auto

lemma compareCodes_Cons_le:
  "compareCodes (x # xs) (y # ys) \<le> 0 \<longleftrightarrow> x < y \<or> (x = y \<and> compareCodes xs ys \<le> 0)"
  by (cases "x < y"; cases "y < x") simp_all

lemma compareCodes_Nil_right: "compareCodes xs [] \<le> 0 \<longleftrightarrow> xs = []"
  by (cases xs) simp_all

lemma compareCodes_Nil_left: "compareCodes [] ys \<le> 0"
  by (cases ys) simp_all

lemma compareCodes_trans:
  "compareCodes xs ys \<le> 0 \<Longrightarrow> compareCodes ys zs \<le> 0 \<Longrightarrow> compareCodes xs zs \<le> 0"
proof (induction xs arbitrary: ys zs)
  case Nil
  show ?case by (rule compareCodes_Nil_left)
next
  case (Cons x xs)
  from Cons.prems(1) obtain y ys' where ys: "ys = y # ys'"
    by (cases ys) (simp_all add: compareCodes_Nil_right)
  from Cons.prems(2) ys obtain z zs' where zs: "zs = z # zs'"
    by (cases zs) (simp_all add: compareCodes_Nil_right)
  from Cons.prems(1) ys have xy: "x < y \<or> (x = y \<and> compareCodes xs ys' \<le> 0)"
    by (simp only: compareCodes_Cons_le)
  from Cons.prems(2) ys zs have yz: "y < z \<or> (y = z \<and> compareCodes ys' zs' \<le> 0)"
    by (simp only: compareCodes_Cons_le)
  show ?case
  proof (cases "x < z")
    case True
    then show ?thesis by (simp only: zs compareCodes_Cons_le) simp
  next
    case False
    with xy yz have eq: "x = y" "y = z"
      and le: "compareCodes xs ys' \<le> 0" "compareCodes ys' zs' \<le> 0"
      by auto
    from le have "compareCodes xs zs' \<le> 0" by (rule Cons.IH)
    with eq show ?thesis by (simp only: zs compareCodes_Cons_le) simp
  qed
qed

lemma collation_samplePlatform: "collation samplePlatform"
proof -
  have tot: "sampleCompare a b \<le> 0 \<or> sampleCompare b a \<le> 0" for a b
    unfolding sampleCompare_def by (rule compareCodes_total)
  have tr: "sampleCompare a b \<le> 0 \<Longrightarrow> sampleCompare b c \<le> 0 \<Longrightarrow> sampleCompare a c \<le> 0" for a b c
    unfolding sampleCompare_def by (rule compareCodes_trans)
  have lc: "localeCompare samplePlatform = sampleCompare"
    by (simp add: samplePlatform_def)
  show ?thesis
    unfolding collation_def lc
  proof (intro conjI allI impI)
    fix a b
    show "sampleCompare a b \<le> 0 \<or> sampleCompare b a \<le> 0" by (rule tot)
  next
    fix a b c
    assume "sampleCompare a b \<le> 0 \<and> sampleCompare b c \<le> 0"
    then show "sampleCompare a c \<le> 0" using tr by (elim conjE)
  qed
qed

lemma name_enhanceSystem: "name (enhanceSystem P A sys) = sysName sys"
  by (simp add: enhanceSystem_def formatPvSystemData_def split: sum.splits)

text \<open>Where \<open>localeCompare\<close> follows the alphabetical order on the names of a list, a
  list in the order of \<open>compareSystems\<close> is in the order the specification words.\<close>

lemma listOrdered_alphabetical:
  assumes "listOrdered P xs" and "ordersAlphabetically P (map name xs)"
  shows "activeFirstThenByName xs"
  using assms(1) unfolding listOrdered_def activeFirstThenByName_def
proof (rule sorted_wrt_mono_rel[rotated])
  fix a b
  assume "a \<in> set xs" "b \<in> set xs"
    and h: "(isActive b \<longrightarrow> isActive a)
            \<and> (isActive a = isActive b \<longrightarrow> localeCompare P (name a) (name b) \<le> 0)"
  with assms(2)
  have "localeCompare P (name a) (name b) \<le> 0 \<longrightarrow> caseInsensitiveAlphabetical (name a) (name b)"
    by (simp add: ordersAlphabetically_def)
  with h show "(isActive b \<longrightarrow> isActive a)
            \<and> (isActive a = isActive b \<longrightarrow> caseInsensitiveAlphabetical (name a) (name b))"
    by blast
qed

lemma ordersAlphabetically_samplePlatform: "ordersAlphabetically samplePlatform names"
  by (simp add: ordersAlphabetically_def samplePlatform_def sampleCompare_def
      caseInsensitiveAlphabetical_def)

subsection \<open>Binary64 rounding\<close>

lemma log2floor_bounds:
  "1 \<le> n \<Longrightarrow> 0 \<le> log2floor n \<and> 2 ^ nat (log2floor n) \<le> n \<and> n < 2 * 2 ^ nat (log2floor n)"
proof (induction n rule: log2floor.induct)
  case (1 n)
  show ?case
  proof (cases "n < 2")
    case True
    with 1(2) have "n = 1" by simp
    then show ?thesis by (simp add: log2floor.simps)
  next
    case False
    then have "1 \<le> n div 2" by simp
    with 1(1) False have ih: "0 \<le> log2floor (n div 2)"
      "2 ^ nat (log2floor (n div 2)) \<le> n div 2"
      "n div 2 < 2 * 2 ^ nat (log2floor (n div 2))" by simp_all
    from False have l: "log2floor n = 1 + log2floor (n div 2)" by (subst log2floor.simps) simp
    from ih(1) have p: "(2::int) ^ nat (1 + log2floor (n div 2)) = 2 * 2 ^ nat (log2floor (n div 2))"
      by (simp add: nat_add_distrib)
    from ih show ?thesis unfolding l p by linarith
  qed
qed

lemma pow2_powi: "pow2 k = 2 powi k"
  by (simp add: pow2_def power_int_def power_one_over inverse_eq_divide)

lemma pow2_pos: "0 < pow2 k"
  by (simp add: pow2_powi)

lemma pow2_Suc: "pow2 (k + 1) = 2 * pow2 k"
  by (simp add: pow2_powi power_int_add)

lemma pow2_diff: "pow2 (i - j) = pow2 i / pow2 j"
  by (simp add: pow2_powi power_int_diff)

lemma pow2_add: "pow2 (i + j) = pow2 i * pow2 j"
  by (simp add: pow2_powi power_int_add)

lemma pow2_nat: "0 \<le> k \<Longrightarrow> pow2 k = 2 ^ nat k"
  by (simp add: pow2_def)

lemma pow2_mono: "i \<le> j \<Longrightarrow> pow2 i \<le> pow2 j"
  by (simp add: pow2_powi power_int_increasing)

lemma pow2_strict_mono: "i < j \<Longrightarrow> pow2 i < pow2 j"
  by (simp add: pow2_powi power_int_strict_increasing)

lemma pow2_less_iff: "pow2 i < pow2 j \<longleftrightarrow> i < j"
  by (meson linorder_not_less pow2_mono pow2_strict_mono)

text \<open>\<open>binaryExponent\<close> finds the exponent of a positive value.\<close>

lemma binaryExponent_bounds:
  assumes "0 < x"
  shows "pow2 (binaryExponent x) \<le> x \<and> x < pow2 (binaryExponent x + 1)"
proof -
  obtain a b where q: "quotient_of x = (a, b)" by (cases "quotient_of x")
  then have x: "x = of_int a / of_int b" by (rule quotient_of_div)
  from q have b: "0 < b" using quotient_of_denom_pos by blast
  with assms x have a: "0 < a" by (simp add: zero_less_divide_iff)
  define i where "i = log2floor a"
  define j where "j = log2floor b"
  from a have ia: "0 \<le> i" "2 ^ nat i \<le> a" "a < 2 * 2 ^ nat i"
    using log2floor_bounds[of a] by (simp_all add: i_def)
  from b have jb: "0 \<le> j" "2 ^ nat j \<le> b" "b < 2 * 2 ^ nat j"
    using log2floor_bounds[of b] by (simp_all add: j_def)
  have ra: "pow2 i \<le> of_int a" "of_int a < 2 * pow2 i"
  proof -
    from ia(2) have "(of_int (2 ^ nat i) :: rat) \<le> of_int a" by (simp only: of_int_le_iff)
    then show "pow2 i \<le> of_int a" using ia(1) by (simp add: pow2_nat)
    from ia(3) have "(of_int a :: rat) < of_int (2 * 2 ^ nat i)" by (simp only: of_int_less_iff)
    then show "of_int a < 2 * pow2 i" using ia(1) by (simp add: pow2_nat)
  qed
  have rb: "pow2 j \<le> of_int b" "of_int b < 2 * pow2 j"
  proof -
    from jb(2) have "(of_int (2 ^ nat j) :: rat) \<le> of_int b" by (simp only: of_int_le_iff)
    then show "pow2 j \<le> of_int b" using jb(1) by (simp add: pow2_nat)
    from jb(3) have "(of_int b :: rat) < of_int (2 * 2 ^ nat j)" by (simp only: of_int_less_iff)
    then show "of_int b < 2 * pow2 j" using jb(1) by (simp add: pow2_nat)
  qed
  have bpos: "(0::rat) < of_int b" using b by simp
  have pj: "0 < pow2 j" and pi: "0 < pow2 i" by (rule pow2_pos)+
  have up: "x < pow2 (i - j + 1)"
  proof -
    have "of_int a < 2 * pow2 i * 1" using ra(2) by simp
    also have "\<dots> \<le> 2 * pow2 i * (of_int b / pow2 j)"
      using rb(1) pj pi by (intro mult_left_mono) (simp_all add: le_divide_eq)
    finally have "of_int a < (2 * pow2 i / pow2 j) * of_int b" by simp
    then have "x < 2 * pow2 i / pow2 j" unfolding x using bpos by (simp add: divide_less_eq)
    then show ?thesis by (simp add: pow2_Suc pow2_diff)
  qed
  have low: "pow2 (i - j - 1) < x"
  proof -
    have "pow2 i * of_int b < pow2 i * (2 * pow2 j)"
      using rb(2) pi by (intro mult_strict_left_mono)
    also have "\<dots> \<le> of_int a * (2 * pow2 j)"
      using ra(1) pj by (intro mult_right_mono) simp_all
    finally have "(pow2 i / (2 * pow2 j)) * of_int b < of_int a"
      using pj by (simp add: divide_less_eq mult.commute)
    then have "pow2 i / (2 * pow2 j) < x" unfolding x using bpos by (simp add: less_divide_eq)
    moreover have "pow2 (i - j - 1) = pow2 i / (2 * pow2 j)"
    proof -
      have "pow2 (i - j - 1 + 1) = 2 * pow2 (i - j - 1)" by (rule pow2_Suc)
      then have "pow2 (i - j - 1) = pow2 (i - j) / 2" by simp
      then show ?thesis by (simp add: pow2_diff)
    qed
    ultimately show ?thesis by simp
  qed
  have e: "binaryExponent x = (if pow2 (i - j) \<le> x then i - j else i - j - 1)"
    by (simp add: binaryExponent_def q i_def j_def Let_def)
  show ?thesis
  proof (cases "pow2 (i - j) \<le> x")
    case True
    with e up show ?thesis by simp
  next
    case False
    with e low show ?thesis by simp
  qed
qed

lemma roundHalfEven_error: "\<bar>of_int (roundHalfEven m) - m\<bar> \<le> 1 / 2"
proof -
  have "of_int \<lfloor>m\<rfloor> \<le> m" "m < of_int \<lfloor>m\<rfloor> + 1" by linarith+
  then show ?thesis by (auto simp: roundHalfEven_def Let_def abs_le_iff)
qed

lemma roundHalfEven_of_int: "roundHalfEven (of_int k) = k"
  by (simp add: roundHalfEven_def)

lemma roundHalfEven_nonneg: "0 \<le> m \<Longrightarrow> 0 \<le> roundHalfEven m"
  by (auto simp: roundHalfEven_def Let_def)

text \<open>In the range of the normal numbers, below \<open>2^1023\<close>, the binary64 value of \<open>x\<close> is
  finite and differs from \<open>x\<close> by at most \<open>\<bar>x\<bar> / 2^53\<close>.\<close>

lemma binary64_error:
  assumes lo: "pow2 (- 1022) \<le> \<bar>x\<bar>" and hi: "\<bar>x\<bar> < pow2 1023"
  shows "\<exists>y. binary64 x = Finite y \<and> \<bar>y - x\<bar> \<le> \<bar>x\<bar> / 2 ^ 53"
proof -
  define a where "a = \<bar>x\<bar>"
  have apos: "0 < a" using lo pow2_pos[of "- 1022"] by (simp add: a_def)
  then have x0: "x \<noteq> 0" by (auto simp: a_def)
  define e where "e = binaryExponent a"
  from binaryExponent_bounds[OF apos] have b: "pow2 e \<le> a" "a < pow2 (e + 1)"
    by (simp_all add: e_def)
  from lo b(2) have "pow2 (- 1022) < pow2 (e + 1)" by (simp add: a_def)
  then have e1: "- 1022 \<le> e" by (simp add: pow2_less_iff)
  from hi b(1) have "pow2 e < pow2 1023" by (simp add: a_def)
  then have e2: "e < 1023" by (simp add: pow2_less_iff)
  define q where "q = pow2 (e - 52)"
  define n where "n = roundHalfEven (a / q)"
  have qpos: "0 < q" by (simp add: q_def pow2_pos)
  from e1 have m: "max e (- 1022) = e" by simp
  have val: "binary64 x = Finite (sgn x * of_int n * q)"
    using x0 e2 by (simp add: binary64_def Let_def a_def[symmetric] e_def[symmetric] m
        q_def[symmetric] n_def[symmetric])
  have "\<bar>of_int n - a / q\<bar> \<le> 1 / 2" unfolding n_def by (rule roundHalfEven_error)
  then have "\<bar>of_int n - a / q\<bar> * q \<le> 1 / 2 * q" using qpos by (intro mult_right_mono) simp_all
  moreover have "\<bar>of_int n - a / q\<bar> * q = \<bar>of_int n * q - a\<bar>"
  proof -
    have "\<bar>of_int n - a / q\<bar> * q = \<bar>(of_int n - a / q) * q\<bar>" using qpos by (simp add: abs_mult)
    also have "(of_int n - a / q) * q = of_int n * q - a" using qpos by (simp add: left_diff_distrib)
    finally show ?thesis .
  qed
  ultimately have d: "\<bar>of_int n * q - a\<bar> \<le> q / 2" by simp
  have "q / 2 = pow2 e / 2 ^ 53"
  proof -
    have "pow2 (e - 52) = pow2 e / pow2 52" by (rule pow2_diff)
    then show ?thesis by (simp add: q_def pow2_def)
  qed
  also have "\<dots> \<le> a / 2 ^ 53" using b(1) by (simp add: divide_right_mono)
  finally have q2: "q / 2 \<le> a / 2 ^ 53" .
  have "\<bar>sgn x * of_int n * q - x\<bar> = \<bar>of_int n * q - a\<bar>"
  proof (cases "0 < x")
    case True
    then show ?thesis by (simp add: a_def)
  next
    case False
    with x0 have neg: "x < 0" by simp
    then have "sgn x * of_int n * q - x = - (of_int n * q - a)" by (simp add: a_def)
    then show ?thesis by (simp only: abs_minus)
  qed
  with d q2 have "\<bar>sgn x * of_int n * q - x\<bar> \<le> \<bar>x\<bar> / 2 ^ 53" by (simp add: a_def)
  with val show ?thesis by blast
qed

text \<open>An integer of up to 53 bits is a binary64 value.\<close>

lemma binary64_of_int:
  assumes "\<bar>k\<bar> \<le> 2 ^ 53"
  shows "binary64 (of_int k) = Finite (of_int k)"
proof (cases "k = 0")
  case True
  then show ?thesis by (simp add: binary64_def)
next
  case False
  define a :: rat where "a = \<bar>of_int k\<bar>"
  have ak: "a = of_int \<bar>k\<bar>" by (simp add: a_def)
  from False have apos: "0 < a" by (simp add: a_def)
  from False have "1 \<le> \<bar>k\<bar>" by simp
  then have a1: "1 \<le> a" unfolding ak by (simp only: of_int_1_le_iff)
  from assms have a53: "a \<le> 2 ^ 53"
  proof -
    from assms have "(of_int \<bar>k\<bar> :: rat) \<le> of_int (2 ^ 53)" by (simp only: of_int_le_iff)
    then show ?thesis by (simp add: ak)
  qed
  define e where "e = binaryExponent a"
  from binaryExponent_bounds[OF apos] have b: "pow2 e \<le> a" "a < pow2 (e + 1)"
    by (simp_all add: e_def)
  have "pow2 0 < pow2 (e + 1)" using a1 b(2) by (simp add: pow2_def)
  then have e0: "0 \<le> e" by (simp add: pow2_less_iff)
  have "pow2 e < pow2 54" using a53 b(1) by (simp add: pow2_def)
  then have e53: "e \<le> 53" by (simp add: pow2_less_iff)
  define q where "q = pow2 (e - 52)"
  have qpos: "0 < q" by (simp add: q_def pow2_pos)
  from e0 have m: "max e (- 1022) = e" by simp
  have int: "\<exists>j. a / q = of_int j"
  proof (cases "e \<le> 52")
    case True
    have "a / q = a * pow2 (52 - e)"
    proof -
      have "pow2 (52 - e) * pow2 (e - 52) = pow2 ((52 - e) + (e - 52))" by (simp only: pow2_add)
      also have "\<dots> = 1" by (simp add: pow2_def)
      finally have "pow2 (52 - e) = 1 / q" using qpos by (simp add: q_def field_simps)
      then show ?thesis by simp
    qed
    also have "\<dots> = of_int (\<bar>k\<bar> * 2 ^ nat (52 - e))" using True by (simp add: ak pow2_nat)
    finally show ?thesis by blast
  next
    case False
    with e53 have e: "e = 53" by simp
    then have "pow2 e = 2 ^ 53" by (simp add: pow2_def)
    with b(1) a53 have "a = 2 ^ 53" by simp
    moreover from e have "q = 2" by (simp add: q_def pow2_def)
    ultimately have "a / q = of_int (2 ^ 52)" by simp
    then show ?thesis by blast
  qed
  then obtain j where j: "a / q = of_int j" by blast
  then have n: "roundHalfEven (a / q) = j" by (simp add: roundHalfEven_of_int)
  from j qpos have jq: "of_int j * q = a" by (simp add: field_simps)
  have "j \<noteq> 2 ^ 53 \<or> e \<noteq> 1023" using e53 by simp
  then have "binary64 (of_int k) = Finite (sgn (of_int k) * of_int j * q)"
    using False e53 by (simp add: binary64_def Let_def a_def[symmetric] e_def[symmetric] m
        q_def[symmetric] n)
  also have "sgn (of_int k :: rat) * of_int j * q = sgn (of_int k) * a" using jq by simp
  also have "\<dots> = of_int k" by (simp add: a_def sgn_mult_abs)
  finally show ?thesis .
qed

text \<open>A sum of integers whose absolute values add up to at most \<open>2^53\<close> is exact.\<close>

lemma foldl_numAdd_integers:
  "\<bar>a\<bar> + sum_list (map abs ks) \<le> 2 ^ 53
     \<Longrightarrow> foldl numAdd (Finite (of_int a)) (map (\<lambda>k. Finite (of_int k)) ks)
           = Finite (of_int (a + sum_list ks))"
proof (induction ks arbitrary: a)
  case Nil
  then show ?case by simp
next
  case (Cons k ks)
  have "\<bar>a + k\<bar> \<le> \<bar>a\<bar> + \<bar>k\<bar>" by (rule abs_triangle_ineq)
  moreover have "0 \<le> sum_list (map abs ks)" by (induction ks) simp_all
  ultimately have s: "\<bar>a + k\<bar> \<le> 2 ^ 53" "\<bar>a + k\<bar> + sum_list (map abs ks) \<le> 2 ^ 53"
    using Cons.prems by simp_all
  have "numAdd (Finite (of_int a)) (Finite (of_int k)) = Finite (of_int (a + k))"
    using binary64_of_int[OF s(1)] by simp
  with Cons.IH[OF s(2)] show ?case by (simp add: add.assoc)
qed

lemma sumNumbers_integers:
  "sum_list (map abs ks) \<le> 2 ^ 53
     \<Longrightarrow> sumNumbers (map (\<lambda>k. Finite (of_int k)) ks) = Finite (of_int (sum_list ks))"
  using foldl_numAdd_integers[of 0 ks] by (simp add: sumNumbers_def)

text \<open>The literal \<open>0.4\<close>.\<close>

lemma binary64_four_tenths: "binary64 (4 / 10) = Finite (3602879701896397 / 2 ^ 53)"
  by code_simp

text \<open>The product \<open>(energyWh / 1000) * 0.4\<close> of the code against the exact one: three
  roundings, each of at most one part in \<open>2^53\<close>.\<close>

lemma earningsDollars_error:
  assumes lo: "pow2 (- 1000) \<le> \<bar>r\<bar>" and hi: "\<bar>r\<bar> \<le> 10 ^ 24"
  shows "\<exists>p. earningsDollars (Finite r) = Finite p
             \<and> \<bar>p - r * 4 / 10000\<bar> \<le> \<bar>r * 4 / 10000\<bar> / 2 ^ 51"
proof -
  define X where "X = r / 1000"
  define A where "A = \<bar>X\<bar>"
  define u :: rat where "u = 1 / 2 ^ 53"
  define c :: rat where "c = 3602879701896397 / 2 ^ 53"
  define T where "T = X * (2 / 5)"
  have A: "A = \<bar>r\<bar> / 1000" by (simp add: A_def X_def)
  have A0: "0 \<le> A" by (simp add: A_def)
  have p10: "pow2 10 = 1024" by (simp add: pow2_def)
  have "pow2 (- 1010) * pow2 10 = pow2 (- 1010 + 10)" by (simp only: pow2_add)
  then have "pow2 (- 1010) * 1024 = pow2 (- 1000)" by (simp add: p10)
  with lo have "pow2 (- 1010) * 1024 \<le> \<bar>r\<bar>" by simp
  then have Alo: "pow2 (- 1010) \<le> A" unfolding A using pow2_pos[of "- 1010"] by linarith
  from hi have Ahi: "A \<le> 10 ^ 21" unfolding A by simp
  have big: "(10 ^ 21 :: rat) < pow2 1023"
  proof -
    have "(10 ^ 21 :: rat) < pow2 70" by (simp add: pow2_def)
    also have "\<dots> \<le> pow2 1023" by (rule pow2_mono) simp
    finally show ?thesis .
  qed
  have small: "pow2 (- 1022) \<le> pow2 (- 1012)" "pow2 (- 1012) \<le> pow2 (- 1010)"
    by (rule pow2_mono, simp)+
  have "pow2 (- 1012) * pow2 2 = pow2 (- 1012 + 2)" by (simp only: pow2_add)
  then have q4: "pow2 (- 1012) * 4 = pow2 (- 1010)" by (simp add: pow2_def)
  \<comment> \<open>the division\<close>
  have "pow2 (- 1022) \<le> \<bar>X\<bar>" using small Alo by (simp add: A_def)
  moreover have "\<bar>X\<bar> < pow2 1023" using Ahi big by (simp add: A_def)
  ultimately obtain d where d: "binary64 X = Finite d" and de: "\<bar>d - X\<bar> \<le> \<bar>X\<bar> / 2 ^ 53"
    using binary64_error by blast
  from de have de': "\<bar>d - X\<bar> \<le> A * u" by (simp add: A_def u_def)
  \<comment> \<open>the product before its rounding\<close>
  define Y where "Y = d * c"
  have cpos: "0 < c" "c \<le> 1 / 2" by (simp_all add: c_def)
  have cerr: "\<bar>c - 2 / 5\<bar> = u / 5" by (simp add: c_def u_def)
  have uu: "0 < u" "u \<le> 1 / 8" by (simp_all add: u_def)
  have "A * u \<le> A * (1 / 8)" using uu(2) A0 by (rule mult_left_mono)
  then have Au: "0 \<le> A * u" "A * u \<le> A / 8" using A0 uu(1) by simp_all
  have "Y - T = (d - X) * c + X * (c - 2 / 5)" by (simp add: Y_def T_def algebra_simps)
  then have "\<bar>Y - T\<bar> \<le> \<bar>(d - X) * c\<bar> + \<bar>X * (c - 2 / 5)\<bar>" by (simp only: abs_triangle_ineq)
  also have "\<bar>(d - X) * c\<bar> = \<bar>d - X\<bar> * c" using cpos by (simp add: abs_mult)
  also have "\<bar>X * (c - 2 / 5)\<bar> = A * (u / 5)" by (simp only: abs_mult cerr A_def)
  finally have "\<bar>Y - T\<bar> \<le> \<bar>d - X\<bar> * c + A * (u / 5)" .
  moreover have "\<bar>d - X\<bar> * c \<le> (A * u) * (1 / 2)"
    using de' cpos Au by (intro mult_mono) simp_all
  ultimately have YT: "\<bar>Y - T\<bar> \<le> A * u * (7 / 10)" by simp
  have Tabs: "\<bar>T\<bar> = A * (2 / 5)" by (simp add: T_def A_def abs_mult)
  have tri: "\<bar>Y\<bar> \<le> \<bar>T\<bar> + \<bar>Y - T\<bar>" "\<bar>T\<bar> \<le> \<bar>Y\<bar> + \<bar>Y - T\<bar>" by linarith+
  have Yup: "\<bar>Y\<bar> \<le> A / 2" using tri(1) YT Tabs Au by linarith
  have Ylow: "A / 4 \<le> \<bar>Y\<bar>" using tri(2) YT Tabs Au by linarith
  \<comment> \<open>the multiplication\<close>
  have "pow2 (- 1022) \<le> \<bar>Y\<bar>" using small Alo Ylow q4 by linarith
  moreover have "\<bar>Y\<bar> < pow2 1023" using Yup Ahi big by linarith
  ultimately obtain p where p: "binary64 Y = Finite p" and pe: "\<bar>p - Y\<bar> \<le> \<bar>Y\<bar> / 2 ^ 53"
    using binary64_error by blast
  have "\<bar>Y\<bar> / 2 ^ 53 = \<bar>Y\<bar> * u" by (simp add: u_def)
  also have "\<dots> \<le> (A / 2) * u" using Yup uu by (intro mult_right_mono) simp_all
  finally have pe': "\<bar>p - Y\<bar> \<le> A * u * (1 / 2)" using pe by simp
  have "\<bar>p - T\<bar> \<le> \<bar>p - Y\<bar> + \<bar>Y - T\<bar>" by linarith
  with pe' YT Au have "\<bar>p - T\<bar> \<le> A * u * (8 / 5)" by linarith
  also have "A * u * (8 / 5) = \<bar>T\<bar> / 2 ^ 51" by (simp add: Tabs u_def)
  finally have bound: "\<bar>p - T\<bar> \<le> \<bar>T\<bar> / 2 ^ 51" .
  have TT: "T = r * 4 / 10000" by (simp add: T_def X_def)
  have "earningsDollars (Finite r) = numMul (binary64 X) (Finite c)"
    unfolding earningsDollars_def binary64_four_tenths X_def c_def by simp
  then have "earningsDollars (Finite r) = Finite p"
    by (simp add: d Y_def[symmetric] p)
  with bound show ?thesis unfolding TT by blast
qed

section \<open>The dashboard screen: pagination\<close>

lemma applySearchFilter_fields [simp]:
  "pvSystems (applySearchFilter P A c q s) = pvSystems s"
  "hasMorePages (applySearchFilter P A c q s) = hasMorePages s"
  "allSystemsBasicInfo (applySearchFilter P A c q s) = allSystemsBasicInfo s"
  by (simp_all add: applySearchFilter_def Let_def)

lemma start_fields [simp]:
  "pvSystems (loadPvSystemsPage_start page showLoading s) = pvSystems s"
  "filteredSystems (loadPvSystemsPage_start page showLoading s) = filteredSystems s"
  "searchQuery (loadPvSystemsPage_start page showLoading s) = searchQuery s"
  "hasMorePages (loadPvSystemsPage_start page showLoading s) = hasMorePages s"
  "allSystemsBasicInfo (loadPvSystemsPage_start page showLoading s) = allSystemsBasicInfo s"
  by (simp_all add: loadPvSystemsPage_start_def)

lemma trim_Nil [simp]: "trim [] = []"
  by (simp add: trim_def)

lemma length_sortBy [simp]: "length (sortBy cmp xs) = length xs"
  by (metis mset_sortBy size_mset)

lemma set_sortBy: "set (sortBy cmp xs) = set xs"
  by (metis mset_sortBy set_mset_mset)

text \<open>After a page has been fetched, \<open>hasMorePages\<close> says whether it was full.\<close>

lemma page_hasMore:
  assumes "getPvSystems A (page * SYSTEMS_PER_PAGE) SYSTEMS_PER_PAGE = Inr r"
  shows "hasMorePages (loadPvSystemsPage P A page showLoading s)
           = (length (case r of None \<Rightarrow> [] | Some xs \<Rightarrow> xs) = SYSTEMS_PER_PAGE)"
  using assms
  by (simp add: loadPvSystemsPage_def loadPvSystemsPage_resume_def Let_def SYSTEMS_PER_PAGE_def
      split: option.splits)

text \<open>The guard of \<open>handleLoadMore\<close>, read on the three cells.\<close>

lemma handleLoadMore_no_op:
  "isLoadingMore s \<or> \<not> hasMorePages s \<or> trim (searchQuery s) \<noteq> []
     \<Longrightarrow> handleLoadMore s = (None, s)"
  by (auto simp: handleLoadMore_def)

text \<open>A short page ends the pagination: the next \<open>handleLoadMore\<close> starts nothing.\<close>

lemma short_page_ends_pagination:
  assumes "getPvSystems A (page * SYSTEMS_PER_PAGE) SYSTEMS_PER_PAGE = Inr r"
    and "length (case r of None \<Rightarrow> [] | Some xs \<Rightarrow> xs) < SYSTEMS_PER_PAGE"
  shows "fst (handleLoadMore (loadPvSystemsPage P A page showLoading s)) = None"
proof -
  from assms have "\<not> hasMorePages (loadPvSystemsPage P A page showLoading s)"
    by (simp add: page_hasMore)
  then show ?thesis by (simp add: handleLoadMore_no_op)
qed

text \<open>
  \<open>handleLoadMore\<close> calls \<open>loadPvSystemsPage\<close> with \<open>showLoading = false\<close>, so the
  load it starts sets no cell before its first \<open>await\<close>: the state with the load in
  flight is the state before, \<open>isLoadingMore\<close> included.
\<close>

lemma handleLoadMore_leaves_state: "snd (handleLoadMore s) = s"
  by (simp add: handleLoadMore_def loadPvSystemsPage_start_def)

lemma handleLoadMore_again: "handleLoadMore (snd (handleLoadMore s)) = handleLoadMore s"
  by (simp add: handleLoadMore_leaves_state)

text \<open>A page that arrives while no query is typed: the whole state after it.\<close>

lemma resume_page:
  assumes "getPvSystems A (page * SYSTEMS_PER_PAGE) SYSTEMS_PER_PAGE = Inr (Some systemsData)"
    and "systemsData \<noteq> []"
    and "trim (searchQuery c) = []"
  shows "loadPvSystemsPage_resume P A page c s =
     s\<lparr>hasMorePages := (length systemsData = SYSTEMS_PER_PAGE),
       pvSystems := (if page = 0 then sortBy (compareSystems P) (map (enhanceSystem P A) systemsData)
                     else pvSystems s @ sortBy (compareSystems P) (map (enhanceSystem P A) systemsData)),
       filteredSystems := (if page = 0 then sortBy (compareSystems P) (map (enhanceSystem P A) systemsData)
                     else filteredSystems s @ sortBy (compareSystems P) (map (enhanceSystem P A) systemsData)),
       currentPage := page, loading := False, isLoadingMore := False\<rparr>"
  unfolding loadPvSystemsPage_resume_def Let_def
  using assms by simp

lemma pvSystems_resume:
  assumes "getPvSystems A (page * SYSTEMS_PER_PAGE) SYSTEMS_PER_PAGE = Inr (Some systemsData)"
    and "systemsData \<noteq> []"
  shows "pvSystems (loadPvSystemsPage_resume P A page c s) =
     (if page = 0 then sortBy (compareSystems P) (map (enhanceSystem P A) systemsData)
      else pvSystems s @ sortBy (compareSystems P) (map (enhanceSystem P A) systemsData))"
  unfolding loadPvSystemsPage_resume_def Let_def
  using assms by simp

lemma loadAllSystemsBasicInfo_rejected:
  "getPvSystems A 0 1000 = Inl e \<Longrightarrow> loadAllSystemsBasicInfo A s = s\<lparr>isLoadingAllSystems := False\<rparr>"
  by (simp add: loadAllSystemsBasicInfo_def)

lemma loadAllSystemsBasicInfo_answered:
  "getPvSystems A 0 1000 = Inr (Some xs) \<Longrightarrow> xs \<noteq> []
     \<Longrightarrow> loadAllSystemsBasicInfo A s
          = s\<lparr>allSystemsBasicInfo := map formatBasicSystemData xs,
              totalSystems := length xs, isLoadingAllSystems := False\<rparr>"
  by (simp add: loadAllSystemsBasicInfo_def Let_def)

subsection \<open>The sample fleet\<close>

lemma fleet_pages:
  "take 10 (drop (0 * 10) fleetSystems) = map sampleSystem [0..<10]"
  "take 10 (drop (1 * 10) fleetSystems) = map sampleSystem [10..<20]"
  "take 10 (drop (2 * 10) fleetSystems) = map sampleSystem [20..<21]"
  by (simp_all add: fleetSystems_def take_map drop_map)

lemma fleet_answer:
  "getPvSystems fleetClient (k * SYSTEMS_PER_PAGE) SYSTEMS_PER_PAGE
     = Inr (Some (take 10 (drop (k * 10) fleetSystems)))"
  by (simp add: fleetClient_def sampleClient_def SYSTEMS_PER_PAGE_def)

lemma fleet_directory: "getPvSystems fleetClient 0 1000 = Inl (Error ''timeout'')"
  by (simp add: fleetClient_def sampleClient_def)

lemma length_fleetBlock:
  "length (fleetBlock 0) = 10" "length (fleetBlock 1) = 10" "length (fleetBlock 2) = 1"
  by (simp_all add: fleetBlock_def fleetSystems_def)

lemma fleetPage0_eq:
  "fleetPage0 =
     \<lparr> refreshing = False, pvSystems = fleetBlock 0, filteredSystems = fleetBlock 0,
       searchQuery = [], loading = False, error = None, totalSystems = 0, currentPage = 0,
       hasMorePages = True, isLoadingMore = False, allSystemsBasicInfo = [],
       isSearching = False, isLoadingAllSystems = False \<rparr>"
proof -
  have q: "trim (searchQuery initialState) = []" by (simp add: initialState_def)
  have ne: "take 10 (drop (0 * 10) fleetSystems) \<noteq> []" by (simp add: fleetSystems_def)
  have len: "length (take 10 (drop (0 * 10) fleetSystems)) = SYSTEMS_PER_PAGE"
    by (simp add: fleetSystems_def SYSTEMS_PER_PAGE_def)
  show ?thesis
    unfolding fleetPage0_def loadPvSystemsPage_def
      loadAllSystemsBasicInfo_rejected[OF fleet_directory]
      resume_page[OF fleet_answer ne q] len
    by (simp add: initialState_def loadPvSystemsPage_start_def fleetBlock_def)
qed

lemma fleetPage1_eq:
  "fleetPage1 = fleetPage0 \<lparr> pvSystems := fleetBlock 0 @ fleetBlock 1,
                             filteredSystems := fleetBlock 0 @ fleetBlock 1,
                             currentPage := 1 \<rparr>"
proof -
  have q: "trim (searchQuery fleetPage0) = []" by (simp add: fleetPage0_eq)
  have ne: "take 10 (drop (1 * 10) fleetSystems) \<noteq> []" by (simp add: fleetSystems_def)
  have len: "length (take 10 (drop (1 * 10) fleetSystems)) = SYSTEMS_PER_PAGE"
    by (simp add: fleetSystems_def SYSTEMS_PER_PAGE_def)
  show ?thesis
    unfolding fleetPage1_def loadPvSystemsPage_def resume_page[OF fleet_answer ne q] len
    by (simp add: fleetPage0_eq loadPvSystemsPage_start_def fleetBlock_def)
qed

lemma fleetPage2_eq:
  "fleetPage2 = fleetPage0 \<lparr> pvSystems := fleetBlock 0 @ fleetBlock 1 @ fleetBlock 2,
                             filteredSystems := fleetBlock 0 @ fleetBlock 1 @ fleetBlock 2,
                             currentPage := 2, hasMorePages := False \<rparr>"
proof -
  have q: "trim (searchQuery fleetPage1) = []" by (simp add: fleetPage1_eq fleetPage0_eq)
  have ne: "take 10 (drop (2 * 10) fleetSystems) \<noteq> []" by (simp add: fleetSystems_def)
  have len: "length (take 10 (drop (2 * 10) fleetSystems)) \<noteq> SYSTEMS_PER_PAGE"
    by (simp add: fleetSystems_def SYSTEMS_PER_PAGE_def)
  show ?thesis
    unfolding fleetPage2_def loadPvSystemsPage_def resume_page[OF fleet_answer ne q]
    using len
    by (simp add: fleetPage1_eq fleetPage0_eq loadPvSystemsPage_start_def fleetBlock_def)
qed

text \<open>
  Claim C1. A page with fewer than ten systems sets \<open>hasMorePages\<close> to false and a
  full page sets it to true (\<open>page_hasMore\<close>, \<open>short_page_ends_pagination\<close>), and
  \<open>handleLoadMore\<close> does nothing when \<open>isLoadingMore\<close> is set, \<open>hasMorePages\<close> is
  false or the query is not blank (\<open>handleLoadMore_no_op\<close>). But a load that
  \<open>handleLoadMore\<close> has started does not set \<open>isLoadingMore\<close>: on the sample fleet,
  with page 0 shown, \<open>handleLoadMore\<close> starts the load of page 1 and, called again
  while that load is in flight, starts it a second time; when both loads have finished,
  the ten records of page 1 stand twice in the list.
\<close>

theorem second_load_starts_while_first_in_flight:
  "handleLoadMore fleetPage0 = (Some 1, fleetPage0)
   \<and> handleLoadMore (snd (handleLoadMore fleetPage0)) = (Some 1, fleetPage0)
   \<and> pvSystems (loadPvSystemsPage_resume samplePlatform fleetClient 1 fleetPage0
         (loadPvSystemsPage_resume samplePlatform fleetClient 1 fleetPage0 fleetPage0))
      = pvSystems fleetPage0 @ fleetBlock 1 @ fleetBlock 1
   \<and> length (fleetBlock 1) = 10"
proof -
  have h: "handleLoadMore fleetPage0 = (Some 1, fleetPage0)"
    unfolding handleLoadMore_def loadPvSystemsPage_start_def
    by (simp add: fleetPage0_eq)
  have q: "trim (searchQuery fleetPage0) = []" by (simp add: fleetPage0_eq)
  have ne: "take 10 (drop (1 * 10) fleetSystems) \<noteq> []" by (simp add: fleetSystems_def)
  have twice: "pvSystems (loadPvSystemsPage_resume samplePlatform fleetClient 1 fleetPage0
         (loadPvSystemsPage_resume samplePlatform fleetClient 1 fleetPage0 fleetPage0))
      = pvSystems fleetPage0 @ fleetBlock 1 @ fleetBlock 1"
    unfolding resume_page[OF fleet_answer ne q]
    by (simp add: fleetBlock_def)
  from h twice length_fleetBlock(2) show ?thesis by simp
qed

section \<open>The dashboard screen: order of the list\<close>

text \<open>
  Claim C2, as amended. The records of one fetched page, if there are any, are sorted
  before they are shown: within that block every active record stands before every
  inactive one, and records of equal activity stand in case-insensitive alphabetical
  order of their names, on a platform whose \<open>localeCompare\<close> is a consistent
  comparison and puts the names of the page in that order. Page 0 is held as this
  block; a later page is appended as a block to what the list holds, and the list as a
  whole is not sorted again. With a blank search query the displayed list is changed in
  the same way.
\<close>

theorem page_sorted_on_its_own:
  assumes "collation P"
    and "ordersAlphabetically P (map sysName systemsData)"
    and "getPvSystems A (page * SYSTEMS_PER_PAGE) SYSTEMS_PER_PAGE = Inr (Some systemsData)"
    and "systemsData \<noteq> []"
  shows "\<exists>block. activeFirstThenByName block
           \<and> mset block = mset (map (enhanceSystem P A) systemsData)
           \<and> pvSystems (loadPvSystemsPage P A page showLoading s)
               = (if page = 0 then block else pvSystems s @ block)
           \<and> (trim (searchQuery s) = []
              \<longrightarrow> filteredSystems (loadPvSystemsPage P A page showLoading s)
                   = (if page = 0 then block else filteredSystems s @ block))"
proof -
  let ?block = "sortBy (compareSystems P) (map (enhanceSystem P A) systemsData)"
  have "listOrdered P ?block" using assms(1) by (rule listOrdered_sortBy)
  moreover have "map name (map (enhanceSystem P A) systemsData) = map sysName systemsData"
    by (simp add: name_enhanceSystem)
  then have "set (map name ?block) = set (map sysName systemsData)"
    by (metis set_map set_sortBy)
  with assms(2) have "ordersAlphabetically P (map name ?block)"
    by (simp only: ordersAlphabetically_def)
  ultimately have "activeFirstThenByName ?block" by (rule listOrdered_alphabetical)
  moreover have "mset ?block = mset (map (enhanceSystem P A) systemsData)" by (rule mset_sortBy)
  moreover have "pvSystems (loadPvSystemsPage P A page showLoading s)
               = (if page = 0 then ?block else pvSystems s @ ?block)"
    by (simp add: loadPvSystemsPage_def pvSystems_resume[OF assms(3,4)])
  moreover have "trim (searchQuery s) = []
              \<longrightarrow> filteredSystems (loadPvSystemsPage P A page showLoading s)
                   = (if page = 0 then ?block else filteredSystems s @ ?block)"
    by (simp add: loadPvSystemsPage_def resume_page[OF assms(3,4)])
  ultimately show ?thesis by blast
qed

text \<open>The second page of the sample fleet is such a block after the ten records of
  page 0.\<close>

theorem page_sorted_on_its_own_witness:
  "\<exists>block. activeFirstThenByName block
      \<and> mset block = mset (map (enhanceSystem samplePlatform fleetClient) (map sampleSystem [10..<20]))
      \<and> pvSystems fleetPage1 = pvSystems fleetPage0 @ block
      \<and> filteredSystems fleetPage1 = filteredSystems fleetPage0 @ block"
proof -
  have a: "getPvSystems fleetClient (1 * SYSTEMS_PER_PAGE) SYSTEMS_PER_PAGE
             = Inr (Some (map sampleSystem [10..<20]))"
    unfolding fleet_answer fleet_pages by (rule refl)
  have ne: "map sampleSystem [10..<20] \<noteq> []" by simp
  have q: "trim (searchQuery fleetPage0) = []" by (simp add: fleetPage0_eq)
  from page_sorted_on_its_own [OF collation_samplePlatform ordersAlphabetically_samplePlatform a ne,
      of False fleetPage0] q
  show ?thesis by (simp add: fleetPage1_def)
qed

text \<open>The claim as it stands fails in two ways. The list after two pages is not in that
  order: the offline \<open>pv3\<close> stands in the block of page 0, before the online systems
  of page 1. And the order of the names is that of \<open>localeCompare\<close>: where it compares
  code units, the page of the online systems \<open>alpha\<close> and \<open>Beta\<close> is shown with
  \<open>Beta\<close> first.\<close>

lemma fleet_pv3_in_block0:
  "enhanceSystem samplePlatform fleetClient (sampleSystem 3) \<in> set (fleetBlock 0)"
  unfolding fleetBlock_def set_sortBy fleet_pages by simp

lemma fleet_pv10_in_block1:
  "enhanceSystem samplePlatform fleetClient (sampleSystem 10) \<in> set (fleetBlock 1)"
  unfolding fleetBlock_def set_sortBy fleet_pages by simp

lemma fleet_pv3_inactive: "\<not> isActive (enhanceSystem samplePlatform fleetClient (sampleSystem 3))"
  by code_simp

lemma fleet_pv10_active: "isActive (enhanceSystem samplePlatform fleetClient (sampleSystem 10))"
  by code_simp

lemma fleet_two_pages_not_ordered: "\<not> activeFirstThenByName (filteredSystems fleetPage1)"
proof
  assume "activeFirstThenByName (filteredSystems fleetPage1)"
  then have "activeFirstThenByName (fleetBlock 0 @ fleetBlock 1)"
    by (simp add: fleetPage1_eq)
  then have "\<forall>a \<in> set (fleetBlock 0). \<forall>b \<in> set (fleetBlock 1). isActive b \<longrightarrow> isActive a"
    unfolding activeFirstThenByName_def sorted_wrt_append by blast
  with fleet_pv3_in_block0 fleet_pv10_in_block1 fleet_pv10_active fleet_pv3_inactive
  show False by blast
qed

lemma case_page_not_ordered:
  "map (\<lambda>r. (name r, isActive r)) (filteredSystems casePage0) = [(''Beta'', True), (''alpha'', True)]
   \<and> \<not> activeFirstThenByName (filteredSystems casePage0)"
  by code_simp

theorem accumulated_list_not_ordered:
  "\<not> activeFirstThenByName (filteredSystems fleetPage1)
   \<and> map (\<lambda>r. (name r, isActive r)) (filteredSystems casePage0) = [(''Beta'', True), (''alpha'', True)]
   \<and> \<not> activeFirstThenByName (filteredSystems casePage0)"
  using fleet_two_pages_not_ordered case_page_not_ordered by (intro conjI) simp_all

section \<open>The dashboard screen: items whose data could not be fetched\<close>

lemma enhanced_in_page:
  assumes "getPvSystems A (page * SYSTEMS_PER_PAGE) SYSTEMS_PER_PAGE = Inr (Some systemsData)"
    and "sys \<in> set systemsData"
  shows "enhanceSystem P A sys \<in> set (pvSystems (loadPvSystemsPage P A page showLoading s))"
proof -
  from assms(2) have ne: "systemsData \<noteq> []" by auto
  from assms(2) show ?thesis
    by (simp add: loadPvSystemsPage_def pvSystems_resume[OF assms(1) ne] set_sortBy)
qed

lemma id_enhanceSystem: "id' (enhanceSystem P A sys) = pvSystemId sys"
  by (simp add: enhanceSystem_def formatPvSystemData_def split: sum.splits)

lemma enhanceSystem_flow_rejected:
  assumes "getPvSystemFlowData A (pvSystemId sys) = Inl e"
  shows "status (enhanceSystem P A sys) = Offline"
    and "power' (enhanceSystem P A sys) = ''0 kW''"
    and "daily (enhanceSystem P A sys) = ''0 kWh''"
  using assms
  by (simp_all add: enhanceSystem_def formatPvSystemData_def determineStatus_def extractPower_def
      extractDailyEnergy_def)

lemma enhanceSystem_aggr_rejected:
  assumes "getPvSystemFlowData A (pvSystemId sys) = Inr fd"
    and "getPvSystemAggregatedData A (pvSystemId sys) (FromDuration Today 1 None) = Inl e"
  shows "status (enhanceSystem P A sys) = determineStatus fd"
    and "power' (enhanceSystem P A sys) = extractPower P fd"
    and "daily (enhanceSystem P A sys) = ''0 kWh''"
  using assms
  by (simp_all add: enhanceSystem_def formatPvSystemData_def extractDailyEnergy_def)

lemma loadSearchResult_fails:
  assumes "find (\<lambda>sys. id' sys = id' b) pvs = None" and "searchFetchFails A (id' b)"
  shows "loadSearchResult P A pvs b = partialSystem b"
  using assms
  by (auto simp: loadSearchResult_def searchFetchFails_def isl_def split: sum.splits)

lemma filteredSystems_applySearchFilter:
  assumes "trim q \<noteq> []"
  shows "filteredSystems (applySearchFilter P A c q s)
           = map (loadSearchResult P A (pvSystems c))
               (take 20 (filter (matchesQuery (toLowerCase q)) (allSystemsBasicInfo c)))"
  using assms by (simp add: applySearchFilter_def Let_def)

text \<open>
  What holds of an item whose enrichment fails. It is not dropped. In page loading its
  record is in the list and is formatted from what had been fetched before the rejection:
  when the flow request is rejected the record has status offline, power \<open>0 kW\<close> and
  daily \<open>0 kWh\<close>; when the flow request is answered and the aggregate request is
  rejected the record has the status and the power of the flow answer, with daily
  \<open>0 kWh\<close>. In search-result loading a match among the first 20 that is not yet in the
  paginated list, and for which one of the three requests is rejected, appears as the
  partial record: its own id, status offline, power \<open>0 kW\<close>, daily \<open>0 kWh\<close>.
\<close>

lemma failing_item_is_kept:
  "(getPvSystems A (page * SYSTEMS_PER_PAGE) SYSTEMS_PER_PAGE = Inr (Some systemsData)
      \<and> sys \<in> set systemsData
    \<longrightarrow> enhanceSystem P A sys \<in> set (pvSystems (loadPvSystemsPage P A page showLoading s))
        \<and> id' (enhanceSystem P A sys) = pvSystemId sys)
   \<and> (getPvSystemFlowData A (pvSystemId sys1) = Inl e1
    \<longrightarrow> status (enhanceSystem P A sys1) = Offline
        \<and> power' (enhanceSystem P A sys1) = ''0 kW''
        \<and> daily (enhanceSystem P A sys1) = ''0 kWh'')
   \<and> (getPvSystemFlowData A (pvSystemId sys2) = Inr fd
      \<and> getPvSystemAggregatedData A (pvSystemId sys2) (FromDuration Today 1 None) = Inl e2
    \<longrightarrow> status (enhanceSystem P A sys2) = determineStatus fd
        \<and> power' (enhanceSystem P A sys2) = extractPower P fd
        \<and> daily (enhanceSystem P A sys2) = ''0 kWh'')
   \<and> (trim q \<noteq> []
      \<and> b \<in> set (take 20 (filter (matchesQuery (toLowerCase q)) (allSystemsBasicInfo c)))
      \<and> find (\<lambda>x. id' x = id' b) (pvSystems c) = None
      \<and> searchFetchFails A (id' b)
    \<longrightarrow> partialSystem b \<in> set (filteredSystems (applySearchFilter P A c q t))
        \<and> id' (partialSystem b) = id' b
        \<and> status (partialSystem b) = Offline
        \<and> power' (partialSystem b) = ''0 kW''
        \<and> daily (partialSystem b) = ''0 kWh'')"
proof (intro conjI impI)
  assume a: "getPvSystems A (page * SYSTEMS_PER_PAGE) SYSTEMS_PER_PAGE = Inr (Some systemsData)
      \<and> sys \<in> set systemsData"
  then show "enhanceSystem P A sys \<in> set (pvSystems (loadPvSystemsPage P A page showLoading s))"
    using enhanced_in_page by blast
  show "id' (enhanceSystem P A sys) = pvSystemId sys" by (rule id_enhanceSystem)
next
  assume "getPvSystemFlowData A (pvSystemId sys1) = Inl e1"
  then show "status (enhanceSystem P A sys1) = Offline"
    and "power' (enhanceSystem P A sys1) = ''0 kW''"
    and "daily (enhanceSystem P A sys1) = ''0 kWh''"
    by (rule enhanceSystem_flow_rejected)+
next
  assume a: "getPvSystemFlowData A (pvSystemId sys2) = Inr fd
      \<and> getPvSystemAggregatedData A (pvSystemId sys2) (FromDuration Today 1 None) = Inl e2"
  then show "status (enhanceSystem P A sys2) = determineStatus fd"
    and "power' (enhanceSystem P A sys2) = extractPower P fd"
    and "daily (enhanceSystem P A sys2) = ''0 kWh''"
    using enhanceSystem_aggr_rejected by blast+
next
  assume a: "trim q \<noteq> []
      \<and> b \<in> set (take 20 (filter (matchesQuery (toLowerCase q)) (allSystemsBasicInfo c)))
      \<and> find (\<lambda>x. id' x = id' b) (pvSystems c) = None
      \<and> searchFetchFails A (id' b)"
  then have "loadSearchResult P A (pvSystems c) b = partialSystem b"
    using loadSearchResult_fails by blast
  with a show "partialSystem b \<in> set (filteredSystems (applySearchFilter P A c q t))"
    by (force simp: filteredSystems_applySearchFilter)
  show "id' (partialSystem b) = id' b" "status (partialSystem b) = Offline"
    "power' (partialSystem b) = ''0 kW''" "daily (partialSystem b) = ''0 kWh''"
    by (simp_all add: partialSystem_def)
qed

text \<open>
  Claim C3. No failing item is dropped, and an item whose flow request is rejected is
  shown offline with \<open>0 kW\<close> and \<open>0 kWh\<close> (\<open>failing_item_is_kept\<close>). But when the
  aggregate request is the one rejected, the two paths differ. On the client with two
  systems the flow request of \<open>pv1\<close> is answered (online, 1500 W) and its aggregate
  request is rejected: search-result loading shows \<open>pv1\<close> offline with \<open>0 kW\<close>, while
  page loading, whose \<open>catch\<close> formats the flow answer it holds, shows it online with
  \<open>1.5 kW\<close>.
\<close>

theorem aggregate_failure_keeps_flow_status:
  "getPvSystemFlowData partlyDownClient ''pv1'' = Inr (Some (sampleFlow True (Finite 1500)))
   \<and> getPvSystemAggregatedData partlyDownClient ''pv1'' (FromDuration Today 1 None)
       = Inl (Error ''timeout'')
   \<and> map (\<lambda>r. (id' r, status r, power' r, daily r))
        (filteredSystems
           (applySearchFilter samplePlatform partlyDownClient directoryOnly ''plant 1'' directoryOnly))
      = [(''pv1'', Offline, ''0 kW'', ''0 kWh'')]
   \<and> map (\<lambda>r. (id' r, status r, power' r, daily r))
        (pvSystems (loadPvSystemsPage samplePlatform partlyDownClient 0 True initialState))
      = [(''pv1'', Online, ''1.5 kW'', ''0 kWh''), (''pv0'', Offline, ''0 kW'', ''0 kWh'')]"
  by code_simp

section \<open>The dashboard screen: search\<close>

lemma directory_search:
  assumes "allSystemsBasicInfo s \<noteq> []" and "trim q \<noteq> []"
  shows "filteredSystems (setSearchQuery P A q s)
           = map (loadSearchResult P A (pvSystems s))
               (take 20 (filter (matchesQuery (toLowerCase q)) (allSystemsBasicInfo s)))"
  using assms by (simp add: setSearchQuery_def searchEffect_def filteredSystems_applySearchFilter)

lemma fallback_search:
  assumes "allSystemsBasicInfo s = []" and "pvSystems s \<noteq> []"
  shows "filteredSystems (setSearchQuery P A q s)
           = filter (matchesQuery (toLowerCase q)) (pvSystems s)"
  using assms by (simp add: setSearchQuery_def searchEffect_def)

text \<open>
  What the search effect leaves in the displayed list. With the directory cache
  populated and a query that is not blank: at most 20 records, those of the first 20
  directory entries that match. In the fallback mode (directory cache empty, some page
  loaded): all loaded records that match.
\<close>

lemma search_result_size:
  "(allSystemsBasicInfo s \<noteq> [] \<and> trim q \<noteq> []
    \<longrightarrow> length (filteredSystems (setSearchQuery P A q s)) \<le> 20
        \<and> filteredSystems (setSearchQuery P A q s)
            = map (loadSearchResult P A (pvSystems s))
                (take 20 (filter (matchesQuery (toLowerCase q)) (allSystemsBasicInfo s))))
   \<and> (allSystemsBasicInfo s = [] \<and> pvSystems s \<noteq> []
    \<longrightarrow> filteredSystems (setSearchQuery P A q s)
          = filter (matchesQuery (toLowerCase q)) (pvSystems s))"
  by (simp add: directory_search fallback_search)

text \<open>Every record and every directory entry of the sample fleet matches the query
  \<open>plant\<close>.\<close>

lemma lower_plant: "toLowerCase ''plant'' = ''plant''" "toLowerCase ''Plant '' = ''plant ''"
  by code_simp+

lemma matches_plant:
  assumes "name x = ''Plant '' @ r"
  shows "matchesQuery (toLowerCase ''plant'') x"
proof -
  have "toLowerCase (name x) = ''plant '' @ toLowerCase r"
    unfolding assms lower_plant(2)[symmetric] by (simp add: toLowerCase_def)
  then show ?thesis by (simp add: matchesQuery_def lower_plant(1))
qed

lemma fleet_directory_matches:
  "filter (matchesQuery (toLowerCase ''plant'')) (map formatBasicSystemData fleetSystems)
     = map formatBasicSystemData fleetSystems"
  by (rule filter_True)
    (auto simp: fleetSystems_def formatBasicSystemData_def sampleSystem_def intro!: matches_plant)

lemma fleetBlock_matches:
  "filter (matchesQuery (toLowerCase ''plant'')) (fleetBlock k) = fleetBlock k"
proof (rule filter_True, rule ballI)
  fix x assume "x \<in> set (fleetBlock k)"
  then obtain sys where "sys \<in> set fleetSystems" and x: "x = enhanceSystem samplePlatform fleetClient sys"
    unfolding fleetBlock_def set_sortBy by (auto dest: in_set_takeD in_set_dropD)
  then obtain n where "sys = sampleSystem n" by (auto simp: fleetSystems_def)
  with x have "name x = ''Plant '' @ natToString n"
    by (simp add: name_enhanceSystem sampleSystem_def)
  then show "matchesQuery (toLowerCase ''plant'') x" by (rule matches_plant)
qed

lemma fleetDirectory0_directory:
  "allSystemsBasicInfo fleetDirectory0 = map formatBasicSystemData fleetSystems"
proof -
  have a: "getPvSystems fleetDirectoryClient 0 1000 = Inr (Some fleetSystems)"
    by (simp add: fleetDirectoryClient_def sampleClient_def fleetSystems_def)
  have ne: "fleetSystems \<noteq> []" by (simp add: fleetSystems_def)
  show ?thesis
    unfolding fleetDirectory0_def loadAllSystemsBasicInfo_answered[OF a ne] by simp
qed

lemma trim_plant: "trim ''plant'' \<noteq> []"
  by code_simp

text \<open>On the fleet with its directory loaded all 21 entries match \<open>plant\<close>, and 20
  records are shown.\<close>

lemma directory_search_shows_20:
  "length (filter (matchesQuery (toLowerCase ''plant'')) (allSystemsBasicInfo fleetDirectory0)) = 21
   \<and> length (filteredSystems (setSearchQuery samplePlatform fleetDirectoryClient ''plant'' fleetDirectory0))
       = 20"
proof -
  have d: "allSystemsBasicInfo fleetDirectory0 \<noteq> []"
    by (simp add: fleetDirectory0_directory fleetSystems_def)
  have n: "length (filter (matchesQuery (toLowerCase ''plant'')) (allSystemsBasicInfo fleetDirectory0)) = 21"
    unfolding fleetDirectory0_directory fleet_directory_matches by (simp add: fleetSystems_def)
  have "filteredSystems (setSearchQuery samplePlatform fleetDirectoryClient ''plant'' fleetDirectory0)
          = map (loadSearchResult samplePlatform fleetDirectoryClient (pvSystems fleetDirectory0))
              (take 20 (filter (matchesQuery (toLowerCase ''plant''))
                          (allSystemsBasicInfo fleetDirectory0)))"
    by (rule directory_search[OF d trim_plant])
  with n show ?thesis by simp
qed

text \<open>
  The cap of the directory path is on what the search effect sets, not on the list
  shown. A page load that \<open>handleLoadMore\<close> has started before the query is typed
  resumes with the blank query of its render and appends its page to the displayed
  list: on the fleet with its directory, page 1 arrives after the search for \<open>plant\<close>
  has shown its 20 records, and 30 records are shown under that query.
\<close>

lemma searchQuery_applySearchFilter [simp]:
  "searchQuery (applySearchFilter P A c q s) = searchQuery s"
  by (simp add: applySearchFilter_def Let_def)

lemma searchQuery_setSearchQuery: "searchQuery (setSearchQuery P A q s) = q"
  by (simp add: setSearchQuery_def searchEffect_def Let_def)

lemma searchQuery_loadAllSystemsBasicInfo [simp]:
  "searchQuery (loadAllSystemsBasicInfo A s) = searchQuery s"
  by (simp add: loadAllSystemsBasicInfo_def Let_def split: sum.splits option.splits)

lemma searchQuery_resume [simp]:
  "searchQuery (loadPvSystemsPage_resume P A page c s) = searchQuery s"
  by (simp add: loadPvSystemsPage_resume_def Let_def split: sum.splits option.splits)

lemma page_arriving_during_search_is_appended:
  "handleLoadMore fleetDirectory0 = (Some 1, fleetDirectory0)
   \<and> searchQuery (loadPvSystemsPage_resume samplePlatform fleetDirectoryClient 1 fleetDirectory0
         (setSearchQuery samplePlatform fleetDirectoryClient ''plant'' fleetDirectory0)) = ''plant''
   \<and> length (filteredSystems
         (loadPvSystemsPage_resume samplePlatform fleetDirectoryClient 1 fleetDirectory0
           (setSearchQuery samplePlatform fleetDirectoryClient ''plant'' fleetDirectory0))) = 30"
proof -
  let ?s = "setSearchQuery samplePlatform fleetDirectoryClient ''plant'' fleetDirectory0"
  have q0: "searchQuery fleetDirectory0 = []"
    by (simp add: fleetDirectory0_def loadPvSystemsPage_def initialState_def)
  then have q: "trim (searchQuery fleetDirectory0) = []" by simp
  have a0: "getPvSystems fleetDirectoryClient (0 * SYSTEMS_PER_PAGE) SYSTEMS_PER_PAGE
             = Inr (Some (take 10 (drop (0 * 10) fleetSystems)))"
    by (simp add: fleetDirectoryClient_def sampleClient_def SYSTEMS_PER_PAGE_def)
  have a: "getPvSystems fleetDirectoryClient (1 * SYSTEMS_PER_PAGE) SYSTEMS_PER_PAGE
             = Inr (Some (take 10 (drop (1 * 10) fleetSystems)))"
    by (simp add: fleetDirectoryClient_def sampleClient_def SYSTEMS_PER_PAGE_def)
  have ne0: "take 10 (drop (0 * 10) fleetSystems) \<noteq> []" by (simp add: fleetSystems_def)
  have ne: "take 10 (drop (1 * 10) fleetSystems) \<noteq> []" by (simp add: fleetSystems_def)
  have len: "length (take 10 (drop (1 * 10) fleetSystems)) = 10" by (simp add: fleetSystems_def)
  have len0: "length (take 10 (drop (0 * 10) fleetSystems)) = SYSTEMS_PER_PAGE"
    by (simp add: fleetSystems_def SYSTEMS_PER_PAGE_def)
  have qi: "trim (searchQuery initialState) = []" by (simp add: initialState_def)
  have more: "hasMorePages fleetDirectory0" "\<not> isLoadingMore fleetDirectory0"
    "currentPage fleetDirectory0 = 0"
    unfolding fleetDirectory0_def loadPvSystemsPage_def resume_page[OF a0 ne0 qi] len0
    by (simp_all add: loadAllSystemsBasicInfo_def Let_def split: sum.splits option.splits)
  have h: "handleLoadMore fleetDirectory0 = (Some 1, fleetDirectory0)"
    using more q by (simp add: handleLoadMore_def loadPvSystemsPage_start_def)
  have "filteredSystems (loadPvSystemsPage_resume samplePlatform fleetDirectoryClient 1 fleetDirectory0 ?s)
          = filteredSystems ?s
            @ sortBy (compareSystems samplePlatform)
                (map (enhanceSystem samplePlatform fleetDirectoryClient)
                   (take 10 (drop (1 * 10) fleetSystems)))"
    unfolding resume_page[OF a ne q] by simp
  then have "length (filteredSystems
         (loadPvSystemsPage_resume samplePlatform fleetDirectoryClient 1 fleetDirectory0 ?s))
       = length (filteredSystems ?s) + 10"
    by (simp only: length_append length_sortBy length_map len)
  with directory_search_shows_20 h show ?thesis
    by (simp add: searchQuery_setSearchQuery)
qed

text \<open>
  Claim C4. With the directory cache populated the search effect sets at most 20
  records, also when more entries match (\<open>search_result_size\<close>,
  \<open>directory_search_shows_20\<close>). The fallback effect does not cap its result, although
  the footer of the list announces up to 20 matching systems for every query: the
  directory request of the sample fleet is rejected, three pages with 21 systems are
  loaded, and the query \<open>plant\<close> shows 21 records.
\<close>

theorem fallback_search_shows_21:
  "allSystemsBasicInfo fleetPage2 = []
   \<and> length (pvSystems fleetPage2) = 21
   \<and> length (filteredSystems (setSearchQuery samplePlatform fleetClient ''plant'' fleetPage2)) = 21"
proof -
  have d: "allSystemsBasicInfo fleetPage2 = []" by (simp add: fleetPage2_eq fleetPage0_eq)
  have p: "pvSystems fleetPage2 = fleetBlock 0 @ fleetBlock 1 @ fleetBlock 2"
    by (simp add: fleetPage2_eq)
  have n: "length (pvSystems fleetPage2) = 21"
    unfolding p length_append length_fleetBlock by simp
  then have ne: "pvSystems fleetPage2 \<noteq> []" by auto
  have "filteredSystems (setSearchQuery samplePlatform fleetClient ''plant'' fleetPage2)
          = pvSystems fleetPage2"
    unfolding fallback_search[OF d ne] p by (simp add: fleetBlock_matches)
  with d n show ?thesis by simp
qed

text \<open>Clearing the query. With the directory loaded a blank query shows the paginated
  list; without it the empty query does.\<close>

lemma cleared_query_with_directory:
  "allSystemsBasicInfo s \<noteq> [] \<Longrightarrow> trim q = []
     \<Longrightarrow> filteredSystems (setSearchQuery P A q s) = pvSystems s"
  by (simp add: setSearchQuery_def searchEffect_def applySearchFilter_def)

lemma empty_query_without_directory:
  "allSystemsBasicInfo s = [] \<Longrightarrow> pvSystems s \<noteq> []
     \<Longrightarrow> filteredSystems (setSearchQuery P A [] s) = pvSystems s"
  by (simp add: fallback_search toLowerCase_def)

text \<open>
  Claim C5. The empty query restores the paginated list in both modes, and so does a
  query of white space when the directory is loaded (\<open>cleared_query_with_directory\<close>,
  \<open>empty_query_without_directory\<close>). The fallback effect does not trim the query: on
  the sample of two systems without its directory, with the two records of page 0 held,
  a query of two spaces, which \<open>trim\<close> makes empty, leaves the displayed list empty.
\<close>

theorem blank_query_in_fallback_clears_list:
  "trim ''  '' = []
   \<and> allSystemsBasicInfo pairPage0 = []
   \<and> length (pvSystems pairPage0) = 2
   \<and> filteredSystems (setSearchQuery samplePlatform pairClient ''  '' pairPage0) = []"
  by code_simp

section \<open>Status in the list and in the detail view\<close>

lemma determineStatus_Online: "determineStatus fd = Online \<longleftrightarrow> reportsOnline (Inr fd)"
  by (simp add: determineStatus_def reportsOnline_def split: option.splits)

lemma determineStatus_not_Warning: "determineStatus fd \<noteq> Warning"
  by (simp add: determineStatus_def split: option.splits)

lemma status_enhanceSystem:
  "status (enhanceSystem P A sys)
     = (case getPvSystemFlowData A (pvSystemId sys) of Inl e \<Rightarrow> Offline | Inr fd \<Rightarrow> determineStatus fd)"
  by (simp add: enhanceSystem_def formatPvSystemData_def determineStatus_def split: sum.splits)

lemma status_enhanceSystem_Online:
  "status (enhanceSystem P A sys) = Online
     \<longleftrightarrow> reportsOnline (getPvSystemFlowData A (pvSystemId sys))"
  by (cases "getPvSystemFlowData A (pvSystemId sys)")
    (simp_all add: status_enhanceSystem determineStatus_Online, simp add: reportsOnline_def)

lemma status_enhanceSystem_not_Warning: "status (enhanceSystem P A sys) \<noteq> Warning"
  by (simp add: status_enhanceSystem determineStatus_not_Warning split: sum.splits)

lemma status_loadSearchResult_fresh:
  assumes "find (\<lambda>sys. id' sys = id' b) pvs = None"
  shows "status (loadSearchResult P A pvs b) = Online
           \<longleftrightarrow> reportsOnline (getPvSystemFlowData A (id' b)) \<and> \<not> searchFetchFails A (id' b)"
proof (cases "searchFetchFails A (id' b)")
  case True
  with assms show ?thesis by (simp add: loadSearchResult_fails partialSystem_def)
next
  case False
  then obtain fd full aggr where
    "getPvSystemFlowData A (id' b) = Inr fd" "getPvSystemDetails A (id' b) = Inr full"
    "getPvSystemAggregatedData A (id' b) (FromDuration Today 1 None) = Inr aggr"
    by (auto simp: searchFetchFails_def isl_def) (metis sum.exhaust)
  with assms False show ?thesis
    by (simp add: loadSearchResult_def formatPvSystemData_def determineStatus_Online)
qed

lemma status_loadSearchResult_fresh_not_Warning:
  assumes "find (\<lambda>sys. id' sys = id' b) pvs = None"
  shows "status (loadSearchResult P A pvs b) \<noteq> Warning"
  using assms
  by (simp add: loadSearchResult_def partialSystem_def formatPvSystemData_def
      determineStatus_not_Warning split: sum.splits)

lemma loadSearchResult_reuse:
  "find (\<lambda>sys. id' sys = id' b) pvs = Some r \<Longrightarrow> loadSearchResult P A pvs b = r"
  by (simp add: loadSearchResult_def)

lemma systemIsOnline_reports: "systemIsOnline d \<longleftrightarrow> reportsOnline (Inr (flowDataD d))"
  by (simp add: systemIsOnline_def reportsOnline_def split: option.splits)

lemma has_error_message:
  "length (latestErrorMessages d) > 0 \<longleftrightarrow> (\<exists>m \<in> set (messages d). stateSeverity m = ''Error'')"
  by (auto simp: latestErrorMessages_def filter_empty_conv)

text \<open>
  Claim C6, as amended. \<open>determineStatus\<close> gives online exactly for a flow answer that
  is present, has a status and reports \<open>isOnline\<close>, and never gives warning. A record
  of page loading is online exactly when the flow request was answered so (a rejected
  aggregate request does not change that). A search match that is fetched anew is online
  exactly when the flow answer reports online and none of the three requests (flow,
  details, aggregate) was rejected; a match already in the paginated list is shown with
  the record it has there. Neither path assigns warning. In the detail view the status is
  offline when the held flow answer does not report online, warning when it does and a
  message of severity \<open>Error\<close> is held, and online otherwise.
\<close>

theorem status_of_list_and_detail_view:
  "(determineStatus fd = Online \<longleftrightarrow> reportsOnline (Inr fd))
   \<and> determineStatus fd \<noteq> Warning
   \<and> (status (enhanceSystem P A sys) = Online
        \<longleftrightarrow> reportsOnline (getPvSystemFlowData A (pvSystemId sys)))
   \<and> status (enhanceSystem P A sys) \<noteq> Warning
   \<and> (find (\<lambda>x. id' x = id' b) pvs = None
      \<longrightarrow> (status (loadSearchResult P A pvs b) = Online
            \<longleftrightarrow> reportsOnline (getPvSystemFlowData A (id' b)) \<and> \<not> searchFetchFails A (id' b))
          \<and> status (loadSearchResult P A pvs b) \<noteq> Warning)
   \<and> (find (\<lambda>x. id' x = id' b') pvs = Some r \<longrightarrow> loadSearchResult P A pvs b' = r)
   \<and> systemStatus d
        = (if \<not> reportsOnline (Inr (flowDataD d)) then Offline
           else if (\<exists>m \<in> set (messages d). stateSeverity m = ''Error'') then Warning
           else Online)"
proof (intro conjI impI)
  show "systemStatus d
        = (if \<not> reportsOnline (Inr (flowDataD d)) then Offline
           else if (\<exists>m \<in> set (messages d). stateSeverity m = ''Error'') then Warning
           else Online)"
    unfolding systemStatus_def has_error_message systemIsOnline_reports by (rule refl)
qed (simp_all add: determineStatus_Online determineStatus_not_Warning status_enhanceSystem_Online
      status_enhanceSystem_not_Warning status_loadSearchResult_fresh
      status_loadSearchResult_fresh_not_Warning loadSearchResult_reuse)

text \<open>On the samples: an online flow answer; \<open>pv0\<close> with its flow request rejected and
  \<open>pv1\<close> with it answered; \<open>pv1\<close> as a fresh search match with the aggregate request
  rejected; and the loaded detail screen, online with one error message.\<close>

theorem status_of_list_and_detail_view_witness:
  "determineStatus (Some (sampleFlow True (Finite 1500))) = Online
   \<and> status (enhanceSystem samplePlatform partlyDownClient (sampleSystem 0)) \<noteq> Online
   \<and> status (enhanceSystem samplePlatform partlyDownClient (sampleSystem 1)) = Online
   \<and> status (loadSearchResult samplePlatform partlyDownClient []
              (formatBasicSystemData (sampleSystem 1))) \<noteq> Online
   \<and> systemStatus loadedDetail = Warning"
proof -
  have f: "find (\<lambda>x. id' x = id' (formatBasicSystemData (sampleSystem 1))) [] = None" by simp
  have a: "reportsOnline (Inr (Some (sampleFlow True (Finite 1500))))" by code_simp
  have b: "\<not> reportsOnline (getPvSystemFlowData partlyDownClient (pvSystemId (sampleSystem 0)))"
    by code_simp
  have c: "reportsOnline (getPvSystemFlowData partlyDownClient (pvSystemId (sampleSystem 1)))"
    by code_simp
  have d: "searchFetchFails partlyDownClient (id' (formatBasicSystemData (sampleSystem 1)))"
    by code_simp
  have e: "reportsOnline (Inr (flowDataD loadedDetail))"
    "\<exists>m \<in> set (messages loadedDetail). stateSeverity m = ''Error''"
    by code_simp+
  from status_of_list_and_detail_view [where fd = "Some (sampleFlow True (Finite 1500))"
      and P = samplePlatform and A = partlyDownClient and sys = "sampleSystem 0"
      and pvs = "[]" and b = "formatBasicSystemData (sampleSystem 1)" and d = loadedDetail]
    status_of_list_and_detail_view [where P = samplePlatform and A = partlyDownClient
      and sys = "sampleSystem 1"]
    f a b c d e
  show ?thesis by simp
qed

text \<open>The claim as it stands fails for a search result: the flow request of \<open>pv1\<close> is
  answered and reports online, the details request is rejected, and the record shown is
  offline.\<close>

theorem search_failure_marks_online_system_offline:
  "reportsOnline (getPvSystemFlowData detailsDownClient ''pv1'')
   \<and> map (\<lambda>r. (id' r, status r))
        (filteredSystems (setSearchQuery samplePlatform detailsDownClient ''plant 1'' directoryFirst))
      = [(''pv1'', Offline)]"
  by code_simp

section \<open>The detail screen: the batch of fetches\<close>

text \<open>Each cell after \<open>settleOthers\<close>: set from its own promise, untouched by the
  others.\<close>

lemma onFulfilled_other: "(\<And>v t. h (g v t) = h t) \<Longrightarrow> h (onFulfilled x g s) = h s"
  by (simp add: onFulfilled_def split: sum.splits)

lemma flowDataD_onFulfilled:
  "flowDataD (onFulfilled x (\<lambda>v t. t\<lparr>flowDataD := F v\<rparr>) s) = settled x F (flowDataD s)"
  by (simp add: onFulfilled_def settled_def split: sum.splits)

lemma flowDataD_settleOthers:
  "flowDataD (settleOthers A pid s)
     = settled (getPvSystemFlowData A pid)
         (\<lambda>v. v) (flowDataD s)"
  unfolding settleOthers_def Let_def
  by (simp add: onFulfilled_other[where h = flowDataD] flowDataD_onFulfilled)

lemma aggregatedDataToday_onFulfilled:
  "aggregatedDataToday (onFulfilled x (\<lambda>v t. t\<lparr>aggregatedDataToday := F v\<rparr>) s) = settled x F (aggregatedDataToday s)"
  by (simp add: onFulfilled_def settled_def split: sum.splits)

lemma aggregatedDataToday_settleOthers:
  "aggregatedDataToday (settleOthers A pid s)
     = settled (getPvSystemAggregatedData A pid (FromDuration Today 1 None))
         Some (aggregatedDataToday s)"
  unfolding settleOthers_def Let_def
  by (simp add: onFulfilled_other[where h = aggregatedDataToday] aggregatedDataToday_onFulfilled)

lemma weeklyEnergyProduction_onFulfilled:
  "weeklyEnergyProduction (onFulfilled x (\<lambda>v t. t\<lparr>weeklyEnergyProduction := F v\<rparr>) s) = settled x F (weeklyEnergyProduction s)"
  by (simp add: onFulfilled_def settled_def split: sum.splits)

lemma weeklyEnergyProduction_settleOthers:
  "weeklyEnergyProduction (settleOthers A pid s)
     = settled (getPvSystemAggregatedData A pid (FromDuration WeekAgo 7 (Some ''EnergyProductionTotal'')))
         (\<lambda>v. Some (reduceChannel ''EnergyProductionTotal'' (aggrData v))) (weeklyEnergyProduction s)"
  unfolding settleOthers_def Let_def
  by (simp add: onFulfilled_other[where h = weeklyEnergyProduction] weeklyEnergyProduction_onFulfilled)

lemma monthlyEnergyProduction_onFulfilled:
  "monthlyEnergyProduction (onFulfilled x (\<lambda>v t. t\<lparr>monthlyEnergyProduction := F v\<rparr>) s) = settled x F (monthlyEnergyProduction s)"
  by (simp add: onFulfilled_def settled_def split: sum.splits)

lemma monthlyEnergyProduction_settleOthers:
  "monthlyEnergyProduction (settleOthers A pid s)
     = settled (getPvSystemAggregatedData A pid (FromDuration MonthAgo 30 (Some ''EnergyProductionTotal'')))
         (\<lambda>v. Some (reduceChannel ''EnergyProductionTotal'' (aggrData v))) (monthlyEnergyProduction s)"
  unfolding settleOthers_def Let_def
  by (simp add: onFulfilled_other[where h = monthlyEnergyProduction] monthlyEnergyProduction_onFulfilled)

lemma yearlyEnergyProduction_onFulfilled:
  "yearlyEnergyProduction (onFulfilled x (\<lambda>v t. t\<lparr>yearlyEnergyProduction := F v\<rparr>) s) = settled x F (yearlyEnergyProduction s)"
  by (simp add: onFulfilled_def settled_def split: sum.splits)

lemma yearlyEnergyProduction_settleOthers:
  "yearlyEnergyProduction (settleOthers A pid s)
     = settled (getPvSystemAggregatedData A pid (FromDuration YearAgo 365 (Some ''EnergyProductionTotal'')))
         (\<lambda>v. Some (reduceChannel ''EnergyProductionTotal'' (aggrData v))) (yearlyEnergyProduction s)"
  unfolding settleOthers_def Let_def
  by (simp add: onFulfilled_other[where h = yearlyEnergyProduction] yearlyEnergyProduction_onFulfilled)

lemma aggregatedDataTotal_onFulfilled:
  "aggregatedDataTotal (onFulfilled x (\<lambda>v t. t\<lparr>aggregatedDataTotal := F v\<rparr>) s) = settled x F (aggregatedDataTotal s)"
  by (simp add: onFulfilled_def settled_def split: sum.splits)

lemma aggregatedDataTotal_settleOthers:
  "aggregatedDataTotal (settleOthers A pid s)
     = settled (getPvSystemAggregatedData A pid (PeriodTotal ''SavingsCO2''))
         Some (aggregatedDataTotal s)"
  unfolding settleOthers_def Let_def
  by (simp add: onFulfilled_other[where h = aggregatedDataTotal] aggregatedDataTotal_onFulfilled)

lemma weatherDataD_onFulfilled:
  "weatherDataD (onFulfilled x (\<lambda>v t. t\<lparr>weatherDataD := F v\<rparr>) s) = settled x F (weatherDataD s)"
  by (simp add: onFulfilled_def settled_def split: sum.splits)

lemma weatherDataD_settleOthers:
  "weatherDataD (settleOthers A pid s)
     = settled (getCurrentWeather A pid)
         Some (weatherDataD s)"
  unfolding settleOthers_def Let_def
  by (simp add: onFulfilled_other[where h = weatherDataD] weatherDataD_onFulfilled)

lemma devices_onFulfilled:
  "devices (onFulfilled x (\<lambda>v t. t\<lparr>devices := F v\<rparr>) s) = settled x F (devices s)"
  by (simp add: onFulfilled_def settled_def split: sum.splits)

lemma devices_settleOthers:
  "devices (settleOthers A pid s)
     = settled (getPvSystemDevices A pid)
         (\<lambda>v. case v of None \<Rightarrow> [] | Some ds \<Rightarrow> ds) (devices s)"
  unfolding settleOthers_def Let_def
  by (simp add: onFulfilled_other[where h = devices] devices_onFulfilled)

lemma dailyCo2Savings_onFulfilled:
  "dailyCo2Savings (onFulfilled x (\<lambda>v t. t\<lparr>dailyCo2Savings := F v\<rparr>) s) = settled x F (dailyCo2Savings s)"
  by (simp add: onFulfilled_def settled_def split: sum.splits)

lemma dailyCo2Savings_settleOthers:
  "dailyCo2Savings (settleOthers A pid s)
     = settled (getPvSystemAggregatedData A pid (FromDuration Today 1 (Some ''SavingsCO2'')))
         (\<lambda>v. firstRowValue v ''SavingsCO2'') (dailyCo2Savings s)"
  unfolding settleOthers_def Let_def
  by (simp add: onFulfilled_other[where h = dailyCo2Savings] dailyCo2Savings_onFulfilled)

lemma weeklyCo2Savings_onFulfilled:
  "weeklyCo2Savings (onFulfilled x (\<lambda>v t. t\<lparr>weeklyCo2Savings := F v\<rparr>) s) = settled x F (weeklyCo2Savings s)"
  by (simp add: onFulfilled_def settled_def split: sum.splits)

lemma weeklyCo2Savings_settleOthers:
  "weeklyCo2Savings (settleOthers A pid s)
     = settled (getPvSystemAggregatedData A pid (FromDuration WeekAgo 7 (Some ''SavingsCO2'')))
         (\<lambda>v. Some (reduceChannel ''SavingsCO2'' (aggrData v))) (weeklyCo2Savings s)"
  unfolding settleOthers_def Let_def
  by (simp add: onFulfilled_other[where h = weeklyCo2Savings] weeklyCo2Savings_onFulfilled)

lemma monthlyCo2Savings_onFulfilled:
  "monthlyCo2Savings (onFulfilled x (\<lambda>v t. t\<lparr>monthlyCo2Savings := F v\<rparr>) s) = settled x F (monthlyCo2Savings s)"
  by (simp add: onFulfilled_def settled_def split: sum.splits)

lemma monthlyCo2Savings_settleOthers:
  "monthlyCo2Savings (settleOthers A pid s)
     = settled (getPvSystemAggregatedData A pid (FromDuration MonthAgo 30 (Some ''SavingsCO2'')))
         (\<lambda>v. Some (reduceChannel ''SavingsCO2'' (aggrData v))) (monthlyCo2Savings s)"
  unfolding settleOthers_def Let_def
  by (simp add: onFulfilled_other[where h = monthlyCo2Savings] monthlyCo2Savings_onFulfilled)

lemma yearlyCo2Savings_onFulfilled:
  "yearlyCo2Savings (onFulfilled x (\<lambda>v t. t\<lparr>yearlyCo2Savings := F v\<rparr>) s) = settled x F (yearlyCo2Savings s)"
  by (simp add: onFulfilled_def settled_def split: sum.splits)

lemma yearlyCo2Savings_settleOthers:
  "yearlyCo2Savings (settleOthers A pid s)
     = settled (getPvSystemAggregatedData A pid (FromDuration YearAgo 365 (Some ''SavingsCO2'')))
         (\<lambda>v. Some (reduceChannel ''SavingsCO2'' (aggrData v))) (yearlyCo2Savings s)"
  unfolding settleOthers_def Let_def
  by (simp add: onFulfilled_other[where h = yearlyCo2Savings] yearlyCo2Savings_onFulfilled)

lemma messages_settleOthers:
  "messages (settleOthers A pid s)
     = (case getPvSystemMessages A pid of Inr (Some ms) \<Rightarrow> ms | Inr None \<Rightarrow> [] | Inl reason \<Rightarrow> [])"
  unfolding settleOthers_def Let_def
  by (simp add: onFulfilled_other[where h = messages])

lemma errorD_settleOthers [simp]: "errorD (settleOthers A pid s) = errorD s"
  unfolding settleOthers_def Let_def
  by (simp add: onFulfilled_other[where h = errorD])

lemma pvSystemDetails_settleOthers [simp]: "pvSystemDetails (settleOthers A pid s) = pvSystemDetails s"
  unfolding settleOthers_def Let_def
  by (simp add: onFulfilled_other[where h = pvSystemDetails])

lemma hasAccess_settleOthers [simp]: "hasAccess (settleOthers A pid s) = hasAccess s"
  unfolding settleOthers_def Let_def
  by (simp add: onFulfilled_other[where h = hasAccess])

lemma checkingAccess_settleOthers [simp]: "checkingAccess (settleOthers A pid s) = checkingAccess s"
  unfolding settleOthers_def Let_def
  by (simp add: onFulfilled_other[where h = checkingAccess])

lemma paramId_settleOthers [simp]: "paramId (settleOthers A pid s) = paramId s"
  unfolding settleOthers_def Let_def
  by (simp add: onFulfilled_other[where h = paramId])

lemma loadingD_settleOthers [simp]: "loadingD (settleOthers A pid s) = loadingD s"
  unfolding settleOthers_def Let_def
  by (simp add: onFulfilled_other[where h = loadingD])

lemma refreshingD_settleOthers [simp]: "refreshingD (settleOthers A pid s) = refreshingD s"
  unfolding settleOthers_def Let_def
  by (simp add: onFulfilled_other[where h = refreshingD])

lemma fetchAllData_valid:
  assumes "hasAccess s \<noteq> Some False" and "paramId s = Some pid" and "pid \<noteq> []"
  shows "fetchAllData A s =
     (batchRequests pid,
      (case getPvSystemDetails A pid of
         Inl reason \<Rightarrow> s\<lparr>loadingD := True, errorD := None\<rparr>
                         \<lparr>errorD := Some (''Failed to load system data: '' @ errorMessage reason)\<rparr>
       | Inr details \<Rightarrow> settleOthers A pid (s\<lparr>loadingD := True, errorD := None\<rparr>
                                                \<lparr>pvSystemDetails := Some details\<rparr>))
      \<lparr>loadingD := False, refreshingD := False\<rparr>)"
  using assms by (simp add: fetchAllData_def validId_def Let_def)

lemma fetchAllData_details_rejected:
  assumes "hasAccess s \<noteq> Some False" and "paramId s = Some pid" and "pid \<noteq> []"
    and "getPvSystemDetails A pid = Inl reason"
  shows "snd (fetchAllData A s)
           = s\<lparr>errorD := Some (''Failed to load system data: '' @ errorMessage reason),
               loadingD := False, refreshingD := False\<rparr>"
  by (simp add: fetchAllData_valid[OF assms(1-3)] assms(4))

lemma fetchAllData_details_fulfilled:
  assumes "hasAccess s \<noteq> Some False" and "paramId s = Some pid" and "pid \<noteq> []"
    and "getPvSystemDetails A pid = Inr details"
  shows "snd (fetchAllData A s)
           = (settleOthers A pid (s\<lparr>loadingD := True, errorD := None, pvSystemDetails := Some details\<rparr>))
             \<lparr>loadingD := False, refreshingD := False\<rparr>"
  by (simp add: fetchAllData_valid[OF assms(1-3)] assms(4))

lemma render_error:
  assumes "hasAccess s \<noteq> Some False" and "\<not> checkingAccess s" and "\<not> loadingD s"
    and "errorD s = Some e" and "e \<noteq> []"
  shows "render s = ErrorScreen e"
  using assms by (simp add: render_def)

text \<open>
  Claim C7, as amended. With access not denied and a valid id, \<open>fetchAllData\<close> issues
  the fourteen requests of the batch and every promise settles on its own. When the
  details promise is rejected, only the error is set (and \<open>loading\<close>, \<open>refreshing\<close>
  cleared); the screen then is the error screen, whose Retry runs \<open>onRefresh\<close>. When it
  is fulfilled there is no error, and every other cell is set from its own promise alone:
  from the value when fulfilled, and left as it was before the batch when rejected (so
  empty after a first load, and the earlier value after a refresh); the message list
  alone is emptied on rejection.
\<close>

theorem batch_settles_each_promise_alone:
  assumes "hasAccess s \<noteq> Some False" and "paramId s = Some pid" and "pid \<noteq> []"
  shows "fst (fetchAllData A s) = batchRequests pid
    \<and> (getPvSystemDetails A pid = Inl reason \<longrightarrow>
          snd (fetchAllData A s)
            = s\<lparr>errorD := Some (''Failed to load system data: '' @ errorMessage reason),
                loadingD := False, refreshingD := False\<rparr>
          \<and> (\<not> checkingAccess s \<longrightarrow>
                render (snd (fetchAllData A s))
                  = ErrorScreen (''Failed to load system data: '' @ errorMessage reason)
                \<and> step U A' Refresh (snd (fetchAllData A s)) = onRefresh A' (snd (fetchAllData A s))))
    \<and> (getPvSystemDetails A pid = Inr details \<longrightarrow>
          errorD (snd (fetchAllData A s)) = None
          \<and> pvSystemDetails (snd (fetchAllData A s)) = Some details
          \<and> flowDataD (snd (fetchAllData A s))
              = settled (getPvSystemFlowData A pid) (\<lambda>v. v) (flowDataD s)
          \<and> aggregatedDataToday (snd (fetchAllData A s))
              = settled (getPvSystemAggregatedData A pid (FromDuration Today 1 None)) Some
                  (aggregatedDataToday s)
          \<and> weeklyEnergyProduction (snd (fetchAllData A s))
              = settled (getPvSystemAggregatedData A pid
                           (FromDuration WeekAgo 7 (Some ''EnergyProductionTotal'')))
                  (\<lambda>v. Some (reduceChannel ''EnergyProductionTotal'' (aggrData v)))
                  (weeklyEnergyProduction s)
          \<and> monthlyEnergyProduction (snd (fetchAllData A s))
              = settled (getPvSystemAggregatedData A pid
                           (FromDuration MonthAgo 30 (Some ''EnergyProductionTotal'')))
                  (\<lambda>v. Some (reduceChannel ''EnergyProductionTotal'' (aggrData v)))
                  (monthlyEnergyProduction s)
          \<and> yearlyEnergyProduction (snd (fetchAllData A s))
              = settled (getPvSystemAggregatedData A pid
                           (FromDuration YearAgo 365 (Some ''EnergyProductionTotal'')))
                  (\<lambda>v. Some (reduceChannel ''EnergyProductionTotal'' (aggrData v)))
                  (yearlyEnergyProduction s)
          \<and> aggregatedDataTotal (snd (fetchAllData A s))
              = settled (getPvSystemAggregatedData A pid (PeriodTotal ''SavingsCO2'')) Some
                  (aggregatedDataTotal s)
          \<and> weatherDataD (snd (fetchAllData A s))
              = settled (getCurrentWeather A pid) Some (weatherDataD s)
          \<and> devices (snd (fetchAllData A s))
              = settled (getPvSystemDevices A pid)
                  (\<lambda>v. case v of None \<Rightarrow> [] | Some ds \<Rightarrow> ds) (devices s)
          \<and> dailyCo2Savings (snd (fetchAllData A s))
              = settled (getPvSystemAggregatedData A pid (FromDuration Today 1 (Some ''SavingsCO2'')))
                  (\<lambda>v. firstRowValue v ''SavingsCO2'') (dailyCo2Savings s)
          \<and> weeklyCo2Savings (snd (fetchAllData A s))
              = settled (getPvSystemAggregatedData A pid (FromDuration WeekAgo 7 (Some ''SavingsCO2'')))
                  (\<lambda>v. Some (reduceChannel ''SavingsCO2'' (aggrData v))) (weeklyCo2Savings s)
          \<and> monthlyCo2Savings (snd (fetchAllData A s))
              = settled (getPvSystemAggregatedData A pid (FromDuration MonthAgo 30 (Some ''SavingsCO2'')))
                  (\<lambda>v. Some (reduceChannel ''SavingsCO2'' (aggrData v))) (monthlyCo2Savings s)
          \<and> yearlyCo2Savings (snd (fetchAllData A s))
              = settled (getPvSystemAggregatedData A pid (FromDuration YearAgo 365 (Some ''SavingsCO2'')))
                  (\<lambda>v. Some (reduceChannel ''SavingsCO2'' (aggrData v))) (yearlyCo2Savings s)
          \<and> messages (snd (fetchAllData A s))
              = (case getPvSystemMessages A pid of
                   Inr (Some ms) \<Rightarrow> ms | Inr None \<Rightarrow> [] | Inl reason \<Rightarrow> []))"
proof (intro conjI impI)
  show "fst (fetchAllData A s) = batchRequests pid"
    by (simp add: fetchAllData_valid[OF assms])
next
  assume rej: "getPvSystemDetails A pid = Inl reason"
  show eq: "snd (fetchAllData A s)
            = s\<lparr>errorD := Some (''Failed to load system data: '' @ errorMessage reason),
                loadingD := False, refreshingD := False\<rparr>"
    by (rule fetchAllData_details_rejected[OF assms rej])
  assume nc: "\<not> checkingAccess s"
  show r: "render (snd (fetchAllData A s))
          = ErrorScreen (''Failed to load system data: '' @ errorMessage reason)"
    unfolding eq using assms(1) nc by (intro render_error) simp_all
  show "step U A' Refresh (snd (fetchAllData A s)) = onRefresh A' (snd (fetchAllData A s))"
    by (simp add: step_def r)
next
  assume ful: "getPvSystemDetails A pid = Inr details"
  note eq = fetchAllData_details_fulfilled[OF assms ful]
  show "errorD (snd (fetchAllData A s)) = None" by (simp add: eq)
  show "pvSystemDetails (snd (fetchAllData A s)) = Some details" by (simp add: eq)
  show "flowDataD (snd (fetchAllData A s))
              = settled (getPvSystemFlowData A pid) (\<lambda>v. v) (flowDataD s)"
    by (simp add: eq flowDataD_settleOthers)
  show "aggregatedDataToday (snd (fetchAllData A s))
              = settled (getPvSystemAggregatedData A pid (FromDuration Today 1 None)) Some
                  (aggregatedDataToday s)"
    by (simp add: eq aggregatedDataToday_settleOthers)
  show "weeklyEnergyProduction (snd (fetchAllData A s))
              = settled (getPvSystemAggregatedData A pid
                           (FromDuration WeekAgo 7 (Some ''EnergyProductionTotal'')))
                  (\<lambda>v. Some (reduceChannel ''EnergyProductionTotal'' (aggrData v)))
                  (weeklyEnergyProduction s)"
    by (simp add: eq weeklyEnergyProduction_settleOthers)
  show "monthlyEnergyProduction (snd (fetchAllData A s))
              = settled (getPvSystemAggregatedData A pid
                           (FromDuration MonthAgo 30 (Some ''EnergyProductionTotal'')))
                  (\<lambda>v. Some (reduceChannel ''EnergyProductionTotal'' (aggrData v)))
                  (monthlyEnergyProduction s)"
    by (simp add: eq monthlyEnergyProduction_settleOthers)
  show "yearlyEnergyProduction (snd (fetchAllData A s))
              = settled (getPvSystemAggregatedData A pid
                           (FromDuration YearAgo 365 (Some ''EnergyProductionTotal'')))
                  (\<lambda>v. Some (reduceChannel ''EnergyProductionTotal'' (aggrData v)))
                  (yearlyEnergyProduction s)"
    by (simp add: eq yearlyEnergyProduction_settleOthers)
  show "aggregatedDataTotal (snd (fetchAllData A s))
              = settled (getPvSystemAggregatedData A pid (PeriodTotal ''SavingsCO2'')) Some
                  (aggregatedDataTotal s)"
    by (simp add: eq aggregatedDataTotal_settleOthers)
  show "weatherDataD (snd (fetchAllData A s))
              = settled (getCurrentWeather A pid) Some (weatherDataD s)"
    by (simp add: eq weatherDataD_settleOthers)
  show "devices (snd (fetchAllData A s))
              = settled (getPvSystemDevices A pid)
                  (\<lambda>v. case v of None \<Rightarrow> [] | Some ds \<Rightarrow> ds) (devices s)"
    by (simp add: eq devices_settleOthers)
  show "dailyCo2Savings (snd (fetchAllData A s))
              = settled (getPvSystemAggregatedData A pid (FromDuration Today 1 (Some ''SavingsCO2'')))
                  (\<lambda>v. firstRowValue v ''SavingsCO2'') (dailyCo2Savings s)"
    by (simp add: eq dailyCo2Savings_settleOthers)
  show "weeklyCo2Savings (snd (fetchAllData A s))
              = settled (getPvSystemAggregatedData A pid (FromDuration WeekAgo 7 (Some ''SavingsCO2'')))
                  (\<lambda>v. Some (reduceChannel ''SavingsCO2'' (aggrData v))) (weeklyCo2Savings s)"
    by (simp add: eq weeklyCo2Savings_settleOthers)
  show "monthlyCo2Savings (snd (fetchAllData A s))
              = settled (getPvSystemAggregatedData A pid (FromDuration MonthAgo 30 (Some ''SavingsCO2'')))
                  (\<lambda>v. Some (reduceChannel ''SavingsCO2'' (aggrData v))) (monthlyCo2Savings s)"
    by (simp add: eq monthlyCo2Savings_settleOthers)
  show "yearlyCo2Savings (snd (fetchAllData A s))
              = settled (getPvSystemAggregatedData A pid (FromDuration YearAgo 365 (Some ''SavingsCO2'')))
                  (\<lambda>v. Some (reduceChannel ''SavingsCO2'' (aggrData v))) (yearlyCo2Savings s)"
    by (simp add: eq yearlyCo2Savings_settleOthers)
  show "messages (snd (fetchAllData A s))
              = (case getPvSystemMessages A pid of
                   Inr (Some ms) \<Rightarrow> ms | Inr None \<Rightarrow> [] | Inl reason \<Rightarrow> [])"
    by (simp add: eq messages_settleOthers)
qed

text \<open>The claim as it stands fails on a refresh: the detail screen of \<open>pv0\<close> is
  loaded, the flow request of the refresh is rejected, and the power metric still shows
  the earlier value instead of being unavailable.\<close>

theorem refresh_keeps_stale_flow:
  "getPvSystemFlowData flowDownClient ''pv0'' = Inl (Error ''timeout'')
   \<and> render loadedDetail = DashboardView
   \<and> powerMetric samplePlatform
        (currentPowerOutput (snd (step ownerAuth flowDownClient Refresh loadedDetail))) = ''1.5 kW''"
  by code_simp

text \<open>On the sample detail client after the access check: the batch is issued, the
  rejected month aggregate and weather leave their cells empty next to the flow that
  arrived; with the details rejected the error screen is shown.\<close>

theorem batch_settles_each_promise_alone_witness:
  "fst (fetchAllData weekClient accessChecked) = batchRequests ''pv0''
   \<and> errorD (snd (fetchAllData weekClient accessChecked)) = None
   \<and> flowDataD (snd (fetchAllData weekClient accessChecked)) = Some (sampleFlow True (Finite 1500))
   \<and> monthlyEnergyProduction (snd (fetchAllData weekClient accessChecked)) = None
   \<and> weatherDataD (snd (fetchAllData weekClient accessChecked)) = None
   \<and> render (snd (fetchAllData detailsDownClient accessChecked))
       = ErrorScreen ''Failed to load system data: 503''"
proof -
  have h: "hasAccess accessChecked \<noteq> Some False" "paramId accessChecked = Some ''pv0''"
    "''pv0'' \<noteq> []" "\<not> checkingAccess accessChecked"
    by code_simp+
  have ok: "getPvSystemDetails weekClient ''pv0'' = Inr (sampleSystem 0)" by code_simp
  have rej: "getPvSystemDetails detailsDownClient ''pv0'' = Inl (Error ''503'')" by code_simp
  have v: "settled (getPvSystemFlowData weekClient ''pv0'') (\<lambda>v. v) (flowDataD accessChecked)
             = Some (sampleFlow True (Finite 1500))"
    "settled (getPvSystemAggregatedData weekClient ''pv0''
                (FromDuration MonthAgo 30 (Some ''EnergyProductionTotal'')))
        (\<lambda>v. Some (reduceChannel ''EnergyProductionTotal'' (aggrData v)))
        (monthlyEnergyProduction accessChecked) = None"
    "settled (getCurrentWeather weekClient ''pv0'') Some (weatherDataD accessChecked) = None"
    by code_simp+
  have m: "errorMessage (Error ''503'') = ''503''" by (simp add: errorMessage_def)
  from batch_settles_each_promise_alone [OF h(1-3), where A = weekClient and details = "sampleSystem 0"]
    ok v
  have part1: "fst (fetchAllData weekClient accessChecked) = batchRequests ''pv0''
     \<and> errorD (snd (fetchAllData weekClient accessChecked)) = None
     \<and> flowDataD (snd (fetchAllData weekClient accessChecked)) = Some (sampleFlow True (Finite 1500))
     \<and> monthlyEnergyProduction (snd (fetchAllData weekClient accessChecked)) = None
     \<and> weatherDataD (snd (fetchAllData weekClient accessChecked)) = None"
    by simp
  from batch_settles_each_promise_alone [OF h(1-3), where A = detailsDownClient
      and reason = "Error ''503''" and U = ownerAuth and A' = weekClient, unfolded m]
    rej h(4)
  have part2: "render (snd (fetchAllData detailsDownClient accessChecked))
       = ErrorScreen (''Failed to load system data: '' @ ''503'')"
    by blast
  from part1 part2 show ?thesis by simp
qed

section \<open>The detail screen: period totals\<close>

lemma orZero_findChannelValue:
  "orZero (findChannelValue (rowChannels row) ch) = rowContribution ch row"
  by (simp add: orZero_def findChannelValue_def rowContribution_def split: option.splits)

lemma reduceChannel_sum: "reduceChannel ch rows = sumNumbers (map (rowContribution ch) rows)"
  by (simp add: reduceChannel_def sumNumbers_def foldl_map orZero_findChannelValue)

text \<open>
  Claim C8. With the details fetched, each period total that \<open>fetchAllData\<close> derives
  (weekly, monthly and yearly energy production, weekly, monthly and yearly CO2 savings)
  is the sum over the rows of the fulfilled aggregate answer of the value of the requested
  channel in the row, a row without that channel or with a null value counting zero. The
  sum is the one of the code, rounded as binary64 additions are; it is the exact sum when
  the values are integers whose absolute values add up to at most \<open>2^53\<close>.
\<close>

theorem period_totals_sum_the_channel:
  assumes "hasAccess s \<noteq> Some False" and "paramId s = Some pid" and "pid \<noteq> []"
    and "getPvSystemDetails A pid = Inr details"
  shows "(getPvSystemAggregatedData A pid (FromDuration WeekAgo 7 (Some ''EnergyProductionTotal'')) = Inr w
          \<longrightarrow> weeklyEnergyProduction (snd (fetchAllData A s))
                = Some (sumNumbers (map (rowContribution ''EnergyProductionTotal'') (aggrData w))))
    \<and> (getPvSystemAggregatedData A pid (FromDuration MonthAgo 30 (Some ''EnergyProductionTotal'')) = Inr m
          \<longrightarrow> monthlyEnergyProduction (snd (fetchAllData A s))
                = Some (sumNumbers (map (rowContribution ''EnergyProductionTotal'') (aggrData m))))
    \<and> (getPvSystemAggregatedData A pid (FromDuration YearAgo 365 (Some ''EnergyProductionTotal'')) = Inr y
          \<longrightarrow> yearlyEnergyProduction (snd (fetchAllData A s))
                = Some (sumNumbers (map (rowContribution ''EnergyProductionTotal'') (aggrData y))))
    \<and> (getPvSystemAggregatedData A pid (FromDuration WeekAgo 7 (Some ''SavingsCO2'')) = Inr cw
          \<longrightarrow> weeklyCo2Savings (snd (fetchAllData A s))
                = Some (sumNumbers (map (rowContribution ''SavingsCO2'') (aggrData cw))))
    \<and> (getPvSystemAggregatedData A pid (FromDuration MonthAgo 30 (Some ''SavingsCO2'')) = Inr cm
          \<longrightarrow> monthlyCo2Savings (snd (fetchAllData A s))
                = Some (sumNumbers (map (rowContribution ''SavingsCO2'') (aggrData cm))))
    \<and> (getPvSystemAggregatedData A pid (FromDuration YearAgo 365 (Some ''SavingsCO2'')) = Inr cy
          \<longrightarrow> yearlyCo2Savings (snd (fetchAllData A s))
                = Some (sumNumbers (map (rowContribution ''SavingsCO2'') (aggrData cy))))
    \<and> (sum_list (map abs ks) \<le> 2 ^ 53
          \<longrightarrow> sumNumbers (map (\<lambda>k. Finite (of_int k)) ks) = Finite (of_int (sum_list ks)))"
proof -
  note eq = fetchAllData_details_fulfilled[OF assms]
  have "sum_list (map abs ks) \<le> 2 ^ 53
          \<longrightarrow> sumNumbers (map (\<lambda>k. Finite (of_int k)) ks) = Finite (of_int (sum_list ks))"
    by (simp add: sumNumbers_integers)
  then show ?thesis
    by (simp add: eq weeklyEnergyProduction_settleOthers monthlyEnergyProduction_settleOthers
        yearlyEnergyProduction_settleOthers weeklyCo2Savings_settleOthers
        monthlyCo2Savings_settleOthers yearlyCo2Savings_settleOthers settled_def reduceChannel_sum)
qed

text \<open>The seven daily rows 1000, 1200, 900, null, 1100, 950, 1050 of the channel
  \<open>EnergyProductionTotal\<close> give the weekly total 6200, shown as \<open>6.2 kWh\<close>.\<close>

theorem period_totals_sum_the_channel_witness:
  "map (\<lambda>row. findChannelValue (rowChannels row) ''EnergyProductionTotal'')
       (aggrData (sampleAggr ''EnergyProductionTotal'' weekRows))
     = [Some (Finite 1000), Some (Finite 1200), Some (Finite 900), None,
        Some (Finite 1100), Some (Finite 950), Some (Finite 1050)]
   \<and> map (rowContribution ''EnergyProductionTotal'')
        (aggrData (sampleAggr ''EnergyProductionTotal'' weekRows))
     = map (\<lambda>k. Finite (of_int k)) [1000, 1200, 900, 0, 1100, 950, 1050]
   \<and> weeklyEnergyProduction (snd (fetchAllData weekClient accessChecked)) = Some (Finite 6200)
   \<and> energyMetric samplePlatform (weeklyEnergyProduction (snd (fetchAllData weekClient accessChecked)))
       = ''6.2 kWh''"
proof -
  have h: "hasAccess accessChecked \<noteq> Some False" "paramId accessChecked = Some ''pv0''"
    "''pv0'' \<noteq> []" "getPvSystemDetails weekClient ''pv0'' = Inr (sampleSystem 0)"
    by code_simp+
  have w: "getPvSystemAggregatedData weekClient ''pv0''
             (FromDuration WeekAgo 7 (Some ''EnergyProductionTotal''))
           = Inr (sampleAggr ''EnergyProductionTotal'' weekRows)"
    by code_simp
  have rows: "map (\<lambda>row. findChannelValue (rowChannels row) ''EnergyProductionTotal'')
       (aggrData (sampleAggr ''EnergyProductionTotal'' weekRows))
     = [Some (Finite 1000), Some (Finite 1200), Some (Finite 900), None,
        Some (Finite 1100), Some (Finite 950), Some (Finite 1050)]"
    by code_simp
  have contrib: "map (rowContribution ''EnergyProductionTotal'')
        (aggrData (sampleAggr ''EnergyProductionTotal'' weekRows))
     = map (\<lambda>k. Finite (of_int k)) [1000, 1200, 900, 0, 1100, 950, 1050]"
    by code_simp
  have small: "sum_list (map abs [1000, 1200, 900, 0, 1100, 950, 1050 :: int]) \<le> 2 ^ 53"
    by simp
  note T = period_totals_sum_the_channel [OF h,
      where w = "sampleAggr ''EnergyProductionTotal'' weekRows"
        and ks = "[1000, 1200, 900, 0, 1100, 950, 1050]"]
  from T small
  have total: "sumNumbers (map (\<lambda>k. Finite (of_int k)) [1000, 1200, 900, 0, 1100, 950, 1050])
                 = Finite 6200"
    by simp
  from T w have "weeklyEnergyProduction (snd (fetchAllData weekClient accessChecked))
      = Some (sumNumbers (map (rowContribution ''EnergyProductionTotal'')
                (aggrData (sampleAggr ''EnergyProductionTotal'' weekRows))))"
    by blast
  then have week: "weeklyEnergyProduction (snd (fetchAllData weekClient accessChecked))
      = Some (Finite 6200)"
    by (simp only: contrib total)
  have shown: "energyMetric samplePlatform (Some (Finite 6200)) = ''6.2 kWh''" by code_simp
  from rows contrib week shown show ?thesis by (simp only: simp_thms)
qed

section \<open>The detail screen: access\<close>

lemma checkAccess_denied:
  assumes "\<not> accessGranted U pid" and "pendingOrDenied pid s"
  shows "pendingOrDenied pid (checkAccess U s)"
    and "validId (Some pid) \<Longrightarrow> deniedShown (checkAccess U s)"
  using assms
  by (auto simp: checkAccess_def pendingOrDenied_def deniedShown_def accessGranted_def Let_def
      split: sum.splits option.splits)

lemma dataLoadEffect_denied:
  assumes "pendingOrDenied pid s"
  shows "fst (dataLoadEffect A s) = []"
    and "pendingOrDenied pid (snd (dataLoadEffect A s))"
    and "deniedShown s \<Longrightarrow> deniedShown (snd (dataLoadEffect A s))"
  using assms
  by (auto simp: dataLoadEffect_def pendingOrDenied_def deniedShown_def)

lemma historicalEffect_denied:
  assumes "hasAccess s \<noteq> Some True"
  shows "historicalEffect A s = ([], s)"
  using assms by (simp add: historicalEffect_def)

lemma onRefresh_invalid:
  assumes "\<not> validId (paramId s)" and "hasAccess s \<noteq> Some False"
  shows "fst (onRefresh A s) = []"
    and "paramId (snd (onRefresh A s)) = paramId s"
    and "hasAccess (snd (onRefresh A s)) = hasAccess s"
    and "checkingAccess (snd (onRefresh A s)) = checkingAccess s"
  using assms
  by (simp_all add: onRefresh_def fetchAllData_def fetchHistoricalData_def Let_def)

lemma refresh_denied:
  assumes "pendingOrDenied pid s"
  shows "fst (step U A Refresh s) = []"
    and "pendingOrDenied pid (snd (step U A Refresh s))"
    and "deniedShown s \<Longrightarrow> deniedShown (snd (step U A Refresh s))"
proof -
  consider (hidden) "render s = AccessDenied \<or> render s = LoadingScreen"
    | (shown) "render s \<noteq> AccessDenied" "render s \<noteq> LoadingScreen"
    by blast
  then have "fst (step U A Refresh s) = [] \<and> pendingOrDenied pid (snd (step U A Refresh s))
      \<and> (deniedShown s \<longrightarrow> deniedShown (snd (step U A Refresh s)))"
  proof cases
    case hidden
    then have "step U A Refresh s = ([], s)" by (auto simp: step_def)
    with assms show ?thesis by simp
  next
    case shown
    then have nd: "\<not> (hasAccess s = Some False \<and> \<not> checkingAccess s)" and nc: "\<not> checkingAccess s"
      by (auto simp: render_def split: if_splits)
    with assms have inv: "\<not> validId (paramId s)" and na: "hasAccess s \<noteq> Some False"
      by (auto simp: pendingOrDenied_def)
    from shown have st: "step U A Refresh s = onRefresh A s"
      by (cases "render s") (simp_all add: step_def)
    from assms nd nc show ?thesis
      unfolding st
      by (simp add: onRefresh_invalid[OF inv na] pendingOrDenied_def deniedShown_def)
  qed
  then show "fst (step U A Refresh s) = []"
    and "pendingOrDenied pid (snd (step U A Refresh s))"
    and "deniedShown s \<Longrightarrow> deniedShown (snd (step U A Refresh s))"
    by blast+
qed

lemma step_denied:
  assumes "\<not> accessGranted U pid" and "pendingOrDenied pid s"
  shows "fst (step U A ev s) = []"
    and "pendingOrDenied pid (snd (step U A ev s))"
    and "validId (Some pid) \<Longrightarrow> deniedShown s \<or> ev = CheckAccess \<Longrightarrow> deniedShown (snd (step U A ev s))"
proof -
  have "fst (step U A ev s) = [] \<and> pendingOrDenied pid (snd (step U A ev s))
      \<and> (validId (Some pid) \<and> (deniedShown s \<or> ev = CheckAccess) \<longrightarrow> deniedShown (snd (step U A ev s)))"
  proof (cases ev)
    case CheckAccess
    with checkAccess_denied[OF assms] show ?thesis by (simp add: step_def)
  next
    case DataLoadEffect
    with dataLoadEffect_denied[OF assms(2), where A = A] show ?thesis by (simp add: step_def)
  next
    case HistoricalEffect
    from assms(2) have "hasAccess s \<noteq> Some True" by (simp add: pendingOrDenied_def)
    with HistoricalEffect assms(2) show ?thesis
      by (simp add: step_def historicalEffect_denied)
  next
    case Refresh
    with refresh_denied[OF assms(2), where U = U and A = A] show ?thesis by simp
  next
    case (SelectChartPeriod p)
    from assms(2) have "hasAccess (s\<lparr>selectedChartPeriod := p\<rparr>) \<noteq> Some True"
      by (simp add: pendingOrDenied_def)
    then have "historicalEffect A (s\<lparr>selectedChartPeriod := p\<rparr>) = ([], s\<lparr>selectedChartPeriod := p\<rparr>)"
      by (rule historicalEffect_denied)
    with SelectChartPeriod assms(2) show ?thesis
      by (auto simp: step_def pendingOrDenied_def deniedShown_def)
  qed
  then show "fst (step U A ev s) = []"
    and "pendingOrDenied pid (snd (step U A ev s))"
    and "validId (Some pid) \<Longrightarrow> deniedShown s \<or> ev = CheckAccess \<Longrightarrow> deniedShown (snd (step U A ev s))"
    by blast+
qed

lemma run_Cons:
  "run U A (ev # evs) s =
     (fst (step U A ev s) @ fst (run U A evs (snd (step U A ev s))),
      snd (run U A evs (snd (step U A ev s))))"
  by (simp add: split_beta Let_def)

lemma run_denied:
  assumes "\<not> accessGranted U pid" and "pendingOrDenied pid s"
  shows "fst (run U A evs s) = [] \<and> pendingOrDenied pid (snd (run U A evs s))
    \<and> (validId (Some pid) \<and> (deniedShown s \<or> CheckAccess \<in> set evs)
         \<longrightarrow> deniedShown (snd (run U A evs s)))"
  using assms(2)
proof (induction evs arbitrary: s)
  case Nil
  then show ?case by simp
next
  case (Cons ev evs)
  note st = step_denied[OF assms(1) Cons.prems, where A = A and ev = ev]
  note ih = Cons.IH[OF st(2)]
  show ?case
  proof (intro conjI impI)
    show "fst (run U A (ev # evs) s) = []"
      using st(1) ih by (simp add: run_Cons del: run.simps)
    show "pendingOrDenied pid (snd (run U A (ev # evs) s))"
      using ih by (simp add: run_Cons del: run.simps)
    assume a: "validId (Some pid) \<and> (deniedShown s \<or> CheckAccess \<in> set (ev # evs))"
    then have "deniedShown (snd (step U A ev s)) \<or> CheckAccess \<in> set evs"
      using st(3) by auto
    with a ih show "deniedShown (snd (run U A (ev # evs) s))"
      by (simp add: run_Cons del: run.simps)
  qed
qed

lemma initial_pending: "pendingOrDenied pid (initialDetailState (Some pid))"
  by (simp add: pendingOrDenied_def initialDetailState_def)

lemma render_denied: "deniedShown s \<Longrightarrow> render s = AccessDenied"
  by (simp add: render_def deniedShown_def)

text \<open>
  Claim C9. When the access check finds that the user has no access to the system, no
  request reaches the remote data client, whatever happens to the mounted screen: neither
  the batch of \<open>fetchAllData\<close> nor the chart request of \<open>fetchHistoricalData\<close> is
  issued, before or after the check. Once the check has resolved for an id that is
  present, the screen is the access-denied screen.
\<close>

theorem no_fetch_without_access:
  assumes "\<not> accessGranted U pid"
  shows "fst (run U A evs (initialDetailState (Some pid))) = []
    \<and> (pid \<noteq> [] \<and> CheckAccess \<in> set evs
         \<longrightarrow> render (snd (run U A evs (initialDetailState (Some pid)))) = AccessDenied)"
proof -
  note r = run_denied[OF assms initial_pending, where A = A and evs = evs]
  show ?thesis
  proof (intro conjI impI)
    show "fst (run U A evs (initialDetailState (Some pid))) = []"
      using r by (rule conjunct1)
    assume a: "pid \<noteq> [] \<and> CheckAccess \<in> set evs"
    then have "validId (Some pid)" by (simp add: validId_def)
    with r a have "deniedShown (snd (run U A evs (initialDetailState (Some pid))))" by blast
    then show "render (snd (run U A evs (initialDetailState (Some pid)))) = AccessDenied"
      by (rule render_denied)
  qed
qed

text \<open>A visitor without access mounts the screen of \<open>pv0\<close>, then tries Retry, a
  period button and both effects again.\<close>

theorem no_fetch_without_access_witness:
  "fst (run visitorAuth weekClient
          (mountEvents @ [Refresh, SelectChartPeriod Week, DataLoadEffect, HistoricalEffect])
          (initialDetailState (Some ''pv0''))) = []
   \<and> render (snd (run visitorAuth weekClient
          (mountEvents @ [Refresh, SelectChartPeriod Week, DataLoadEffect, HistoricalEffect])
          (initialDetailState (Some ''pv0'')))) = AccessDenied"
proof -
  have v: "\<not> accessGranted visitorAuth ''pv0''" by code_simp
  have c: "CheckAccess \<in> set (mountEvents @ [Refresh, SelectChartPeriod Week, DataLoadEffect, HistoricalEffect])"
    by (simp add: mountEvents_def)
  have p: "''pv0'' \<noteq> []" by simp
  from no_fetch_without_access [OF v, where A = weekClient
      and evs = "mountEvents @ [Refresh, SelectChartPeriod Week, DataLoadEffect, HistoricalEffect]"] c p
  show ?thesis by blast
qed

section \<open>The detail screen: earnings\<close>

lemma digitChar_0: "digitChar 0 = CHR ''0''"
  by (simp add: digitChar_def)

lemma natToString_small: "n < 10 \<Longrightarrow> natToString n = [digitChar n]"
  by (subst natToString.simps) simp

lemma natToString_step: "10 \<le> n \<Longrightarrow> natToString n = natToString (n div 10) @ [digitChar n]"
  by (subst natToString.simps) simp

lemma natToString_hundreds:
  "100 \<le> n \<Longrightarrow> natToString n = natToString (n div 100) @ [digitChar (n div 10), digitChar n]"
proof -
  assume h: "100 \<le> n"
  then have "10 \<le> n div 10" by simp
  then have "natToString (n div 10) = natToString (n div 10 div 10) @ [digitChar (n div 10)]"
    by (rule natToString_step)
  moreover have "n div 10 div 10 = n div 100" by (simp add: div_mult2_eq[symmetric])
  moreover from h have "natToString n = natToString (n div 10) @ [digitChar n]"
    by (intro natToString_step) simp
  ultimately show ?thesis by simp
qed

lemma length_natToString: "0 < length (natToString n)"
  by (subst natToString.simps) simp

lemma two_decimals:
  "(let m = natToString n;
        m' = (if length m \<le> 2 then replicate (2 + 1 - length m) (CHR ''0'') @ m else m)
    in take (length m' - 2) m' @ ''.'' @ drop (length m' - 2) m')
   = natToString (n div 100) @ ''.'' @ [digitChar (n div 10), digitChar n]"
proof -
  consider (one) "n < 10" | (two) "10 \<le> n" "n < 100" | (more) "100 \<le> n"
    by linarith
  then show ?thesis
  proof cases
    case one
    then have "natToString n = [digitChar n]" "n div 100 = 0" "n div 10 = 0"
      by (simp_all add: natToString_small)
    then show ?thesis by (simp add: natToString_small numeral_2_eq_2 digitChar_0)
  next
    case two
    then have "n div 10 < 10" "n div 100 = 0" by simp_all
    with two have "natToString n = [digitChar (n div 10), digitChar n]"
      by (simp add: natToString_step natToString_small)
    with \<open>n div 100 = 0\<close> show ?thesis by (simp add: natToString_small digitChar_0)
  next
    case more
    then have m: "natToString n = natToString (n div 100) @ [digitChar (n div 10), digitChar n]"
      by (rule natToString_hundreds)
    have "0 < length (natToString (n div 100))" by (rule length_natToString)
    then show ?thesis unfolding m by (simp add: Let_def)
  qed
qed

lemma toFixed_two:
  assumes "\<bar>x\<bar> < 10 ^ 21"
  shows "toFixed P 2 (Finite x)
           = (if x < 0 then ''-'' else '''')
             @ natToString (nat \<lfloor>\<bar>x\<bar> * 100 + 1 / 2\<rfloor> div 100) @ ''.''
             @ [digitChar (nat \<lfloor>\<bar>x\<bar> * 100 + 1 / 2\<rfloor> div 10),
                digitChar (nat \<lfloor>\<bar>x\<bar> * 100 + 1 / 2\<rfloor>)]"
proof -
  let ?n = "nat \<lfloor>\<bar>x\<bar> * 100 + 1 / 2\<rfloor>"
  let ?m = "natToString ?n"
  let ?m' = "if length ?m \<le> 2 then replicate (2 + 1 - length ?m) (CHR ''0'') @ ?m else ?m"
  have a: "(if x < 0 then - x else x) = \<bar>x\<bar>" by simp
  from assms have b: "\<not> 10 ^ 21 \<le> \<bar>x\<bar>" by simp
  have c: "\<bar>x\<bar> * 10 ^ 2 = \<bar>x\<bar> * 100" by simp
  have "toFixed P 2 (Finite x)
          = (if x < 0 then ''-'' else '''')
            @ (take (length ?m' - 2) ?m' @ ''.'' @ drop (length ?m' - 2) ?m')"
    unfolding toFixed_def number.case a Let_def c using b by simp
  also have "take (length ?m' - 2) ?m' @ ''.'' @ drop (length ?m' - 2) ?m'
          = natToString (?n div 100) @ ''.'' @ [digitChar (?n div 10), digitChar ?n]"
    by (rule two_decimals[unfolded Let_def])
  finally show ?thesis .
qed

lemma toFixed_exponent:
  assumes "10 ^ 21 \<le> \<bar>x\<bar>"
  shows "toFixed P f (Finite x) = (if x < 0 then ''-'' else '''') @ numberToString P \<bar>x\<bar>"
proof -
  have a: "(if x < 0 then - x else x) = \<bar>x\<bar>" by simp
  show ?thesis unfolding toFixed_def number.case a Let_def using assms by simp
qed

lemma nearest_cent:
  fixes y :: rat
  assumes "0 \<le> y"
  shows "\<bar>of_nat (nat \<lfloor>y * 100 + 1 / 2\<rfloor>) / 100 - y\<bar> \<le> 1 / 200"
proof -
  define k :: rat where "k = of_int \<lfloor>y * 100 + 1 / 2\<rfloor>"
  from assms have "0 \<le> \<lfloor>y * 100 + 1 / 2\<rfloor>" by simp
  then have n: "(of_nat (nat \<lfloor>y * 100 + 1 / 2\<rfloor>) :: rat) = k" by (simp add: k_def)
  have "k \<le> y * 100 + 1 / 2" "y * 100 + 1 / 2 < k + 1"
    unfolding k_def by linarith+
  then have "k / 100 - y \<le> 1 / 200" "- (1 / 200) \<le> k / 100 - y"
    by linarith+
  then show ?thesis unfolding n abs_le_iff by simp
qed

text \<open>For an energy value of at most \<open>10^24\<close> Wh (and not a nonzero one below
  \<open>2^-1000\<close>) the product stays below \<open>10^21\<close>, and what is printed is within half a
  cent, and one part in \<open>2^51\<close>, of the exact \<open>e / 1000 * 0.40\<close>.\<close>

lemma earnings_of_exact_product:
  assumes "r = 0 \<or> pow2 (- 1000) \<le> \<bar>r\<bar>" and "\<bar>r\<bar> \<le> 10 ^ 24"
  shows "\<exists>n. \<bar>of_nat n / 100 - \<bar>r * 4 / 10000\<bar>\<bar> \<le> 1 / 200 + \<bar>r * 4 / 10000\<bar> / 2 ^ 51
           \<and> calculateEarnings P (Some (Finite r))
               = ''$'' @ (if r < 0 then ''-'' else '''') @ natToString (n div 100) @ ''.''
                 @ [digitChar (n div 10), digitChar n]"
proof -
  define T where "T = r * 4 / 10000"
  have "\<exists>p. earningsDollars (Finite r) = Finite p \<and> \<bar>p - T\<bar> \<le> \<bar>T\<bar> / 2 ^ 51"
  proof (cases "r = 0")
    case True
    have "earningsDollars (Finite 0) = Finite 0"
      unfolding earningsDollars_def binary64_four_tenths by (simp add: binary64_def)
    with True show ?thesis by (simp add: T_def)
  next
    case False
    with assms(1) have "pow2 (- 1000) \<le> \<bar>r\<bar>" by simp
    from earningsDollars_error[OF this assms(2)] show ?thesis by (simp add: T_def)
  qed
  then obtain p where p: "earningsDollars (Finite r) = Finite p"
    and pe: "\<bar>p - T\<bar> \<le> \<bar>T\<bar> / 2 ^ 51" by blast
  have Tabs: "\<bar>T\<bar> = \<bar>r\<bar> * (4 / 10000)" by (simp add: T_def abs_mult)
  with assms(2) have Tup: "\<bar>T\<bar> \<le> 400000000000000000000" by simp
  have half: "\<bar>T\<bar> / 2 ^ 51 \<le> \<bar>T\<bar> / 2" by (simp add: divide_left_mono)
  have "\<bar>p\<bar> < 1000000000000000000000" using pe half Tup by linarith
  then have r: "\<bar>p\<bar> < 10 ^ 21" by simp
  have sgn: "(p < 0) = (r < 0)"
  proof (cases "r = 0")
    case True
    with pe show ?thesis by (simp add: T_def)
  next
    case False
    have rT: "(T < 0) = (r < 0)" "(0 < T) = (0 < r)"
      by (simp_all add: T_def divide_less_0_iff zero_less_divide_iff mult_less_0_iff zero_less_mult_iff)
    from False rT have "T \<noteq> 0" by (cases "r < 0") auto
    then have "\<bar>T\<bar> / 2 < \<bar>T\<bar>" by simp
    with pe half have "\<bar>p - T\<bar> < \<bar>T\<bar>" by linarith
    then have "(p < 0) = (T < 0)" by linarith
    with rT show ?thesis by simp
  qed
  let ?n = "nat \<lfloor>\<bar>p\<bar> * 100 + 1 / 2\<rfloor>"
  define a :: rat where "a = of_nat ?n / 100"
  define b where "b = \<bar>p\<bar>"
  define c where "c = \<bar>T\<bar>"
  have ab: "\<bar>a - b\<bar> \<le> 1 / 200" unfolding a_def b_def by (rule nearest_cent) simp
  have "\<bar>b - c\<bar> \<le> \<bar>p - T\<bar>" unfolding b_def c_def by (rule abs_triangle_ineq3)
  also note pe
  finally have bc: "\<bar>b - c\<bar> \<le> c / 2 ^ 51" by (simp only: c_def)
  define w where "w = c / 2 ^ 51"
  from ab bc have "\<bar>a - c\<bar> \<le> 1 / 200 + w" unfolding w_def[symmetric] by linarith
  then have "\<bar>of_nat ?n / 100 - \<bar>T\<bar>\<bar> \<le> 1 / 200 + \<bar>T\<bar> / 2 ^ 51"
    by (simp only: a_def c_def w_def)
  moreover have "calculateEarnings P (Some (Finite r))
               = ''$'' @ (if r < 0 then ''-'' else '''') @ natToString (?n div 100) @ ''.''
                 @ [digitChar (?n div 10), digitChar ?n]"
    by (simp add: calculateEarnings_def p toFixed_two[OF r] sgn)
  ultimately show ?thesis unfolding T_def by blast
qed

text \<open>
  Claim C10, as amended. For no energy value the earnings are shown as \<open>N/A\<close>. For an
  energy value \<open>e\<close> in Wh let \<open>p\<close> be the product \<open>(e / 1000) * 0.4\<close> as the code
  computes it. When \<open>p\<close> is finite and below \<open>10^21\<close> in absolute value, the earnings
  are the dollar sign, the sign of \<open>p\<close>, the digits of the dollars, a point and exactly
  two digits of cents, the amount printed being within half a cent of \<open>p\<close>. From
  \<open>10^21\<close> on the earnings are the dollar sign and the digits that \<open>Number::toString\<close>
  gives, which have no two decimals. For every \<open>e\<close> of at most \<open>10^24\<close> in absolute
  value (and not a nonzero one below \<open>2^-1000\<close>) the first case holds, and the amount
  printed is within half a cent, and one part in \<open>2^51\<close>, of the exact
  \<open>e / 1000 * 0.40\<close>.
\<close>

theorem earnings_display:
  "calculateEarnings P None = ''N/A''
   \<and> (earningsDollars e = Finite p \<and> \<bar>p\<bar> < 10 ^ 21 \<longrightarrow>
        (\<exists>n. \<bar>of_nat n / 100 - \<bar>p\<bar>\<bar> \<le> 1 / 200
           \<and> calculateEarnings P (Some e)
               = ''$'' @ (if p < 0 then ''-'' else '''') @ natToString (n div 100) @ ''.''
                 @ [digitChar (n div 10), digitChar n]))
   \<and> (earningsDollars e = Finite p \<and> 10 ^ 21 \<le> \<bar>p\<bar> \<longrightarrow>
        calculateEarnings P (Some e)
          = ''$'' @ (if p < 0 then ''-'' else '''') @ numberToString P \<bar>p\<bar>)
   \<and> ((r = 0 \<or> pow2 (- 1000) \<le> \<bar>r\<bar>) \<and> \<bar>r\<bar> \<le> 10 ^ 24 \<longrightarrow>
        (\<exists>n. \<bar>of_nat n / 100 - \<bar>r * 4 / 10000\<bar>\<bar> \<le> 1 / 200 + \<bar>r * 4 / 10000\<bar> / 2 ^ 51
           \<and> calculateEarnings P (Some (Finite r))
               = ''$'' @ (if r < 0 then ''-'' else '''') @ natToString (n div 100) @ ''.''
                 @ [digitChar (n div 10), digitChar n]))"
proof (intro conjI impI)
  show "calculateEarnings P None = ''N/A''" by (simp add: calculateEarnings_def)
next
  assume "earningsDollars e = Finite p \<and> \<bar>p\<bar> < 10 ^ 21"
  then have p: "earningsDollars e = Finite p" and r: "\<bar>p\<bar> < 10 ^ 21" by simp_all
  let ?n = "nat \<lfloor>\<bar>p\<bar> * 100 + 1 / 2\<rfloor>"
  have "\<bar>of_nat ?n / 100 - \<bar>p\<bar>\<bar> \<le> 1 / 200" by (rule nearest_cent) simp
  moreover have "calculateEarnings P (Some e)
               = ''$'' @ (if p < 0 then ''-'' else '''') @ natToString (?n div 100) @ ''.''
                 @ [digitChar (?n div 10), digitChar ?n]"
    by (simp add: calculateEarnings_def p toFixed_two[OF r])
  ultimately show "\<exists>n. \<bar>of_nat n / 100 - \<bar>p\<bar>\<bar> \<le> 1 / 200
           \<and> calculateEarnings P (Some e)
               = ''$'' @ (if p < 0 then ''-'' else '''') @ natToString (n div 100) @ ''.''
                 @ [digitChar (n div 10), digitChar n]"
    by blast
next
  assume "earningsDollars e = Finite p \<and> 10 ^ 21 \<le> \<bar>p\<bar>"
  then have p: "earningsDollars e = Finite p" and r: "10 ^ 21 \<le> \<bar>p\<bar>" by simp_all
  show "calculateEarnings P (Some e)
          = ''$'' @ (if p < 0 then ''-'' else '''') @ numberToString P \<bar>p\<bar>"
    by (simp add: calculateEarnings_def p toFixed_exponent[OF r])
next
  assume "(r = 0 \<or> pow2 (- 1000) \<le> \<bar>r\<bar>) \<and> \<bar>r\<bar> \<le> 10 ^ 24"
  then show "\<exists>n. \<bar>of_nat n / 100 - \<bar>r * 4 / 10000\<bar>\<bar> \<le> 1 / 200 + \<bar>r * 4 / 10000\<bar> / 2 ^ 51
           \<and> calculateEarnings P (Some (Finite r))
               = ''$'' @ (if r < 0 then ''-'' else '''') @ natToString (n div 100) @ ''.''
                 @ [digitChar (n div 10), digitChar n]"
    using earnings_of_exact_product by blast
qed

text \<open>For 6200 Wh the product is the binary64 value nearest to 2.48, and the earnings
  are \<open>$2.48\<close>. For 37.5 Wh the product is the binary64 value just below 0.015, and
  the earnings are \<open>$0.01\<close>.\<close>

theorem earnings_display_witness:
  "(\<exists>n. \<bar>of_nat n / 100 - \<bar>698057942242427 / 2 ^ 48 :: rat\<bar>\<bar> \<le> 1 / 200
        \<and> calculateEarnings samplePlatform (Some (Finite 6200))
            = ''$'' @ (if (698057942242427 / 2 ^ 48 :: rat) < 0 then ''-'' else '''')
              @ natToString (n div 100) @ ''.'' @ [digitChar (n div 10), digitChar n])
   \<and> (\<exists>n. \<bar>of_nat n / 100 - \<bar>6200 * 4 / 10000 :: rat\<bar>\<bar> \<le> 1 / 200 + \<bar>6200 * 4 / 10000\<bar> / 2 ^ 51
        \<and> calculateEarnings samplePlatform (Some (Finite 6200))
            = ''$'' @ (if (6200 :: rat) < 0 then ''-'' else '''')
              @ natToString (n div 100) @ ''.'' @ [digitChar (n div 10), digitChar n])
   \<and> calculateEarnings samplePlatform (Some (Finite 6200)) = ''$2.48''
   \<and> earningsDollars (Finite (75 / 2)) = Finite (1080863910568919 / 2 ^ 56)
   \<and> (1080863910568919 / 2 ^ 56 :: rat) < 15 / 1000
   \<and> calculateEarnings samplePlatform (Some (Finite (75 / 2))) = ''$0.01''
   \<and> calculateEarnings samplePlatform None = ''N/A''"
proof -
  note T = earnings_display [of samplePlatform "Finite 6200" "698057942242427 / 2 ^ 48" 6200]
  have p: "earningsDollars (Finite 6200) = Finite (698057942242427 / 2 ^ 48)
            \<and> \<bar>698057942242427 / 2 ^ 48 :: rat\<bar> < 10 ^ 21"
    by code_simp
  from T[THEN conjunct2, THEN conjunct1] p
  have a: "\<exists>n. \<bar>of_nat n / 100 - \<bar>698057942242427 / 2 ^ 48 :: rat\<bar>\<bar> \<le> 1 / 200
        \<and> calculateEarnings samplePlatform (Some (Finite 6200))
            = ''$'' @ (if (698057942242427 / 2 ^ 48 :: rat) < 0 then ''-'' else '''')
              @ natToString (n div 100) @ ''.'' @ [digitChar (n div 10), digitChar n]"
    by (rule mp)
  have "pow2 (- 1000) \<le> pow2 0" by (rule pow2_mono) simp
  then have "pow2 (- 1000) \<le> \<bar>6200\<bar>" by (simp add: pow2_def)
  then have h: "((6200 :: rat) = 0 \<or> pow2 (- 1000) \<le> \<bar>6200\<bar>) \<and> \<bar>6200 :: rat\<bar> \<le> 10 ^ 24"
    by simp
  from T[THEN conjunct2, THEN conjunct2, THEN conjunct2] h
  have a': "\<exists>n. \<bar>of_nat n / 100 - \<bar>6200 * 4 / 10000 :: rat\<bar>\<bar> \<le> 1 / 200 + \<bar>6200 * 4 / 10000\<bar> / 2 ^ 51
        \<and> calculateEarnings samplePlatform (Some (Finite 6200))
            = ''$'' @ (if (6200 :: rat) < 0 then ''-'' else '''')
              @ natToString (n div 100) @ ''.'' @ [digitChar (n div 10), digitChar n]"
    by (rule mp)
  have b: "calculateEarnings samplePlatform (Some (Finite 6200)) = ''$2.48''" by code_simp
  have c: "earningsDollars (Finite (75 / 2)) = Finite (1080863910568919 / 2 ^ 56)" by code_simp
  have d: "(1080863910568919 / 2 ^ 56 :: rat) < 15 / 1000" by simp
  have e: "calculateEarnings samplePlatform (Some (Finite (75 / 2))) = ''$0.01''" by code_simp
  from T have f: "calculateEarnings samplePlatform None = ''N/A''" by (rule conjunct1)
  from a a' b c d e f show ?thesis by (intro conjI)
qed

text \<open>The claim as it stands fails from \<open>10^21\<close> dollars on: for the binary64 value of
  \<open>2.5e24\<close> Wh the product is \<open>10^21\<close>, and the earnings are shown as \<open>$1e+21\<close>.\<close>

theorem earnings_without_decimals:
  "binary64 (25 * 10 ^ 23) = Finite 2500000000000000226492416
   \<and> earningsDollars (Finite 2500000000000000226492416) = Finite (10 ^ 21)
   \<and> calculateEarnings samplePlatform (Some (Finite 2500000000000000226492416)) = ''$1e+21''"
  by code_simp

end
